theory Spec2Isabelle
  imports Complex_Main
begin

section \<open>Floating-point numbers\<close>

text \<open>
  The notebook \<^verbatim>\<open>examples/simulations/sim_3_topo_residual.ipynb\<close> has three code
  cells. This theory embeds them: the array arithmetic of the epoch loop, and the
  sequence of library calls around it.

  Numbers. A floating-point value is a finite number, a zero of either sign, an
  infinity of either sign or \<^verbatim>\<open>nan\<close>; \<open>Finite 0\<close> is the positive zero. The arrays
  of the notebook hold binary32 or binary64 numbers (\<^verbatim>\<open>float32\<close>, \<^verbatim>\<open>float64\<close>), and
  every operation is carried out in one of the two formats: its exact result is
  rounded to the format, to the nearest number of the format and to the one with
  an even significand when two are as near, it overflows to an infinity and it
  underflows through the subnormal numbers to a zero. NumPy evaluates the
  operations of the notebook elementwise without raising (a division by zero, an
  overflow and an invalid operation are warnings in its default error state),
  with the results of IEEE 754:
  \<^item> \<^verbatim>\<open>nan\<close> in an operand gives \<^verbatim>\<open>nan\<close>;
  \<^item> an infinity times a zero, an infinity divided by an infinity, a zero divided
    by a zero and the difference of two infinities of one sign are \<^verbatim>\<open>nan\<close>;
  \<^item> a product or quotient has the sign that its operands' signs give it, also
    when it is a zero or an infinity: a nonzero number divided by a zero is an
    infinity, and a finite number divided by an infinity is a zero;
  \<^item> a difference that is zero is the positive zero, but for \<open>-0 - +0\<close>.
\<close>

datatype npfloat = Finite real | NegZero | PosInf | NegInf | NaN

datatype dtype = Float32 | Float64

fun signbit :: "npfloat \<Rightarrow> bool" where
  "signbit (Finite a) = (a < 0)"
| "signbit NegZero = True"
| "signbit PosInf = False"
| "signbit NegInf = True"
| "signbit NaN = False"

fun is_finite :: "npfloat \<Rightarrow> bool" where
  "is_finite (Finite a) = True"
| "is_finite NegZero = True"
| "is_finite a = False"

fun is_inf :: "npfloat \<Rightarrow> bool" where
  "is_inf PosInf = True"
| "is_inf NegInf = True"
| "is_inf a = False"

fun is_zero :: "npfloat \<Rightarrow> bool" where
  "is_zero (Finite a) = (a = 0)"
| "is_zero NegZero = True"
| "is_zero a = False"

text \<open>The number a finite value stands for.\<close>

fun value_of :: "npfloat \<Rightarrow> real" where
  "value_of (Finite a) = a"
| "value_of a = 0"

definition signed_zero :: "bool \<Rightarrow> npfloat" where
  "signed_zero neg = (if neg then NegZero else Finite 0)"

definition signed_inf :: "bool \<Rightarrow> npfloat" where
  "signed_inf neg = (if neg then NegInf else PosInf)"

text \<open>
  The two formats: the number of bits of the significand and the largest
  exponent; the smallest exponent of a normal number is \<open>1 - emax\<close>.
\<close>

fun precision :: "dtype \<Rightarrow> int" where
  "precision Float32 = 24"
| "precision Float64 = 53"

fun emax :: "dtype \<Rightarrow> int" where
  "emax Float32 = 127"
| "emax Float64 = 1023"

definition pow2 :: "int \<Rightarrow> real" where
  "pow2 k = (if 0 \<le> k then 2 ^ nat k else 1 / 2 ^ nat (- k))"

text \<open>The nearest integer, the even one of the two when they are as near.\<close>

definition round_half_even :: "real \<Rightarrow> int" where
  "round_half_even x =
     (if x - of_int \<lfloor>x\<rfloor> < 1 / 2 then \<lfloor>x\<rfloor>
      else if 1 / 2 < x - of_int \<lfloor>x\<rfloor> then \<lfloor>x\<rfloor> + 1
      else if even \<lfloor>x\<rfloor> then \<lfloor>x\<rfloor> else \<lfloor>x\<rfloor> + 1)"

text \<open>
  The distance between two neighbours of the format around \<open>v\<close>: with
  \<open>2 ^ e \<le> \<bar>v\<bar> < 2 ^ (e + 1)\<close> it is \<open>2 ^ (e - (p - 1))\<close>, and below the normal
  numbers it is that of the subnormal ones.
\<close>

definition quantum :: "dtype \<Rightarrow> real \<Rightarrow> real" where
  "quantum dt v = pow2 (max \<lfloor>log 2 \<bar>v\<bar>\<rfloor> (1 - emax dt) - (precision dt - 1))"

text \<open>
  A number is rounded to an infinity from the middle between the largest number
  of the format and \<open>2 ^ (emax + 1)\<close> on.
\<close>

definition overflow_threshold :: "dtype \<Rightarrow> real" where
  "overflow_threshold dt = (2 - pow2 (- precision dt)) * pow2 (emax dt)"

text \<open>The rounding of a real number to a format.\<close>

definition fl :: "dtype \<Rightarrow> real \<Rightarrow> npfloat" where
  "fl dt v =
     (if overflow_threshold dt \<le> \<bar>v\<bar> then signed_inf (v < 0)
      else if round_half_even (\<bar>v\<bar> / quantum dt v) = 0 then signed_zero (v < 0)
      else Finite (sgn v * (of_int (round_half_even (\<bar>v\<bar> / quantum dt v)) * quantum dt v)))"

text \<open>
  A finite result: the zero of the sign given when the exact result is zero, and
  the rounding of the exact result otherwise.
\<close>

definition finite_result :: "dtype \<Rightarrow> bool \<Rightarrow> real \<Rightarrow> npfloat" where
  "finite_result dt neg v = (if v = 0 then signed_zero neg else fl dt v)"

text \<open>The three operations of the notebook, carried out in the format \<open>dt\<close>.\<close>

definition np_multiply :: "dtype \<Rightarrow> npfloat \<Rightarrow> npfloat \<Rightarrow> npfloat" where
  "np_multiply dt a b =
     (if a = NaN \<or> b = NaN then NaN
      else if is_inf a \<or> is_inf b
      then (if is_zero a \<or> is_zero b then NaN else signed_inf (signbit a \<noteq> signbit b))
      else finite_result dt (signbit a \<noteq> signbit b) (value_of a * value_of b))"

definition np_divide :: "dtype \<Rightarrow> npfloat \<Rightarrow> npfloat \<Rightarrow> npfloat" where
  "np_divide dt a b =
     (if a = NaN \<or> b = NaN then NaN
      else if is_inf a
      then (if is_inf b then NaN else signed_inf (signbit a \<noteq> signbit b))
      else if is_inf b then signed_zero (signbit a \<noteq> signbit b)
      else if is_zero b
      then (if is_zero a then NaN else signed_inf (signbit a \<noteq> signbit b))
      else finite_result dt (signbit a \<noteq> signbit b) (value_of a / value_of b))"

definition np_subtract :: "dtype \<Rightarrow> npfloat \<Rightarrow> npfloat \<Rightarrow> npfloat" where
  "np_subtract dt a b =
     (if a = NaN \<or> b = NaN then NaN
      else if is_inf a
      then (if is_inf b \<and> signbit a = signbit b then NaN else a)
      else if is_inf b then signed_inf (\<not> signbit b)
      else if value_of a = value_of b
      then signed_zero (is_zero a \<and> signbit a \<and> \<not> signbit b)
      else fl dt (value_of a - value_of b))"

text \<open>
  The conversion of a value to a format (\<^verbatim>\<open>astype\<close>), and the conversion NumPy
  makes between the two element types: a float32 number is a float64 number, so
  only the conversion from float64 to float32 changes a value.
\<close>

fun astype :: "dtype \<Rightarrow> npfloat \<Rightarrow> npfloat" where
  "astype dt (Finite a) = (if a = 0 then Finite 0 else fl dt a)"
| "astype dt a = a"

definition cast :: "dtype \<Rightarrow> dtype \<Rightarrow> npfloat \<Rightarrow> npfloat" where
  "cast src dst a = (if src = Float64 \<and> dst = Float32 then astype Float32 a else a)"

text \<open>
  The element type of a result, in NumPy before version 2 (the notebook's kernel
  is Python 3.6). For two arrays it is the wider of the two element types
  (\<^verbatim>\<open>np.promote_types\<close>). For an array and a scalar (a Python \<^verbatim>\<open>float\<close>, which is a
  float64, or an element taken from an array, such as \<^verbatim>\<open>pbase[i]\<close>) it depends on
  the value of the scalar: the scalar counts as a float64 only when it is finite
  and too large for a float32, which NumPy decides by comparing it with the
  float64 constant \<^verbatim>\<open>3.4e38\<close>.
\<close>

definition promote_types :: "dtype \<Rightarrow> dtype \<Rightarrow> dtype" where
  "promote_types a b = (if a = Float64 \<or> b = Float64 then Float64 else Float32)"

definition float32_limit :: real where
  "float32_limit = 339999999999999996123846586046231871488"

definition result_type :: "dtype \<Rightarrow> dtype \<Rightarrow> npfloat \<Rightarrow> dtype" where
  "result_type adt sdt s =
     (if adt = Float64 then Float64
      else if sdt = Float64 \<and> is_finite s \<and> float32_limit \<le> \<bar>value_of s\<bar> then Float64
      else Float32)"

text \<open>\<^verbatim>\<open>np.pi\<close>, the float64 number nearest to \<open>\<pi>\<close>.\<close>

definition np_pi :: npfloat where
  "np_pi = Finite (884279719003555 / 281474976710656)"

section \<open>Exceptions and arrays\<close>

text \<open>
  Exceptions are values: \<open>IndexError\<close> and \<open>ValueError\<close> are what indexing and
  broadcasting raise; \<open>Raised name\<close> is any exception a library call raises.
\<close>

datatype exn = IndexError | ValueError | Raised string

definition bindE :: "exn + 'a \<Rightarrow> ('a \<Rightarrow> exn + 'b) \<Rightarrow> exn + 'b" where
  "bindE m f = (case m of Inl e \<Rightarrow> Inl e | Inr v \<Rightarrow> f v)"

text \<open>
  An array is its element type, its shape and its elements, which are taken to
  be numbers of the element type. Elements outside the shape do not exist in
  NumPy: an element inside the shape of a result never depends on one outside the
  shape of an argument, and the statements below speak about elements inside the
  shape only.
\<close>

record arr1 =
  dtype1 :: dtype
  items1 :: "npfloat list"

record arr2 =
  dtype2 :: dtype
  nrows :: nat
  ncols :: nat
  item2 :: "nat \<Rightarrow> nat \<Rightarrow> npfloat"

record arr3 =
  dtype3 :: dtype
  ndates :: nat
  nrows3 :: nat
  ncols3 :: nat
  item3 :: "nat \<Rightarrow> nat \<Rightarrow> nat \<Rightarrow> npfloat"

definition shape2 :: "arr2 \<Rightarrow> nat \<times> nat" where
  "shape2 a = (nrows a, ncols a)"

definition shape3 :: "arr3 \<Rightarrow> nat \<times> nat \<times> nat" where
  "shape3 a = (ndates a, nrows3 a, ncols3 a)"

text \<open>
  NumPy's broadcasting of one axis: two lengths are compatible when they are equal
  or one of them is 1, and an axis of length 1 is read at index 0 whatever the
  index asked for.
\<close>

definition bdim :: "nat \<Rightarrow> nat \<Rightarrow> nat option" where
  "bdim m n = (if m = n then Some m else if m = 1 then Some n
               else if n = 1 then Some m else None)"

definition bix :: "nat \<Rightarrow> nat \<Rightarrow> nat" where
  "bix n k = (if n = 1 then 0 else k)"

text \<open>
  An elementwise binary operation on two arrays (\<^verbatim>\<open>a * b\<close>, \<^verbatim>\<open>a / b\<close>), carried out
  in the wider of the two element types, to which no element changes when it is
  converted.
\<close>

definition array_op ::
  "(dtype \<Rightarrow> npfloat \<Rightarrow> npfloat \<Rightarrow> npfloat) \<Rightarrow> arr2 \<Rightarrow> arr2 \<Rightarrow> exn + arr2" where
  "array_op f a b =
     (case bdim (nrows a) (nrows b) of
        None \<Rightarrow> Inl ValueError
      | Some r \<Rightarrow>
         (case bdim (ncols a) (ncols b) of
            None \<Rightarrow> Inl ValueError
          | Some c \<Rightarrow>
              Inr \<lparr>dtype2 = promote_types (dtype2 a) (dtype2 b), nrows = r, ncols = c,
                   item2 = (\<lambda>y x. f (promote_types (dtype2 a) (dtype2 b))
                                    (item2 a (bix (nrows a) y) (bix (ncols a) x))
                                    (item2 b (bix (nrows b) y) (bix (ncols b) x)))\<rparr>))"

text \<open>
  An operation of an array with a scalar \<open>s\<close> of the element type \<open>sdt\<close>
  (\<^verbatim>\<open>a * s\<close>, \<^verbatim>\<open>a / s\<close>): it is carried out in the element type of the result, to
  which the scalar is converted.
\<close>

definition scalar_op ::
  "(dtype \<Rightarrow> npfloat \<Rightarrow> npfloat \<Rightarrow> npfloat) \<Rightarrow> arr2 \<Rightarrow> dtype \<Rightarrow> npfloat \<Rightarrow> arr2" where
  "scalar_op f a sdt s =
     \<lparr>dtype2 = result_type (dtype2 a) sdt s, nrows = nrows a, ncols = ncols a,
      item2 = (\<lambda>y x. f (result_type (dtype2 a) sdt s) (item2 a y x)
                        (cast sdt (result_type (dtype2 a) sdt s) s))\<rparr>"

text \<open>
  A function of one argument applied to every element, in the element type of
  the array (\<^verbatim>\<open>np.sin(a)\<close>).
\<close>

definition unary_op :: "(dtype \<Rightarrow> npfloat \<Rightarrow> npfloat) \<Rightarrow> arr2 \<Rightarrow> arr2" where
  "unary_op f a = a\<lparr>item2 := (\<lambda>y x. f (dtype2 a) (item2 a y x))\<rparr>"

text \<open>
  An operation in place of a one-dimensional array with a scalar (\<^verbatim>\<open>a -= s\<close>,
  \<^verbatim>\<open>a *= s\<close>): the array keeps its element type, to which the result is converted.
\<close>

definition inplace_op ::
  "(dtype \<Rightarrow> npfloat \<Rightarrow> npfloat \<Rightarrow> npfloat) \<Rightarrow> arr1 \<Rightarrow> dtype \<Rightarrow> npfloat \<Rightarrow> arr1" where
  "inplace_op f a sdt s =
     a\<lparr>items1 :=
         map (\<lambda>v. cast (result_type (dtype1 a) sdt s) (dtype1 a)
                    (f (result_type (dtype1 a) sdt s) v
                       (cast sdt (result_type (dtype1 a) sdt s) s)))
           (items1 a)\<rparr>"

text \<open>\<^verbatim>\<open>xs[i]\<close> for an index that is not negative.\<close>

definition getitem :: "'a list \<Rightarrow> nat \<Rightarrow> exn + 'a" where
  "getitem xs i = (if i < length xs then Inr (xs ! i) else Inl IndexError)"

text \<open>\<^verbatim>\<open>np.zeros((n, l, w), np.float32)\<close>\<close>

definition np_zeros :: "nat \<Rightarrow> nat \<Rightarrow> nat \<Rightarrow> dtype \<Rightarrow> arr3" where
  "np_zeros n l w dt =
     \<lparr>dtype3 = dt, ndates = n, nrows3 = l, ncols3 = w, item3 = (\<lambda>k y x. Finite 0)\<rparr>"

text \<open>
  \<^verbatim>\<open>ts_data[i,:,:] = v\<close>: the index must exist, and \<open>v\<close> must broadcast to the shape
  of the slice; the array keeps its shape and its element type, to which the
  elements of \<open>v\<close> are converted.
\<close>

definition setitem_epoch :: "arr3 \<Rightarrow> nat \<Rightarrow> arr2 \<Rightarrow> exn + arr3" where
  "setitem_epoch ts i v =
     (if \<not> i < ndates ts then Inl IndexError
      else if (nrows v = nrows3 ts \<or> nrows v = 1) \<and> (ncols v = ncols3 ts \<or> ncols v = 1)
      then Inr (ts\<lparr>item3 := (\<lambda>k y x. if k = i
                                      then cast (dtype2 v) (dtype3 ts)
                                             (item2 v (bix (nrows v) y) (bix (ncols v) x))
                                      else item3 ts k y x)\<rparr>)
      else Inl ValueError)"

text \<open>\<^verbatim>\<open>a.astype(dt)\<close> for an array of three dimensions.\<close>

definition astype3 :: "dtype \<Rightarrow> arr3 \<Rightarrow> arr3" where
  "astype3 dt a = a\<lparr>dtype3 := dt, item3 := (\<lambda>k y x. cast (dtype3 a) dt (item3 a k y x))\<rparr>"

section \<open>The computation of the second cell\<close>

text \<open>
  NumPy's sine. The sine of a zero is that zero, and the sine of an infinity or
  of \<^verbatim>\<open>nan\<close> is \<^verbatim>\<open>nan\<close>. On the other numbers its values are those of the platform's
  mathematical library, whose rounding IEEE 754 does not fix: there the function
  is a parameter \<open>sine\<close> of the model, taking the element type and the number. All
  the statements hold for every function \<open>sine\<close>.
\<close>

fun np_sin :: "(dtype \<Rightarrow> real \<Rightarrow> npfloat) \<Rightarrow> dtype \<Rightarrow> npfloat \<Rightarrow> npfloat" where
  "np_sin sine dt (Finite a) = (if a = 0 then Finite 0 else sine dt a)"
| "np_sin sine dt NegZero = NegZero"
| "np_sin sine dt a = NaN"

text \<open>
  Lines 41 and 42: \<^verbatim>\<open>pbase = np.array(ts_obj.pbase); pbase -= pbase[0]\<close>.
  Line 75: \<^verbatim>\<open>pbase *= 10.\<close>
\<close>

definition normalize_pbase :: "arr1 \<Rightarrow> exn + arr1" where
  "normalize_pbase pbase =
     bindE (getitem (items1 pbase) 0) (\<lambda>p0.
     Inr (inplace_op np_subtract pbase (dtype1 pbase) p0))"

definition amplify :: "arr1 \<Rightarrow> arr1" where
  "amplify pbase = inplace_op np_multiply pbase Float64 (Finite 10)"

text \<open>
  The right-hand side of line 80,
  \<^verbatim>\<open>dem_err * pbase[i] / (rg_dist * np.sin(inc_angle * np.pi / 180.))\<close>,
  in Python's order of evaluation.
\<close>

definition epoch_phase ::
  "(dtype \<Rightarrow> real \<Rightarrow> npfloat) \<Rightarrow> arr2 \<Rightarrow> arr1 \<Rightarrow> arr2 \<Rightarrow> arr2 \<Rightarrow> nat \<Rightarrow> exn + arr2" where
  "epoch_phase sine dem_err pbase rg_dist inc_angle i =
     bindE (getitem (items1 pbase) i) (\<lambda>p.
     bindE (array_op np_multiply rg_dist
              (unary_op (np_sin sine)
                 (scalar_op np_divide
                    (scalar_op np_multiply inc_angle Float64 np_pi) Float64 (Finite 180))))
       (\<lambda>den.
     array_op np_divide (scalar_op np_multiply dem_err (dtype1 pbase) p) den))"

text \<open>Lines 79 and 80: the loop over \<^verbatim>\<open>range(num_date)\<close>.\<close>

fun epoch_loop ::
  "(dtype \<Rightarrow> real \<Rightarrow> npfloat) \<Rightarrow> arr2 \<Rightarrow> arr1 \<Rightarrow> arr2 \<Rightarrow> arr2 \<Rightarrow> nat list \<Rightarrow> arr3
     \<Rightarrow> exn + arr3" where
  "epoch_loop sine dem_err pbase rg_dist inc_angle [] ts_data = Inr ts_data"
| "epoch_loop sine dem_err pbase rg_dist inc_angle (i # rest) ts_data =
     bindE (epoch_phase sine dem_err pbase rg_dist inc_angle i) (\<lambda>v.
     bindE (setitem_epoch ts_data i v)
       (epoch_loop sine dem_err pbase rg_dist inc_angle rest))"

text \<open>Lines 78 to 80.\<close>

definition topo_resid ::
  "(dtype \<Rightarrow> real \<Rightarrow> npfloat) \<Rightarrow> arr2 \<Rightarrow> arr1 \<Rightarrow> arr2 \<Rightarrow> arr2 \<Rightarrow> nat \<Rightarrow> nat \<Rightarrow> nat
     \<Rightarrow> exn + arr3" where
  "topo_resid sine dem_err pbase rg_dist inc_angle num_date length' width =
     epoch_loop sine dem_err pbase rg_dist inc_angle [0..<num_date]
       (np_zeros num_date length' width Float32)"

text \<open>
  The one-line form of the same computation, written from the specification's
  words (a three-dimensional array computed by broadcasting the one-dimensional
  baseline array against the two-dimensional geometry arrays): in NumPy,
  \<^verbatim>\<open>dem_err * pbase[:,None,None] / (rg_dist * np.sin(inc_angle * np.pi / 180.))\<close>.
  Here \<^verbatim>\<open>pbase[:,None,None]\<close> is an array, so the product is carried out in the
  wider of the element types of \<^verbatim>\<open>dem_err\<close> and \<^verbatim>\<open>pbase\<close>, and the result has the
  element type the operands give it. It is compared with the loop below.
\<close>

definition broadcast_resid ::
  "(dtype \<Rightarrow> real \<Rightarrow> npfloat) \<Rightarrow> arr2 \<Rightarrow> arr1 \<Rightarrow> arr2 \<Rightarrow> arr2 \<Rightarrow> exn + arr3" where
  "broadcast_resid sine dem_err pbase rg_dist inc_angle =
     bindE (array_op np_multiply rg_dist
              (unary_op (np_sin sine)
                 (scalar_op np_divide
                    (scalar_op np_multiply inc_angle Float64 np_pi) Float64 (Finite 180))))
       (\<lambda>den.
     case bdim (nrows dem_err) (nrows den) of
       None \<Rightarrow> Inl ValueError
     | Some r \<Rightarrow>
        (case bdim (ncols dem_err) (ncols den) of
           None \<Rightarrow> Inl ValueError
         | Some c \<Rightarrow>
             Inr \<lparr>dtype3 = promote_types (promote_types (dtype2 dem_err) (dtype1 pbase))
                             (dtype2 den),
                  ndates = length (items1 pbase), nrows3 = r, ncols3 = c,
                  item3 = (\<lambda>i y x.
                    np_divide
                      (promote_types (promote_types (dtype2 dem_err) (dtype1 pbase))
                         (dtype2 den))
                      (np_multiply (promote_types (dtype2 dem_err) (dtype1 pbase))
                         (item2 dem_err (bix (nrows dem_err) y) (bix (ncols dem_err) x))
                         (items1 pbase ! i))
                      (item2 den (bix (nrows den) y) (bix (ncols den) x)))\<rparr>))"

text \<open>
  Two arrays are the same array when they have the same shape, the same element
  type and the same element at every index of the shape.
\<close>

definition same_arr3 :: "arr3 \<Rightarrow> arr3 \<Rightarrow> bool" where
  "same_arr3 a b \<longleftrightarrow>
     shape3 a = shape3 b \<and> dtype3 a = dtype3 b \<and>
     (\<forall>i < ndates a. \<forall>y < nrows3 a. \<forall>x < ncols3 a. item3 a i y x = item3 b i y x)"

section \<open>The cells of the notebook\<close>

text \<open>
  The notebook calls \<^verbatim>\<open>os\<close>, the \<^verbatim>\<open>pysar\<close> package and the shell. Their code is not
  in the notebook, so they are parameters of the model: a record of functions over
  a world \<open>'w\<close> outside the notebook (the file system, the environment, the working
  directory). A call that raises returns \<open>Inl\<close>; a call that only reads returns a
  value, and \<^verbatim>\<open>os.chdir\<close>, \<^verbatim>\<open>writefile.write\<close> and the shell return the new world.
  \<^item> \<open>readfile_read file datasetName\<close> is \<^verbatim>\<open>readfile.read(file, datasetName=...)[0]\<close>,
    the data of the pair the call returns;
  \<^item> \<open>timeseries_open file\<close> is \<^verbatim>\<open>ts_obj = timeseries(file); ts_obj.open()\<close>, giving
    the attributes the notebook reads;
  \<^item> \<open>system cmd\<close> is IPython's \<^verbatim>\<open>!cmd\<close>, which does not raise when the command fails.
  The \<^verbatim>\<open>import\<close> lines and \<^verbatim>\<open>%matplotlib inline\<close> are not modelled. The arrays
  the library returns are arrays of float32 or float64 numbers.
\<close>

record ts_obj =
  ts_pbase :: arr1
  numDate :: nat
  ts_length :: nat
  ts_width :: nat

record 'w library =
  expandvars :: "string \<Rightarrow> 'w \<Rightarrow> string"
  expanduser :: "string \<Rightarrow> 'w \<Rightarrow> string"
  chdir :: "string \<Rightarrow> 'w \<Rightarrow> exn + 'w"
  isfile :: "string \<Rightarrow> 'w \<Rightarrow> bool"
  project_name2sensor_name :: "string \<Rightarrow> 'w \<Rightarrow> exn + string list"
  timeseries_open :: "string \<Rightarrow> 'w \<Rightarrow> exn + ts_obj"
  readfile_read :: "string \<Rightarrow> string option \<Rightarrow> 'w \<Rightarrow> exn + arr2"
  writefile_write :: "arr3 \<Rightarrow> string \<Rightarrow> string \<Rightarrow> 'w \<Rightarrow> exn + 'w"
  system :: "string \<Rightarrow> 'w \<Rightarrow> 'w"

text \<open>
  What a cell does is recorded: a cell that completes appends to the trace, in the
  order of the source, every call it made that acts on the world or reads a file
  and every line it printed. A cell that raises returns the exception only.
\<close>

datatype event =
    Print string
  | Chdir string
  | OpenTimeseries string
  | ReadFile string "string option"
  | WriteFile arr3 string string
  | Shell string

record 'w world =
  ext :: 'w
  trace :: "event list"

text \<open>The notebook's variables after the first cell.\<close>

record globals =
  work_dir :: string
  proj_dir :: string
  ts_file :: string
  geom_file :: string
  dem_err_file :: string
  sensorName :: string
  pbase :: arr1
  num_date :: nat
  length' :: nat
  width :: nat
  out_file :: string
  ts_data :: "arr3 option"

text \<open>\<^verbatim>\<open>os.path.join(a, b)\<close> on a POSIX system.\<close>

definition path_join :: "string \<Rightarrow> string \<Rightarrow> string" where
  "path_join a b =
     (if b \<noteq> [] \<and> hd b = CHR ''/'' then b
      else if a = [] \<or> last a = CHR ''/'' then a @ b
      else a @ ''/'' @ b)"

text \<open>The first cell (lines 18 to 47).\<close>

definition cell0 :: "'w library \<Rightarrow> 'w world \<Rightarrow> exn + (globals \<times> 'w world)" where
  "cell0 E w =
     (let wd = expandvars E ''$PNOTE/phaseCorrection_order'' (ext w) in
      bindE (chdir E wd (ext w)) (\<lambda>x.
      let pd = expanduser E ''~/insarlab/PYSAR_EXAMPLE/AlcedoSenDT128/PYSAR'' x;
          tsf = path_join pd ''timeseries.h5'';
          gf = path_join pd ''INPUTS/geometryRadar.h5'';
          df = path_join pd ''demErr.h5''
      in
      bindE (project_name2sensor_name E tsf x) (\<lambda>names.
      bindE (getitem names 0) (\<lambda>sn.
      bindE (timeseries_open E tsf x) (\<lambda>tso.
      bindE (normalize_pbase (ts_pbase tso)) (\<lambda>pb.
      Inr (\<lparr>work_dir = wd, proj_dir = pd, ts_file = tsf, geom_file = gf,
             dem_err_file = df, sensorName = sn, pbase = pb,
             num_date = numDate tso, length' = ts_length tso, width = ts_width tso,
             out_file = ''sim_topoResid.h5'', ts_data = None\<rparr>,
           \<lparr>ext = x,
             trace = trace w @ [Chdir wd, Print (''Go to directory: '' @ wd),
                                OpenTimeseries tsf]\<rparr>)))))))"

text \<open>The second cell (lines 70 to 84); \<open>sine\<close> is NumPy's sine.\<close>

definition cell1 ::
  "(dtype \<Rightarrow> real \<Rightarrow> npfloat) \<Rightarrow> 'w library \<Rightarrow> globals \<times> 'w world
     \<Rightarrow> exn + (globals \<times> 'w world)" where
  "cell1 sine E s =
     (case s of (g, w) \<Rightarrow>
      if \<not> isfile E (out_file g) (ext w) then
        bindE (readfile_read E (geom_file g) (Some ''incidenceAngle'') (ext w)) (\<lambda>inc_angle.
        bindE (readfile_read E (geom_file g) (Some ''slantRangeDistance'') (ext w)) (\<lambda>rg_dist.
        let pb = amplify (pbase g) in
        bindE (readfile_read E (dem_err_file g) None (ext w)) (\<lambda>dem_err.
        bindE (topo_resid sine dem_err pb rg_dist inc_angle (num_date g) (length' g) (width g))
          (\<lambda>ts.
        bindE (writefile_write E ts (out_file g) (ts_file g) (ext w)) (\<lambda>x.
        Inr (g\<lparr>pbase := pb, ts_data := Some ts\<rparr>,
             \<lparr>ext = x,
               trace = trace w @
                 [ReadFile (geom_file g) (Some ''incidenceAngle''),
                  ReadFile (geom_file g) (Some ''slantRangeDistance''),
                  ReadFile (dem_err_file g) None,
                  WriteFile ts (out_file g) (ts_file g),
                  Print (''write simulated topographic residual time-series to file ''
                         @ out_file g),
                  Print ''Done.'']\<rparr>))))))
      else Inr (g, w\<lparr>trace := trace w @ [Print ''Done.'']\<rparr>))"

text \<open>The third cell (line 129): \<^verbatim>\<open>!view.py $out_file -n 4\<close>.\<close>

definition cell2 :: "'w library \<Rightarrow> globals \<times> 'w world \<Rightarrow> exn + (globals \<times> 'w world)" where
  "cell2 E s =
     (case s of (g, w) \<Rightarrow>
      let cmd = ''view.py '' @ out_file g @ '' -n 4'' in
      Inr (g, \<lparr>ext = system E cmd (ext w), trace = trace w @ [Shell cmd]\<rparr>))"

text \<open>Running the notebook: the cells in order, stopping at the first exception.\<close>

definition notebook ::
  "(dtype \<Rightarrow> real \<Rightarrow> npfloat) \<Rightarrow> 'w library \<Rightarrow> 'w world \<Rightarrow> exn + (globals \<times> 'w world)" where
  "notebook sine E w = bindE (cell0 E w) (\<lambda>s0. bindE (cell1 sine E s0) (cell2 E))"

section \<open>Notions used by the statements\<close>

text \<open>
  The rasters and the baseline array have compatible shapes for a time-series of
  shape \<open>(n, l, w)\<close> when there is one baseline per date and the three rasters
  broadcast together to the shape \<open>(l, w)\<close>.
\<close>

definition compatible_shapes :: "arr2 \<Rightarrow> arr1 \<Rightarrow> arr2 \<Rightarrow> arr2 \<Rightarrow> nat \<Rightarrow> nat \<Rightarrow> nat \<Rightarrow> bool" where
  "compatible_shapes dem pb rg inc n l w \<longleftrightarrow>
     length (items1 pb) = n \<and>
     Option.bind (bdim (nrows rg) (nrows inc)) (bdim (nrows dem)) = Some l \<and>
     Option.bind (bdim (ncols rg) (ncols inc)) (bdim (ncols dem)) = Some w"

text \<open>
  The arithmetic of line 80 on one element of each raster and one baseline, with
  the element types \<open>de\<close>, \<open>dp\<close>, \<open>dr\<close> and \<open>di\<close> of \<^verbatim>\<open>dem_err\<close>, \<^verbatim>\<open>pbase\<close>, \<^verbatim>\<open>rg_dist\<close>
  and \<^verbatim>\<open>inc_angle\<close>:
  \<^item> \<open>sin_deg\<close> is \<^verbatim>\<open>np.sin(a * np.pi / 180.)\<close>, in the element type of \<^verbatim>\<open>inc_angle\<close>,
    to which the two Python numbers are converted;
  \<^item> \<open>denominator\<close> is \<^verbatim>\<open>r * np.sin(a * np.pi / 180.)\<close>, in the wider of the element
    types of \<^verbatim>\<open>rg_dist\<close> and \<^verbatim>\<open>inc_angle\<close>;
  \<^item> \<open>phase_at\<close> is \<^verbatim>\<open>d * p / (r * np.sin(a * np.pi / 180.))\<close>: the product \<open>d * p\<close> in
    the element type that \<^verbatim>\<open>dem_err\<close> and the scalar \<open>p\<close> give, and the quotient in
    the wider of the element types of its operands, which is \<open>phase_dtype\<close>.
  The value the loop stores is \<open>phase_at\<close> converted from \<open>phase_dtype\<close> to float32.
  \<open>pixel_phase\<close> is the element at \<open>(y, x)\<close> of the right-hand side of line 80, each
  raster read through its own broadcasting.
\<close>

definition sin_deg :: "(dtype \<Rightarrow> real \<Rightarrow> npfloat) \<Rightarrow> dtype \<Rightarrow> npfloat \<Rightarrow> npfloat" where
  "sin_deg sine di a =
     np_sin sine di (np_divide di (np_multiply di a (cast Float64 di np_pi))
                (cast Float64 di (Finite 180)))"

definition denominator ::
  "(dtype \<Rightarrow> real \<Rightarrow> npfloat) \<Rightarrow> dtype \<Rightarrow> dtype \<Rightarrow> npfloat \<Rightarrow> npfloat \<Rightarrow> npfloat" where
  "denominator sine dr di r a = np_multiply (promote_types dr di) r (sin_deg sine di a)"

definition phase_dtype :: "dtype \<Rightarrow> dtype \<Rightarrow> npfloat \<Rightarrow> dtype \<Rightarrow> dtype \<Rightarrow> dtype" where
  "phase_dtype de dp p dr di = promote_types (result_type de dp p) (promote_types dr di)"

definition phase_at ::
  "(dtype \<Rightarrow> real \<Rightarrow> npfloat) \<Rightarrow> dtype \<Rightarrow> dtype \<Rightarrow> dtype \<Rightarrow> dtype
     \<Rightarrow> npfloat \<Rightarrow> npfloat \<Rightarrow> npfloat \<Rightarrow> npfloat \<Rightarrow> npfloat" where
  "phase_at sine de dp dr di d p r a =
     np_divide (phase_dtype de dp p dr di)
       (np_multiply (result_type de dp p) d (cast dp (result_type de dp p) p))
       (denominator sine dr di r a)"

definition pixel_phase ::
  "(dtype \<Rightarrow> real \<Rightarrow> npfloat) \<Rightarrow> arr2 \<Rightarrow> dtype \<Rightarrow> npfloat \<Rightarrow> arr2 \<Rightarrow> arr2 \<Rightarrow> nat \<Rightarrow> nat
     \<Rightarrow> npfloat" where
  "pixel_phase sine dem dp p rg inc y x =
     cast (phase_dtype (dtype2 dem) dp p (dtype2 rg) (dtype2 inc)) Float32
       (phase_at sine (dtype2 dem) dp (dtype2 rg) (dtype2 inc)
          (item2 dem (bix (nrows dem) y) (bix (ncols dem) x)) p
          (item2 rg (bix (nrows rg) y) (bix (ncols rg) x))
          (item2 inc (bix (nrows inc) y) (bix (ncols inc) x)))"

text \<open>
  The files written (their names, and the arrays), the shell commands issued and
  the datasets read, read off a list of events.
\<close>

fun written_files :: "event list \<Rightarrow> string list" where
  "written_files [] = []"
| "written_files (WriteFile ts out ref # es) = out # written_files es"
| "written_files (e # es) = written_files es"

fun shell_commands :: "event list \<Rightarrow> string list" where
  "shell_commands [] = []"
| "shell_commands (Shell cmd # es) = cmd # shell_commands es"
| "shell_commands (e # es) = shell_commands es"

fun written_arrays :: "event list \<Rightarrow> arr3 list" where
  "written_arrays [] = []"
| "written_arrays (WriteFile ts out ref # es) = ts # written_arrays es"
| "written_arrays (e # es) = written_arrays es"

fun files_read :: "event list \<Rightarrow> (string \<times> string option) list" where
  "files_read [] = []"
| "files_read (ReadFile f d # es) = (f, d) # files_read es"
| "files_read (e # es) = files_read es"

text \<open>The events of a run that completed, and the time-series it left in \<^verbatim>\<open>ts_data\<close>.\<close>

definition events_of :: "exn + (globals \<times> 'w world) \<Rightarrow> exn + event list" where
  "events_of r = (case r of Inl e \<Rightarrow> Inl e | Inr (g, w) \<Rightarrow> Inr (trace w))"

definition files_written_by :: "exn + (globals \<times> 'w world) \<Rightarrow> exn + string list" where
  "files_written_by r = (case events_of r of Inl e \<Rightarrow> Inl e | Inr es \<Rightarrow> Inr (written_files es))"

definition pixel_of :: "exn + arr3 \<Rightarrow> nat \<Rightarrow> nat \<Rightarrow> nat \<Rightarrow> exn + npfloat" where
  "pixel_of r i y x = (case r of Inl e \<Rightarrow> Inl e | Inr ts \<Rightarrow> Inr (item3 ts i y x))"

definition shape_of :: "exn + arr3 \<Rightarrow> exn + nat \<times> nat \<times> nat" where
  "shape_of r = (case r of Inl e \<Rightarrow> Inl e | Inr ts \<Rightarrow> Inr (shape3 ts))"

text \<open>The element at \<open>(i, y, x)\<close> of each array a run wrote, in the order of the writes.\<close>

definition pixels_written_by ::
  "exn + (globals \<times> 'w world) \<Rightarrow> nat \<Rightarrow> nat \<Rightarrow> nat \<Rightarrow> exn + npfloat list" where
  "pixels_written_by r i y x =
     (case events_of r of Inl e \<Rightarrow> Inl e
      | Inr es \<Rightarrow> Inr (map (\<lambda>ts. item3 ts i y x) (written_arrays es)))"

section \<open>A small world to run the notebook in\<close>

text \<open>
  Two dates and rasters of one row and two columns, of float32 numbers. The second
  pixel has a slant-range distance of zero, and \<open>demo_dem_nan\<close> is a DEM error that
  is \<^verbatim>\<open>nan\<close> at the first pixel. The incidence angle is 90 degrees everywhere, which
  \<^verbatim>\<open>inc_angle * np.pi / 180.\<close> turns into \<^verbatim>\<open>1.5707963705062866\<close> in float32 and into
  \<^verbatim>\<open>1.5707963267948966\<close> in float64; NumPy's sine is 1 at both, and the sine of the
  small world is 1 at every number.

  The world outside is the list of the files that exist. The list \<open>opts\<close> names the
  library calls that raise; with \<open>''float64''\<close> in it the files hold the float64
  data \<open>wide_ts\<close>, \<open>wide_inc\<close>, \<open>wide_rg\<close> and \<open>wide_dem\<close>, whose first pixel has the DEM
  error 1 and the slant-range distance 3.
\<close>

definition demo_sine :: "dtype \<Rightarrow> real \<Rightarrow> npfloat" where
  "demo_sine dt a = Finite 1"

definition demo_ts :: ts_obj where
  "demo_ts = \<lparr>ts_pbase = \<lparr>dtype1 = Float32, items1 = [Finite 5, Finite 7]\<rparr>,
              numDate = 2, ts_length = 1, ts_width = 2\<rparr>"

definition demo_inc :: arr2 where
  "demo_inc = \<lparr>dtype2 = Float32, nrows = 1, ncols = 2, item2 = (\<lambda>y x. Finite 90)\<rparr>"

definition demo_rg :: arr2 where
  "demo_rg = \<lparr>dtype2 = Float32, nrows = 1, ncols = 2,
              item2 = (\<lambda>y x. if x = 0 then Finite 2 else Finite 0)\<rparr>"

definition demo_dem :: arr2 where
  "demo_dem = \<lparr>dtype2 = Float32, nrows = 1, ncols = 2,
               item2 = (\<lambda>y x. if x = 0 then Finite 3 else Finite 4)\<rparr>"

definition demo_dem_nan :: arr2 where
  "demo_dem_nan = \<lparr>dtype2 = Float32, nrows = 1, ncols = 2,
                   item2 = (\<lambda>y x. if x = 0 then NaN else Finite 4)\<rparr>"

definition demo_pbase :: arr1 where
  "demo_pbase = \<lparr>dtype1 = Float32, items1 = [Finite 0, Finite 2]\<rparr>"

definition demo_pbase10 :: arr1 where
  "demo_pbase10 = \<lparr>dtype1 = Float32, items1 = [Finite 0, Finite 20]\<rparr>"

definition wide_ts :: ts_obj where
  "wide_ts = \<lparr>ts_pbase = \<lparr>dtype1 = Float64, items1 = [Finite 5, Finite 6]\<rparr>,
              numDate = 2, ts_length = 1, ts_width = 2\<rparr>"

definition wide_inc :: arr2 where
  "wide_inc = \<lparr>dtype2 = Float64, nrows = 1, ncols = 2, item2 = (\<lambda>y x. Finite 90)\<rparr>"

definition wide_rg :: arr2 where
  "wide_rg = \<lparr>dtype2 = Float64, nrows = 1, ncols = 2,
              item2 = (\<lambda>y x. if x = 0 then Finite 3 else Finite 0)\<rparr>"

definition wide_dem :: arr2 where
  "wide_dem = \<lparr>dtype2 = Float64, nrows = 1, ncols = 2, item2 = (\<lambda>y x. Finite 1)\<rparr>"

definition wide_pbase :: arr1 where
  "wide_pbase = \<lparr>dtype1 = Float64, items1 = [Finite 0, Finite 1]\<rparr>"

text \<open>
  A float64 baseline array for the float32 rasters, and a raster of one pixel.
\<close>

definition mixed_pbase :: arr1 where
  "mixed_pbase = \<lparr>dtype1 = Float64, items1 = [Finite 0, Finite 33554434]\<rparr>"

definition one_pixel :: "npfloat \<Rightarrow> arr2" where
  "one_pixel v = \<lparr>dtype2 = Float32, nrows = 1, ncols = 1, item2 = (\<lambda>y x. v)\<rparr>"

definition demo_lib :: "string list \<Rightarrow> string list library" where
  "demo_lib opts =
     \<lparr>expandvars = (\<lambda>p x. ''/notes/phaseCorrection_order''),
      expanduser = (\<lambda>p x. ''/home/u'' @ tl p),
      chdir = (\<lambda>d x. if ''chdir'' \<in> set opts then Inl (Raised ''FileNotFoundError'')
                      else Inr x),
      isfile = (\<lambda>f x. f \<in> set x),
      project_name2sensor_name =
        (\<lambda>f x. if ''sensor'' \<in> set opts then Inl (Raised ''TypeError'') else Inr [''Sen'']),
      timeseries_open =
        (\<lambda>f x. if ''open'' \<in> set opts then Inl (Raised ''OSError'')
                else if ''float64'' \<in> set opts then Inr wide_ts
                else Inr demo_ts),
      readfile_read =
        (\<lambda>f d x. if (case d of None \<Rightarrow> ''demErr'' | Some n \<Rightarrow> n) \<in> set opts
                  then Inl (Raised ''FileNotFoundError'')
                  else if ''float64'' \<in> set opts
                  then (if d = Some ''incidenceAngle'' then Inr wide_inc
                        else if d = Some ''slantRangeDistance'' then Inr wide_rg
                        else Inr wide_dem)
                  else if d = Some ''incidenceAngle'' then Inr demo_inc
                  else if d = Some ''slantRangeDistance'' then Inr demo_rg
                  else if ''shape'' \<in> set opts then Inr (demo_dem\<lparr>nrows := 3\<rparr>)
                  else Inr demo_dem),
      writefile_write =
        (\<lambda>ts out ref x. if ''write'' \<in> set opts then Inl (Raised ''OSError'')
                        else Inr (out # x)),
      system = (\<lambda>cmd x. x)\<rparr>"

definition demo_world :: "string list \<Rightarrow> string list world" where
  "demo_world fs = \<lparr>ext = fs, trace = []\<rparr>"

definition demo_globals :: globals where
  "demo_globals =
     \<lparr>work_dir = ''/notes/phaseCorrection_order'',
      proj_dir = ''/home/u/insarlab/PYSAR_EXAMPLE/AlcedoSenDT128/PYSAR'',
      ts_file = ''/home/u/insarlab/PYSAR_EXAMPLE/AlcedoSenDT128/PYSAR/timeseries.h5'',
      geom_file = ''/home/u/insarlab/PYSAR_EXAMPLE/AlcedoSenDT128/PYSAR/INPUTS/geometryRadar.h5'',
      dem_err_file = ''/home/u/insarlab/PYSAR_EXAMPLE/AlcedoSenDT128/PYSAR/demErr.h5'',
      sensorName = ''Sen'', pbase = demo_pbase, num_date = 2, length' = 1, width = 2,
      out_file = ''sim_topoResid.h5'', ts_data = None\<rparr>"

section \<open>Properties of the array operations\<close>

lemma pow2_powr: "pow2 k = 2 powr (of_int k)"
  by (simp add: pow2_def powr_real_of_int inverse_eq_divide)

lemma pow2_pos: "0 < pow2 k"
  by (simp add: pow2_powr)

lemma pow2_add: "pow2 (j + k) = pow2 j * pow2 k"
  by (simp add: pow2_powr powr_add)

lemma pow2_nonneg: "0 \<le> k \<Longrightarrow> pow2 k = of_int (2 ^ nat k)"
  by (simp add: pow2_def)

lemma round_half_even_of_int: "round_half_even (of_int j) = j"
  by (simp add: round_half_even_def)

lemma floor_log2_less:
  assumes "0 < x" and "x < pow2 n"
  shows "\<lfloor>log 2 x\<rfloor> < n"
proof -
  from assms have "log 2 x < of_int n"
    by (simp add: pow2_powr log_less_iff)
  then show ?thesis by (simp add: floor_less_iff)
qed

text \<open>A number with a significand of at most p bits and an exponent in range is its own rounding.\<close>

lemma fl_exact:
  assumes v: "v = of_int m * pow2 k"
    and m: "m \<noteq> 0" "\<bar>m\<bar> < 2 ^ nat (precision dt)"
    and k: "1 - emax dt - (precision dt - 1) \<le> k"
    and r: "\<bar>v\<bar> < overflow_threshold dt"
  shows "fl dt v = Finite v"
proof -
  have p: "0 < precision dt" by (cases dt) simp_all
  have v0: "v \<noteq> 0" using v m(1) pow2_pos [of k] by simp
  have av: "\<bar>v\<bar> = of_int \<bar>m\<bar> * pow2 k"
    using pow2_pos [of k] by (simp add: v abs_mult)
  have "of_int \<bar>m\<bar> < (pow2 (precision dt) :: real)"
  proof -
    have "real_of_int \<bar>m\<bar> < real_of_int (2 ^ nat (precision dt))"
      using m(2) by linarith
    also have "\<dots> = pow2 (precision dt)"
      using p by (simp add: pow2_def)
    finally show ?thesis .
  qed
  then have "\<bar>v\<bar> < pow2 (precision dt) * pow2 k"
    unfolding av using pow2_pos [of k] by simp
  then have "\<bar>v\<bar> < pow2 (precision dt + k)" by (simp add: pow2_add)
  from floor_log2_less [OF _ this] v0 have "\<lfloor>log 2 \<bar>v\<bar>\<rfloor> < precision dt + k" by simp
  with k have e: "max \<lfloor>log 2 \<bar>v\<bar>\<rfloor> (1 - emax dt) - (precision dt - 1) \<le> k" by simp
  define d where "d = k - (max \<lfloor>log 2 \<bar>v\<bar>\<rfloor> (1 - emax dt) - (precision dt - 1))"
  from e have d: "0 \<le> d" by (simp add: d_def)
  have q: "pow2 k = pow2 d * quantum dt v"
    unfolding quantum_def d_def pow2_add [symmetric] by simp
  have qp: "0 < quantum dt v" by (simp add: quantum_def pow2_pos)
  have "\<bar>v\<bar> / quantum dt v = of_int \<bar>m\<bar> * pow2 d"
    unfolding av q using qp by simp
  also have "\<dots> = of_int (\<bar>m\<bar> * 2 ^ nat d)"
    using d by (simp add: pow2_nonneg)
  finally have ratio: "\<bar>v\<bar> / quantum dt v = of_int (\<bar>m\<bar> * 2 ^ nat d)" .
  have rhe: "round_half_even (\<bar>v\<bar> / quantum dt v) = \<bar>m\<bar> * 2 ^ nat d"
    unfolding ratio by (rule round_half_even_of_int)
  have nz: "\<bar>m\<bar> * 2 ^ nat d \<noteq> 0" using m(1) by simp
  have restore: "of_int (\<bar>m\<bar> * 2 ^ nat d) * quantum dt v = \<bar>v\<bar>"
    using ratio qp by (simp add: field_simps)
  have "sgn v * \<bar>v\<bar> = v" by (simp add: sgn_if)
  with r nz show ?thesis
    unfolding fl_def rhe restore by simp
qed

lemma overflow_threshold_simps:
  "overflow_threshold Float32 = 340282356779733661637539395458142568448"
  "overflow_threshold Float64 = 2 ^ 1024 - 2 ^ 970"
  by (simp_all add: overflow_threshold_def pow2_def field_simps)

lemma fl_numeral:
  assumes "numeral n < (16777216 :: int)"
  shows "fl dt (numeral n) = Finite (numeral n)"
proof (rule fl_exact [where m = "numeral n" and k = 0])
  show "(numeral n :: real) = of_int (numeral n) * pow2 0" by (simp add: pow2_def)
  show "(numeral n :: int) \<noteq> 0" by simp
  have "(16777216 :: int) \<le> 2 ^ nat (precision dt)"
    by (cases dt) simp_all
  with assms show "\<bar>numeral n :: int\<bar> < 2 ^ nat (precision dt)"
    unfolding abs_numeral by (rule less_le_trans)
  show "1 - emax dt - (precision dt - 1) \<le> 0" by (cases dt) simp_all
  have "\<bar>numeral n :: real\<bar> < 16777216"
    using assms by (metis abs_numeral of_int_less_iff of_int_numeral)
  moreover have "(16777216 :: real) < overflow_threshold dt"
    by (cases dt) (simp_all add: overflow_threshold_simps)
  ultimately show "\<bar>numeral n :: real\<bar> < overflow_threshold dt"
    by linarith
qed

lemma quantum_eq:
  assumes "pow2 e \<le> \<bar>v\<bar>" and "\<bar>v\<bar> < pow2 (e + 1)"
  shows "quantum dt v = pow2 (max e (1 - emax dt) - (precision dt - 1))"
proof -
  from assms(1) pow2_pos [of e] have "0 < \<bar>v\<bar>" by linarith
  then have "\<lfloor>log 2 \<bar>v\<bar>\<rfloor> = e"
    using assms by (simp add: floor_log_eq_powr_iff pow2_powr)
  then show ?thesis by (simp add: quantum_def)
qed

lemma fl_binade:
  assumes "pow2 e \<le> \<bar>v\<bar>" and "\<bar>v\<bar> < pow2 (e + 1)"
  shows "fl dt v =
    (if overflow_threshold dt \<le> \<bar>v\<bar> then signed_inf (v < 0)
     else if round_half_even (\<bar>v\<bar> / pow2 (max e (1 - emax dt) - (precision dt - 1))) = 0
     then signed_zero (v < 0)
     else Finite (sgn v *
       (of_int (round_half_even (\<bar>v\<bar> / pow2 (max e (1 - emax dt) - (precision dt - 1)))) *
        pow2 (max e (1 - emax dt) - (precision dt - 1)))))"
  unfolding fl_def quantum_eq [OF assms] ..

lemma fl_one: "fl dt 1 = Finite 1"
proof (rule fl_exact [where m = 1 and k = 0])
  show "(1 :: real) = of_int 1 * pow2 0" by (simp add: pow2_def)
  show "(1 :: int) \<noteq> 0" by simp
  show "\<bar>1 :: int\<bar> < 2 ^ nat (precision dt)" by (cases dt) simp_all
  show "1 - emax dt - (precision dt - 1) \<le> 0" by (cases dt) simp_all
  show "\<bar>1 :: real\<bar> < overflow_threshold dt"
    by (cases dt) (simp_all add: overflow_threshold_simps)
qed

lemma fl_numeral64:
  assumes "numeral n < (9007199254740992 :: int)"
  shows "fl Float64 (numeral n) = Finite (numeral n)"
proof (rule fl_exact [where m = "numeral n" and k = 0])
  show "(numeral n :: real) = of_int (numeral n) * pow2 0" by (simp add: pow2_def)
  show "(numeral n :: int) \<noteq> 0" by simp
  show "\<bar>numeral n :: int\<bar> < 2 ^ nat (precision Float64)"
    using assms by simp
  show "1 - emax Float64 - (precision Float64 - 1) \<le> 0" by simp
  have "\<bar>numeral n :: real\<bar> < 9007199254740992"
    using assms by (metis abs_numeral of_int_less_iff of_int_numeral)
  moreover have "(9007199254740992 :: real) < overflow_threshold Float64"
    by (simp add: overflow_threshold_simps)
  ultimately show "\<bar>numeral n :: real\<bar> < overflow_threshold Float64"
    by linarith
qed

text \<open>
  Roundings that NumPy shows: \<open>2 ^ 53 + 1\<close> is \<open>2 ^ 53\<close> in float64; ten times the
  float64 number nearest to \<open>0.1\<close> is \<open>1\<close>; \<open>10 / 3\<close> in float64, and that number
  converted to float32 (\<^verbatim>\<open>3.3333333333333335\<close> and \<^verbatim>\<open>3.3333332538604736\<close>); a number
  beyond the float32 range converted to float32; \<^verbatim>\<open>np.pi\<close> as a float32.
\<close>

lemma fl64_ten_thirds: "fl Float64 (10 / 3) = Finite (7505999378950827 / 2251799813685248)"
  using fl_binade [of 1 "10 / 3" Float64]
  by (simp add: overflow_threshold_simps pow2_def round_half_even_def)

lemma fl32_ten_thirds:
  "fl Float32 (7505999378950827 / 2251799813685248) = Finite (13981013 / 4194304)"
  using fl_binade [of 1 "7505999378950827 / 2251799813685248" Float32]
  by (simp add: overflow_threshold_simps pow2_def round_half_even_def)

lemma rounding_examples:
  "np_subtract Float64 (Finite 9007199254740992) (Finite (- 1)) = Finite 9007199254740992"
  "np_multiply Float64 (Finite (3602879701896397 / 36028797018963968)) (Finite 10) = Finite 1"
  "np_divide Float64 (Finite 10) (Finite 3) = Finite (7505999378950827 / 2251799813685248)"
  "cast Float64 Float32 (Finite (7505999378950827 / 2251799813685248))
     = Finite (13981013 / 4194304)"
  "cast Float64 Float32 (Finite (10 ^ 39)) = PosInf"
  "cast Float64 Float32 np_pi = Finite (13176795 / 4194304)"
proof -
  have a: "fl Float64 9007199254740993 = Finite 9007199254740992"
    using fl_binade [of 53 9007199254740993 Float64]
    by (simp add: overflow_threshold_simps pow2_def round_half_even_def)
  show "np_subtract Float64 (Finite 9007199254740992) (Finite (- 1)) = Finite 9007199254740992"
    by (simp add: np_subtract_def a)
  have b: "fl Float64 (3602879701896397 / 36028797018963968 * 10) = Finite 1"
    using fl_binade [of 0 "3602879701896397 / 36028797018963968 * 10" Float64]
    by (simp add: overflow_threshold_simps pow2_def round_half_even_def)
  show "np_multiply Float64 (Finite (3602879701896397 / 36028797018963968)) (Finite 10)
          = Finite 1"
    using b by (simp add: np_multiply_def finite_result_def)
  show "np_divide Float64 (Finite 10) (Finite 3) = Finite (7505999378950827 / 2251799813685248)"
    by (simp add: np_divide_def finite_result_def fl64_ten_thirds)
  show "cast Float64 Float32 (Finite (7505999378950827 / 2251799813685248))
          = Finite (13981013 / 4194304)"
    by (simp add: cast_def fl32_ten_thirds)
  show "cast Float64 Float32 (Finite (10 ^ 39)) = PosInf"
    by (simp add: cast_def fl_def overflow_threshold_simps signed_inf_def)
  have c: "fl Float32 (884279719003555 / 281474976710656) = Finite (13176795 / 4194304)"
    using fl_binade [of 1 "884279719003555 / 281474976710656" Float32]
    by (simp add: overflow_threshold_simps pow2_def round_half_even_def)
  show "cast Float64 Float32 np_pi = Finite (13176795 / 4194304)"
    by (simp add: cast_def np_pi_def c)
qed

lemmas np_defs =
  np_multiply_def np_divide_def np_subtract_def finite_result_def signed_zero_def signed_inf_def

lemmas demo_arith =
  np_defs cast_def result_type_def promote_types_def float32_limit_def fl_numeral fl_one

lemma np_multiply_commute: "np_multiply dt a b = np_multiply dt b a"
  by (cases "signbit a"; cases "signbit b") (auto simp: np_multiply_def mult.commute)

lemma np_divide_by_zero: "is_zero b \<Longrightarrow> \<not> is_finite (np_divide dt a b)"
  by (cases a; cases b) (auto simp: np_divide_def signed_inf_def)

lemma np_subtract_self: "is_finite a \<Longrightarrow> np_subtract dt a a = Finite 0"
  by (cases a) (simp_all add: np_subtract_def signed_zero_def)

lemma cast_same: "cast dt dt a = a"
  by (cases dt) (simp_all add: cast_def)

lemma cast_not_finite: "\<not> is_finite a \<Longrightarrow> \<not> is_finite (cast src dst a)"
  by (cases a) (simp_all add: cast_def)

lemma cast_zero: "is_zero a \<Longrightarrow> is_zero (cast src dst a)"
  by (cases a) (simp_all add: cast_def)

lemma cast_Finite_0: "cast src dst (Finite 0) = Finite 0"
  by (simp add: cast_def)

lemma cast_ten: "cast Float64 dt (Finite 10) = Finite 10"
  by (simp add: cast_def fl_numeral)

lemma result_type_same: "result_type dt dt s = dt"
  by (cases dt) (simp_all add: result_type_def)

lemma result_type_small:
  "result_type dt Float64 (Finite 10) = dt"
  "result_type dt Float64 (Finite 180) = dt"
  "result_type dt Float64 np_pi = dt"
  "result_type dt sdt (Finite 0) = dt"
  by (cases dt; simp add: result_type_def float32_limit_def np_pi_def)+

lemma result_type_promote:
  assumes "dp = Float64 \<longrightarrow> de = Float64"
  shows "result_type de dp p = promote_types de dp" and "cast dp (promote_types de dp) p = p"
  using assms by (cases de; cases dp; simp add: result_type_def promote_types_def cast_def)+

lemma np_multiply_zero_ten: "np_multiply dt (Finite 0) (Finite 10) = Finite 0"
  by (simp add: np_multiply_def finite_result_def signed_zero_def)

lemma phase_at_zero_baseline:
  assumes "is_finite d"
    and "is_finite (denominator sine dr di r a)"
    and "\<not> is_zero (denominator sine dr di r a)"
  shows "is_zero (cast (phase_dtype de dp (Finite 0) dr di) Float32
                    (phase_at sine de dp dr di d (Finite 0) r a))"
proof -
  let ?den = "denominator sine dr di r a"
  have num: "is_zero (np_multiply dt d (Finite 0))" "is_finite (np_multiply dt d (Finite 0))"
    for dt
    using assms(1)
    by (cases d; simp add: np_multiply_def finite_result_def signed_zero_def)+
  have "is_zero (np_divide dt n ?den)" if "is_zero n" "is_finite n" for n dt
    using that assms(2,3)
    by (cases n; cases ?den)
      (auto simp: np_divide_def finite_result_def signed_zero_def)
  from this [OF num] show ?thesis
    by (simp add: phase_at_def cast_Finite_0 cast_zero)
qed

lemma bindE_Inr: "bindE (Inr v) f = f v"
  by (simp add: bindE_def)

lemma bindE_eq_Inr: "bindE m f = Inr y \<longleftrightarrow> (\<exists>v. m = Inr v \<and> f v = Inr y)"
  by (cases m) (simp_all add: bindE_def)

lemma bix_less: "k < n \<Longrightarrow> bix n k = k"
  by (auto simp: bix_def)

lemma bix_bdim:
  assumes "bdim m n = Some k"
  shows "bix m (bix k y) = bix m y" and "bix n (bix k y) = bix n y"
  using assms by (auto simp: bdim_def bix_def split: if_splits)

lemma array_op_Inr:
  assumes "array_op f a b = Inr c"
  shows "bdim (nrows a) (nrows b) = Some (nrows c)"
    and "bdim (ncols a) (ncols b) = Some (ncols c)"
    and "dtype2 c = promote_types (dtype2 a) (dtype2 b)"
    and "item2 c y x = f (promote_types (dtype2 a) (dtype2 b))
                         (item2 a (bix (nrows a) y) (bix (ncols a) x))
                         (item2 b (bix (nrows b) y) (bix (ncols b) x))"
  using assms by (auto simp: array_op_def split: option.splits)

text \<open>The array \<^verbatim>\<open>np.sin(inc_angle * np.pi / 180.)\<close>.\<close>

lemma sin_array:
  "unary_op (np_sin sine) (scalar_op np_divide (scalar_op np_multiply inc Float64 np_pi)
                    Float64 (Finite 180)) =
     \<lparr>dtype2 = dtype2 inc, nrows = nrows inc, ncols = ncols inc,
      item2 = (\<lambda>y x. sin_deg sine (dtype2 inc) (item2 inc y x))\<rparr>"
  by (simp add: unary_op_def scalar_op_def result_type_small sin_deg_def)

lemma epoch_phase_Inr:
  assumes "epoch_phase sine dem pb rg inc i = Inr v"
  shows "i < length (items1 pb)"
    and "cast (dtype2 v) Float32 (item2 v (bix (nrows v) y) (bix (ncols v) x))
           = pixel_phase sine dem (dtype1 pb) (items1 pb ! i) rg inc y x"
proof -
  let ?s = "\<lparr>dtype2 = dtype2 inc, nrows = nrows inc, ncols = ncols inc,
             item2 = (\<lambda>y x. sin_deg sine (dtype2 inc) (item2 inc y x))\<rparr>"
  from assms obtain p den where
    p: "getitem (items1 pb) i = Inr p" and
    den: "array_op np_multiply rg ?s = Inr den" and
    v: "array_op np_divide (scalar_op np_multiply dem (dtype1 pb) p) den = Inr v"
    unfolding epoch_phase_def sin_array bindE_eq_Inr by blast
  from p show i: "i < length (items1 pb)" by (simp add: getitem_def split: if_splits)
  from p i have pi: "p = items1 pb ! i" by (simp add: getitem_def)
  note D = array_op_Inr [OF den] and V = array_op_Inr [OF v]
  have r: "bdim (nrows dem) (nrows den) = Some (nrows v)"
    and c: "bdim (ncols dem) (ncols den) = Some (ncols v)"
    using V(1,2) by (simp_all add: scalar_op_def)
  have r1: "bdim (nrows rg) (nrows inc) = Some (nrows den)"
    and c1: "bdim (ncols rg) (ncols inc) = Some (ncols den)"
    using D(1,2) by simp_all
  have dt: "dtype2 v = phase_dtype (dtype2 dem) (dtype1 pb) p (dtype2 rg) (dtype2 inc)"
    using V(3) D(3) by (simp add: scalar_op_def phase_dtype_def)
  show "cast (dtype2 v) Float32 (item2 v (bix (nrows v) y) (bix (ncols v) x))
          = pixel_phase sine dem (dtype1 pb) (items1 pb ! i) rg inc y x"
    unfolding V(4) D(4) dt pixel_phase_def phase_at_def denominator_def
    by (simp add: scalar_op_def pi D(3) phase_dtype_def
        bix_bdim [OF r] bix_bdim [OF c] bix_bdim [OF r1] bix_bdim [OF c1])
qed

lemma setitem_epoch_Inr:
  assumes "setitem_epoch ts i v = Inr ts'"
  shows "i < ndates ts" and "shape3 ts' = shape3 ts" and "dtype3 ts' = dtype3 ts"
    and "item3 ts' k y x =
           (if k = i then cast (dtype2 v) (dtype3 ts)
                            (item2 v (bix (nrows v) y) (bix (ncols v) x))
            else item3 ts k y x)"
  using assms by (auto simp: setitem_epoch_def shape3_def split: if_splits)

lemma epoch_loop_Inr:
  assumes "epoch_loop sine dem pb rg inc ks ts = Inr ts'" and "dtype3 ts = Float32"
  shows "shape3 ts' = shape3 ts \<and> dtype3 ts' = Float32 \<and>
         (\<forall>k \<in> set ks. k < length (items1 pb) \<and> k < ndates ts) \<and>
         (\<forall>k y x. item3 ts' k y x =
            (if k \<in> set ks then pixel_phase sine dem (dtype1 pb) (items1 pb ! k) rg inc y x
             else item3 ts k y x))"
  using assms
proof (induction ks arbitrary: ts)
  case Nil
  then show ?case by simp
next
  case (Cons i rest)
  from Cons.prems(1) obtain v ts1 where
    v: "epoch_phase sine dem pb rg inc i = Inr v" and
    s: "setitem_epoch ts i v = Inr ts1" and
    l: "epoch_loop sine dem pb rg inc rest ts1 = Inr ts'"
    by (auto simp: bindE_eq_Inr)
  note S = setitem_epoch_Inr [OF s] and V = epoch_phase_Inr [OF v]
  from S(3) Cons.prems(2) have d1: "dtype3 ts1 = Float32" by simp
  note IH = Cons.IH [OF l d1]
  have st: "item3 ts1 k y x =
      (if k = i then pixel_phase sine dem (dtype1 pb) (items1 pb ! i) rg inc y x
       else item3 ts k y x)" for k y x
    using S(4) [of k y x] V(2) [of y x] Cons.prems(2) by simp
  show ?case
    using IH S(1,2) V(1) by (auto simp: st shape3_def)
qed

lemma array_op_total:
  assumes "bdim (nrows a) (nrows b) = Some r" and "bdim (ncols a) (ncols b) = Some c"
  shows "\<exists>v. array_op f a b = Inr v \<and> nrows v = r \<and> ncols v = c"
  using assms by (simp add: array_op_def)

lemma epoch_phase_total:
  assumes i: "i < length (items1 pb)"
    and r: "Option.bind (bdim (nrows rg) (nrows inc)) (bdim (nrows dem)) = Some l"
    and c: "Option.bind (bdim (ncols rg) (ncols inc)) (bdim (ncols dem)) = Some w"
  shows "\<exists>v. epoch_phase sine dem pb rg inc i = Inr v \<and> nrows v = l \<and> ncols v = w"
proof -
  from r obtain r1 where r1: "bdim (nrows rg) (nrows inc) = Some r1"
    and r2: "bdim (nrows dem) r1 = Some l"
    by (auto simp: bind_eq_Some_conv)
  from c obtain c1 where c1: "bdim (ncols rg) (ncols inc) = Some c1"
    and c2: "bdim (ncols dem) c1 = Some w"
    by (auto simp: bind_eq_Some_conv)
  let ?s = "\<lparr>dtype2 = dtype2 inc, nrows = nrows inc, ncols = ncols inc,
             item2 = (\<lambda>y x. sin_deg sine (dtype2 inc) (item2 inc y x))\<rparr>"
  have "bdim (nrows rg) (nrows ?s) = Some r1" "bdim (ncols rg) (ncols ?s) = Some c1"
    using r1 c1 by simp_all
  from array_op_total [OF this, of np_multiply] obtain den where
    den: "array_op np_multiply rg ?s = Inr den" "nrows den = r1" "ncols den = c1"
    by blast
  let ?n = "scalar_op np_multiply dem (dtype1 pb) (items1 pb ! i)"
  have "bdim (nrows ?n) (nrows den) = Some l" "bdim (ncols ?n) (ncols den) = Some w"
    using r2 c2 den(2,3) by (simp_all add: scalar_op_def)
  from array_op_total [OF this, of np_divide] obtain v where
    "array_op np_divide ?n den = Inr v" "nrows v = l" "ncols v = w"
    by blast
  with i den(1) show ?thesis
    by (simp add: epoch_phase_def sin_array getitem_def bindE_Inr)
qed

lemma epoch_loop_total:
  assumes "\<forall>k \<in> set ks. k < length (items1 pb) \<and> k < ndates ts"
    and r: "Option.bind (bdim (nrows rg) (nrows inc)) (bdim (nrows dem)) = Some r"
    and c: "Option.bind (bdim (ncols rg) (ncols inc)) (bdim (ncols dem)) = Some c"
    and rc: "r = nrows3 ts \<or> r = 1" "c = ncols3 ts \<or> c = 1"
  shows "\<exists>ts'. epoch_loop sine dem pb rg inc ks ts = Inr ts'"
  using assms
proof (induction ks arbitrary: ts)
  case Nil
  then show ?case by simp
next
  case (Cons i rest)
  from Cons.prems(1) have i: "i < length (items1 pb)" "i < ndates ts" by simp_all
  from epoch_phase_total [OF i(1) Cons.prems(2,3)] obtain v where
    v: "epoch_phase sine dem pb rg inc i = Inr v" "nrows v = r" "ncols v = c"
    by blast
  define ts1 where "ts1 = ts\<lparr>item3 := (\<lambda>k y x. if k = i
        then cast (dtype2 v) (dtype3 ts) (item2 v (bix (nrows v) y) (bix (ncols v) x))
        else item3 ts k y x)\<rparr>"
  have s: "setitem_epoch ts i v = Inr ts1"
    using i(2) v(2,3) Cons.prems(4,5) by (simp add: setitem_epoch_def ts1_def)
  have "\<exists>ts'. epoch_loop sine dem pb rg inc rest ts1 = Inr ts'"
    using Cons.prems by (intro Cons.IH [of ts1]) (simp_all add: ts1_def)
  with v(1) s show ?case by (simp add: bindE_Inr)
qed

lemma topo_resid_broadcast:
  assumes "n \<le> length (items1 pb)"
    and "Option.bind (bdim (nrows rg) (nrows inc)) (bdim (nrows dem)) = Some r"
    and "Option.bind (bdim (ncols rg) (ncols inc)) (bdim (ncols dem)) = Some c"
    and "r = l \<or> r = 1" and "c = w \<or> c = 1"
  shows "\<exists>ts. topo_resid sine dem pb rg inc n l w = Inr ts"
  unfolding topo_resid_def
proof (rule epoch_loop_total [where r = r and c = c])
  show "\<forall>k \<in> set [0..<n]. k < length (items1 pb) \<and> k < ndates (np_zeros n l w Float32)"
    using assms(1) by (simp add: np_zeros_def)
  show "r = nrows3 (np_zeros n l w Float32) \<or> r = 1" using assms(4) by (simp add: np_zeros_def)
  show "c = ncols3 (np_zeros n l w Float32) \<or> c = 1" using assms(5) by (simp add: np_zeros_def)
qed (rule assms(2), rule assms(3))

lemma topo_resid_total:
  assumes "compatible_shapes dem pb rg inc n l w"
  shows "\<exists>ts. topo_resid sine dem pb rg inc n l w = Inr ts"
proof (rule topo_resid_broadcast [where r = l and c = w])
  from assms show "n \<le> length (items1 pb)"
    and "Option.bind (bdim (nrows rg) (nrows inc)) (bdim (nrows dem)) = Some l"
    and "Option.bind (bdim (ncols rg) (ncols inc)) (bdim (ncols dem)) = Some w"
    by (simp_all add: compatible_shapes_def)
qed simp_all

lemma topo_resid_Inr:
  assumes "topo_resid sine dem pb rg inc n l w = Inr ts"
  shows "shape3 ts = (n, l, w)" and "dtype3 ts = Float32" and "n \<le> length (items1 pb)"
    and "i < n \<Longrightarrow>
           item3 ts i y x = pixel_phase sine dem (dtype1 pb) (items1 pb ! i) rg inc y x"
proof -
  have "dtype3 (np_zeros n l w Float32) = Float32" by (simp add: np_zeros_def)
  note L = epoch_loop_Inr [OF assms [unfolded topo_resid_def] this]
  from L show "shape3 ts = (n, l, w)" by (simp add: np_zeros_def shape3_def)
  from L show "dtype3 ts = Float32" by simp
  from L have "\<forall>k < n. k < length (items1 pb)" by simp
  then show "n \<le> length (items1 pb)" by (meson leI order_less_irrefl)
  from L show "i < n \<Longrightarrow>
      item3 ts i y x = pixel_phase sine dem (dtype1 pb) (items1 pb ! i) rg inc y x"
    by simp
qed

lemma pixel_phase_in_range:
  assumes "shape2 dem = (l, w)" "shape2 rg = (l, w)" "shape2 inc = (l, w)" "y < l" "x < w"
  shows "pixel_phase sine dem dp p rg inc y x =
         cast (phase_dtype (dtype2 dem) dp p (dtype2 rg) (dtype2 inc)) Float32
           (phase_at sine (dtype2 dem) dp (dtype2 rg) (dtype2 inc)
              (item2 dem y x) p (item2 rg y x) (item2 inc y x))"
  using assms by (simp add: pixel_phase_def shape2_def bix_less)

lemma bdim_Some_cases:
  assumes "bdim m n = Some k"
  shows "(m = k \<or> m = 1) \<and> (n = k \<or> n = 1)"
  using assms by (auto simp: bdim_def split: if_splits)

lemma bind_bdim_cases:
  assumes "Option.bind (bdim a b) (bdim c) = Some k" and "k = l \<or> k = 1"
  shows "(a = l \<or> a = 1) \<and> (b = l \<or> b = 1) \<and> (c = l \<or> c = 1)"
proof -
  from assms(1) obtain j where j: "bdim a b = Some j" and k: "bdim c j = Some k"
    by (auto simp: bind_eq_Some_conv)
  from bdim_Some_cases [OF j] bdim_Some_cases [OF k] assms(2) show ?thesis
    by auto
qed

lemma epoch_phase_shape:
  assumes "epoch_phase sine dem pb rg inc i = Inr v"
  shows "Option.bind (bdim (nrows rg) (nrows inc)) (bdim (nrows dem)) = Some (nrows v)"
    and "Option.bind (bdim (ncols rg) (ncols inc)) (bdim (ncols dem)) = Some (ncols v)"
proof -
  let ?s = "\<lparr>dtype2 = dtype2 inc, nrows = nrows inc, ncols = ncols inc,
             item2 = (\<lambda>y x. sin_deg sine (dtype2 inc) (item2 inc y x))\<rparr>"
  from assms obtain p den where
    den: "array_op np_multiply rg ?s = Inr den" and
    v: "array_op np_divide (scalar_op np_multiply dem (dtype1 pb) p) den = Inr v"
    unfolding epoch_phase_def sin_array bindE_eq_Inr by blast
  note D = array_op_Inr(1,2) [OF den] and V = array_op_Inr(1,2) [OF v]
  from D V show "Option.bind (bdim (nrows rg) (nrows inc)) (bdim (nrows dem)) = Some (nrows v)"
    by (simp add: scalar_op_def)
  from D V show "Option.bind (bdim (ncols rg) (ncols inc)) (bdim (ncols dem)) = Some (ncols v)"
    by (simp add: scalar_op_def)
qed

lemma setitem_epoch_shape:
  assumes "setitem_epoch ts i v = Inr ts'"
  shows "nrows v = nrows3 ts \<or> nrows v = 1" and "ncols v = ncols3 ts \<or> ncols v = 1"
  using assms by (auto simp: setitem_epoch_def split: if_splits)

lemma topo_resid_rasters:
  assumes "topo_resid sine dem pb rg inc n l w = Inr ts" and "0 < n"
  shows "(nrows rg = l \<or> nrows rg = 1) \<and> (nrows inc = l \<or> nrows inc = 1) \<and>
         (nrows dem = l \<or> nrows dem = 1)"
    and "(ncols rg = w \<or> ncols rg = 1) \<and> (ncols inc = w \<or> ncols inc = 1) \<and>
         (ncols dem = w \<or> ncols dem = 1)"
proof -
  from \<open>0 < n\<close> have u: "[0..<n] = 0 # [1..<n]" by (simp add: upt_conv_Cons)
  from assms(1) obtain v ts1 where
    v: "epoch_phase sine dem pb rg inc 0 = Inr v" and
    s: "setitem_epoch (np_zeros n l w Float32) 0 v = Inr ts1"
    unfolding topo_resid_def u by (auto simp: bindE_eq_Inr)
  from setitem_epoch_shape [OF s] have "nrows v = l \<or> nrows v = 1" "ncols v = w \<or> ncols v = 1"
    by (simp_all add: np_zeros_def)
  with epoch_phase_shape [OF v]
  show "(nrows rg = l \<or> nrows rg = 1) \<and> (nrows inc = l \<or> nrows inc = 1) \<and>
         (nrows dem = l \<or> nrows dem = 1)"
    and "(ncols rg = w \<or> ncols rg = 1) \<and> (ncols inc = w \<or> ncols inc = 1) \<and>
         (ncols dem = w \<or> ncols dem = 1)"
    by (blast dest: bind_bdim_cases)+
qed

lemma topo_resid_total_ge:
  assumes "n \<le> length (items1 pb)"
    and "Option.bind (bdim (nrows rg) (nrows inc)) (bdim (nrows dem)) = Some l"
    and "Option.bind (bdim (ncols rg) (ncols inc)) (bdim (ncols dem)) = Some w"
  shows "\<exists>ts. topo_resid sine dem pb rg inc n l w = Inr ts"
  by (rule topo_resid_broadcast [where r = l and c = w, OF assms]) simp_all

lemma same_shape_bind:
  assumes "shape2 dem = (l, w)" "shape2 rg = (l, w)" "shape2 inc = (l, w)"
  shows "Option.bind (bdim (nrows rg) (nrows inc)) (bdim (nrows dem)) = Some l"
    and "Option.bind (bdim (ncols rg) (ncols inc)) (bdim (ncols dem)) = Some w"
  using assms by (simp_all add: shape2_def bdim_def)

lemma inplace_op_same:
  "inplace_op f a (dtype1 a) s = a\<lparr>items1 := map (\<lambda>v. f (dtype1 a) v s) (items1 a)\<rparr>"
  by (simp add: inplace_op_def result_type_same cast_same)

lemma normalize_pbase_Inr:
  assumes "normalize_pbase raw = Inr pb"
  shows "items1 raw \<noteq> []" and "length (items1 pb) = length (items1 raw)"
    and "i < length (items1 raw) \<Longrightarrow>
           items1 pb ! i = np_subtract (dtype1 raw) (items1 raw ! i) (items1 raw ! 0)"
    and "dtype1 pb = dtype1 raw"
  using assms
  by (auto simp: normalize_pbase_def inplace_op_same getitem_def bindE_def split: if_splits)

lemma amplify_eq:
  "amplify pb = pb\<lparr>items1 := map (\<lambda>v. np_multiply (dtype1 pb) v (Finite 10)) (items1 pb)\<rparr>"
  by (simp add: amplify_def inplace_op_def result_type_small cast_same cast_ten)

lemma amplify_nth:
  "i < length (items1 pb) \<Longrightarrow>
     items1 (amplify pb) ! i = np_multiply (dtype1 pb) (items1 pb ! i) (Finite 10)"
  by (simp add: amplify_eq)

lemma length_amplify: "length (items1 (amplify pb)) = length (items1 pb)"
  by (simp add: amplify_eq)

lemma dtype_amplify: "dtype1 (amplify pb) = dtype1 pb"
  by (simp add: amplify_eq)

lemma topo_resid_same_shape:
  assumes "n \<le> length (items1 pb)"
    and "shape2 dem = (l, w)" and "shape2 rg = (l, w)" and "shape2 inc = (l, w)"
  shows "\<exists>ts. topo_resid sine dem pb rg inc n l w = Inr ts \<and>
           (\<forall>i < n. \<forall>y < l. \<forall>x < w.
              item3 ts i y x =
                cast (phase_dtype (dtype2 dem) (dtype1 pb) (items1 pb ! i)
                        (dtype2 rg) (dtype2 inc)) Float32
                  (phase_at sine (dtype2 dem) (dtype1 pb) (dtype2 rg) (dtype2 inc)
                     (item2 dem y x) (items1 pb ! i) (item2 rg y x) (item2 inc y x)))"
proof -
  from topo_resid_total_ge [OF assms(1) same_shape_bind [OF assms(2-4)]]
  obtain ts where ts: "topo_resid sine dem pb rg inc n l w = Inr ts" by blast
  have "item3 ts i y x =
          cast (phase_dtype (dtype2 dem) (dtype1 pb) (items1 pb ! i)
                  (dtype2 rg) (dtype2 inc)) Float32
            (phase_at sine (dtype2 dem) (dtype1 pb) (dtype2 rg) (dtype2 inc)
               (item2 dem y x) (items1 pb ! i) (item2 rg y x) (item2 inc y x))"
    if "i < n" "y < l" "x < w" for i y x
    using topo_resid_Inr(4) [OF ts that(1)] pixel_phase_in_range [OF assms(2-4) that(2,3)]
    by simp
  with ts show ?thesis by blast
qed

lemma amplified_same_shape:
  assumes "normalize_pbase raw = Inr pb"
    and "n \<le> length (items1 raw)"
    and "shape2 dem = (l, w)" and "shape2 rg = (l, w)" and "shape2 inc = (l, w)"
  shows "\<exists>ts. topo_resid sine dem (amplify pb) rg inc n l w = Inr ts \<and>
           (\<forall>i < n. \<forall>y < l. \<forall>x < w.
              item3 ts i y x =
                cast (phase_dtype (dtype2 dem) (dtype1 pb)
                        (np_multiply (dtype1 pb) (items1 pb ! i) (Finite 10))
                        (dtype2 rg) (dtype2 inc)) Float32
                  (phase_at sine (dtype2 dem) (dtype1 pb) (dtype2 rg) (dtype2 inc)
                     (item2 dem y x) (np_multiply (dtype1 pb) (items1 pb ! i) (Finite 10))
                     (item2 rg y x) (item2 inc y x)))"
proof -
  have len: "n \<le> length (items1 (amplify pb))"
    using assms(1,2) by (simp add: length_amplify normalize_pbase_Inr(2))
  from topo_resid_same_shape [OF len assms(3-5)] obtain ts where
    ts: "topo_resid sine dem (amplify pb) rg inc n l w = Inr ts" and
    px: "\<forall>i < n. \<forall>y < l. \<forall>x < w.
           item3 ts i y x =
             cast (phase_dtype (dtype2 dem) (dtype1 (amplify pb)) (items1 (amplify pb) ! i)
                     (dtype2 rg) (dtype2 inc)) Float32
               (phase_at sine (dtype2 dem) (dtype1 (amplify pb)) (dtype2 rg) (dtype2 inc)
                  (item2 dem y x) (items1 (amplify pb) ! i) (item2 rg y x) (item2 inc y x))"
    by blast
  have "items1 (amplify pb) ! i = np_multiply (dtype1 pb) (items1 pb ! i) (Finite 10)"
    if "i < n" for i
    using that len by (simp add: amplify_nth length_amplify)
  with px ts show ?thesis by (auto simp: dtype_amplify)
qed

lemma broadcast_resid_compatible:
  assumes "compatible_shapes dem pb rg inc n l w"
  shows "\<exists>b. broadcast_resid sine dem pb rg inc = Inr b \<and> shape3 b = (n, l, w) \<and>
             dtype3 b = promote_types (promote_types (dtype2 dem) (dtype1 pb))
                          (promote_types (dtype2 rg) (dtype2 inc)) \<and>
             (\<forall>i y x. item3 b i y x =
                np_divide (promote_types (promote_types (dtype2 dem) (dtype1 pb))
                             (promote_types (dtype2 rg) (dtype2 inc)))
                  (np_multiply (promote_types (dtype2 dem) (dtype1 pb))
                     (item2 dem (bix (nrows dem) y) (bix (ncols dem) x)) (items1 pb ! i))
                  (denominator sine (dtype2 rg) (dtype2 inc)
                     (item2 rg (bix (nrows rg) y) (bix (ncols rg) x))
                     (item2 inc (bix (nrows inc) y) (bix (ncols inc) x))))"
proof -
  from assms obtain r1 c1 where
    len: "length (items1 pb) = n" and
    r1: "bdim (nrows rg) (nrows inc) = Some r1" and r2: "bdim (nrows dem) r1 = Some l" and
    c1: "bdim (ncols rg) (ncols inc) = Some c1" and c2: "bdim (ncols dem) c1 = Some w"
    by (auto simp: compatible_shapes_def bind_eq_Some_conv)
  let ?s = "\<lparr>dtype2 = dtype2 inc, nrows = nrows inc, ncols = ncols inc,
             item2 = (\<lambda>y x. sin_deg sine (dtype2 inc) (item2 inc y x))\<rparr>"
  have "bdim (nrows rg) (nrows ?s) = Some r1" "bdim (ncols rg) (ncols ?s) = Some c1"
    using r1 c1 by simp_all
  from array_op_total [OF this, of np_multiply] obtain den where
    den: "array_op np_multiply rg ?s = Inr den" and dr: "nrows den = r1"
    and dc: "ncols den = c1"
    by blast
  have item: "item2 den y x =
      denominator sine (dtype2 rg) (dtype2 inc)
        (item2 rg (bix (nrows rg) y) (bix (ncols rg) x))
        (item2 inc (bix (nrows inc) y) (bix (ncols inc) x))" for y x
    using array_op_Inr(4) [OF den] by (simp add: denominator_def)
  have dd: "dtype2 den = promote_types (dtype2 rg) (dtype2 inc)"
    using array_op_Inr(3) [OF den] by simp
  show ?thesis
    unfolding broadcast_resid_def sin_array den bindE_Inr
    by (simp add: dr dc r2 c2 len shape3_def item dd
        bix_bdim [OF r1] bix_bdim [OF c1])
qed

section \<open>Properties of the cells\<close>

lemma cell1_skip:
  assumes "isfile E (out_file g) (ext w)"
  shows "cell1 sine E (g, w) = Inr (g, w\<lparr>trace := trace w @ [Print ''Done.'']\<rparr>)"
  using assms by (simp add: cell1_def)

lemma cell1_Inr:
  assumes "cell1 sine E (g, w) = Inr (g1, w1)" and "\<not> isfile E (out_file g) (ext w)"
  shows "\<exists>inc rg dem ts x.
           readfile_read E (geom_file g) (Some ''incidenceAngle'') (ext w) = Inr inc \<and>
           readfile_read E (geom_file g) (Some ''slantRangeDistance'') (ext w) = Inr rg \<and>
           readfile_read E (dem_err_file g) None (ext w) = Inr dem \<and>
           topo_resid sine dem (amplify (pbase g)) rg inc (num_date g) (length' g) (width g)
             = Inr ts \<and>
           writefile_write E ts (out_file g) (ts_file g) (ext w) = Inr x \<and>
           g1 = g\<lparr>pbase := amplify (pbase g), ts_data := Some ts\<rparr> \<and>
           w1 = \<lparr>ext = x,
                 trace = trace w @
                   [ReadFile (geom_file g) (Some ''incidenceAngle''),
                    ReadFile (geom_file g) (Some ''slantRangeDistance''),
                    ReadFile (dem_err_file g) None,
                    WriteFile ts (out_file g) (ts_file g),
                    Print (''write simulated topographic residual time-series to file ''
                           @ out_file g),
                    Print ''Done.'']\<rparr>"
  using assms unfolding cell1_def
  by (simp add: bindE_eq_Inr Let_def) blast

lemma cell0_Inr:
  assumes "cell0 E w = Inr (g, w0)"
  shows "\<exists>tso. chdir E (work_dir g) (ext w) = Inr (ext w0) \<and>
           work_dir g = expandvars E ''$PNOTE/phaseCorrection_order'' (ext w) \<and>
           timeseries_open E (ts_file g) (ext w0) = Inr tso \<and>
           normalize_pbase (ts_pbase tso) = Inr (pbase g) \<and>
           num_date g = numDate tso \<and> length' g = ts_length tso \<and> width g = ts_width tso \<and>
           out_file g = ''sim_topoResid.h5'' \<and> ts_data g = None \<and>
           trace w0 = trace w @ [Chdir (work_dir g), Print (''Go to directory: '' @ work_dir g),
                                 OpenTimeseries (ts_file g)]"
  using assms unfolding cell0_def
  by (auto simp: bindE_eq_Inr Let_def)

lemma cell2_eq:
  "cell2 E (g, w) =
     Inr (g, \<lparr>ext = system E (''view.py '' @ out_file g @ '' -n 4'') (ext w),
              trace = trace w @ [Shell (''view.py '' @ out_file g @ '' -n 4'')]\<rparr>)"
  by (simp add: cell2_def Let_def)

lemma written_arrays_append: "written_arrays (es @ fs) = written_arrays es @ written_arrays fs"
  by (induction es rule: written_arrays.induct) simp_all

lemma written_files_append: "written_files (es @ fs) = written_files es @ written_files fs"
  by (induction es rule: written_files.induct) simp_all

lemma shell_commands_append: "shell_commands (es @ fs) = shell_commands es @ shell_commands fs"
  by (induction es rule: shell_commands.induct) simp_all

lemma cell1_run:
  assumes "\<not> isfile E (out_file g) (ext w)"
    and "readfile_read E (geom_file g) (Some ''incidenceAngle'') (ext w) = Inr inc"
    and "readfile_read E (geom_file g) (Some ''slantRangeDistance'') (ext w) = Inr rg"
    and "readfile_read E (dem_err_file g) None (ext w) = Inr dem"
    and "topo_resid sine dem (amplify (pbase g)) rg inc (num_date g) (length' g) (width g) = Inr ts"
    and "writefile_write E ts (out_file g) (ts_file g) (ext w) = Inr x"
  shows "cell1 sine E (g, w) =
           Inr (g\<lparr>pbase := amplify (pbase g), ts_data := Some ts\<rparr>,
                \<lparr>ext = x,
                  trace = trace w @
                    [ReadFile (geom_file g) (Some ''incidenceAngle''),
                     ReadFile (geom_file g) (Some ''slantRangeDistance''),
                     ReadFile (dem_err_file g) None,
                     WriteFile ts (out_file g) (ts_file g),
                     Print (''write simulated topographic residual time-series to file ''
                            @ out_file g),
                     Print ''Done.'']\<rparr>)"
  using assms by (simp add: cell1_def bindE_Inr Let_def)

lemma notebook_Inr:
  assumes "notebook sine E w = Inr (g, w')"
  shows "\<exists>g0 w0 g1 w1. cell0 E w = Inr (g0, w0) \<and> cell1 sine E (g0, w0) = Inr (g1, w1) \<and>
           cell2 E (g1, w1) = Inr (g, w')"
  using assms unfolding notebook_def by (auto simp: bindE_eq_Inr)

section \<open>The small world\<close>

lemma demo_shapes:
  "shape2 demo_dem = (1, 2)" "shape2 demo_rg = (1, 2)" "shape2 demo_inc = (1, 2)"
  by (simp_all add: shape2_def demo_dem_def demo_rg_def demo_inc_def)

lemma wide_shapes:
  "shape2 wide_dem = (1, 2)" "shape2 wide_rg = (1, 2)" "shape2 wide_inc = (1, 2)"
  by (simp_all add: shape2_def wide_dem_def wide_rg_def wide_inc_def)

lemma demo_reads:
  "readfile_read (demo_lib []) f (Some ''incidenceAngle'') x = Inr demo_inc"
  "readfile_read (demo_lib []) f (Some ''slantRangeDistance'') x = Inr demo_rg"
  "readfile_read (demo_lib []) f None x = Inr demo_dem"
  by (simp_all add: demo_lib_def)

lemma wide_reads:
  "readfile_read (demo_lib [''float64'']) f (Some ''incidenceAngle'') x = Inr wide_inc"
  "readfile_read (demo_lib [''float64'']) f (Some ''slantRangeDistance'') x = Inr wide_rg"
  "readfile_read (demo_lib [''float64'']) f None x = Inr wide_dem"
  by (simp_all add: demo_lib_def)

lemma demo_normalize: "normalize_pbase (ts_pbase demo_ts) = Inr demo_pbase"
  by (simp add: normalize_pbase_def inplace_op_def result_type_def cast_def getitem_def
      bindE_def demo_ts_def demo_pbase_def np_subtract_def signed_zero_def fl_numeral)

lemma wide_normalize: "normalize_pbase (ts_pbase wide_ts) = Inr wide_pbase"
  by (simp add: normalize_pbase_def inplace_op_def result_type_def cast_def getitem_def
      bindE_def wide_ts_def wide_pbase_def np_subtract_def signed_zero_def fl_one)

lemma demo_amplify: "amplify demo_pbase = demo_pbase10"
  by (simp add: amplify_eq demo_pbase_def demo_pbase10_def np_multiply_def finite_result_def
      signed_zero_def fl_numeral)

text \<open>
  The angle of 90 degrees in radians, as \<^verbatim>\<open>inc_angle * np.pi / 180.\<close> computes it in
  each element type, and its sine in the small world.
\<close>

lemma demo_radians:
  "np_divide Float32 (np_multiply Float32 (Finite 90) (cast Float64 Float32 np_pi))
     (cast Float64 Float32 (Finite 180)) = Finite (13176795 / 8388608)"
  "np_divide Float64 (np_multiply Float64 (Finite 90) (cast Float64 Float64 np_pi))
     (cast Float64 Float64 (Finite 180)) = Finite (884279719003555 / 562949953421312)"
proof -
  have a: "fl Float32 (90 * (13176795 / 4194304)) = Finite (4632467 / 16384)"
    using fl_binade [of 8 "90 * (13176795 / 4194304)" Float32]
    by (simp add: overflow_threshold_simps pow2_def round_half_even_def)
  have b: "fl Float32 (4632467 / 16384 / 180) = Finite (13176795 / 8388608)"
    using fl_binade [of 0 "4632467 / 16384 / 180" Float32]
    by (simp add: overflow_threshold_simps pow2_def round_half_even_def)
  show "np_divide Float32 (np_multiply Float32 (Finite 90) (cast Float64 Float32 np_pi))
     (cast Float64 Float32 (Finite 180)) = Finite (13176795 / 8388608)"
  proof -
    have "cast Float64 Float32 (Finite 180) = Finite 180"
      by (simp add: cast_def fl_numeral)
    with a b show ?thesis
      by (simp add: rounding_examples(6) np_multiply_def np_divide_def finite_result_def)
  qed
  have c: "fl Float64 (90 * (884279719003555 / 281474976710656))
             = Finite (4974073419394997 / 17592186044416)"
    using fl_binade [of 8 "90 * (884279719003555 / 281474976710656)" Float64]
    by (simp add: overflow_threshold_simps pow2_def round_half_even_def)
  have d: "fl Float64 (4974073419394997 / 17592186044416 / 180)
             = Finite (884279719003555 / 562949953421312)"
    using fl_binade [of 0 "4974073419394997 / 17592186044416 / 180" Float64]
    by (simp add: overflow_threshold_simps pow2_def round_half_even_def)
  show "np_divide Float64 (np_multiply Float64 (Finite 90) (cast Float64 Float64 np_pi))
     (cast Float64 Float64 (Finite 180)) = Finite (884279719003555 / 562949953421312)"
    using c d by (simp add: np_pi_def cast_def np_multiply_def np_divide_def finite_result_def)
qed

lemma demo_sin_deg: "sin_deg demo_sine dt (Finite 90) = Finite 1"
  by (cases dt) (simp_all add: sin_deg_def demo_radians demo_sine_def)

text \<open>
  The value the loop stores at the pixel \<open>(0, 0)\<close> in the small world, for the
  baseline \<open>p\<close>, and at the pixel \<open>(0, 1)\<close>, whose denominator is zero.
\<close>

lemma demo_denominator:
  "denominator demo_sine Float32 Float32 (Finite 2) (Finite 90) = Finite 2"
  "denominator demo_sine Float32 Float32 (Finite 0) (Finite 90) = Finite 0"
  "denominator demo_sine Float64 Float64 (Finite 3) (Finite 90) = Finite 3"
  by (simp_all add: denominator_def demo_sin_deg demo_arith)

lemma demo_phase:
  "cast (phase_dtype Float32 Float32 (Finite 20) Float32 Float32) Float32
     (phase_at demo_sine Float32 Float32 Float32 Float32 (Finite 3) (Finite 20) (Finite 2)
        (Finite 90))
   = Finite 30"
  "cast (phase_dtype Float32 Float32 (Finite 2) Float32 Float32) Float32
     (phase_at demo_sine Float32 Float32 Float32 Float32 (Finite 3) (Finite 2) (Finite 2)
        (Finite 90))
   = Finite 3"
  "cast (phase_dtype Float32 Float32 (Finite 0) Float32 Float32) Float32
     (phase_at demo_sine Float32 Float32 Float32 Float32 (Finite 3) (Finite 0) (Finite 2)
        (Finite 90))
   = Finite 0"
  "cast (phase_dtype Float32 Float32 (Finite 20) Float32 Float32) Float32
     (phase_at demo_sine Float32 Float32 Float32 Float32 (Finite 4) (Finite 20) (Finite 0)
        (Finite 90))
   = PosInf"
  "cast (phase_dtype Float32 Float32 (Finite 0) Float32 Float32) Float32
     (phase_at demo_sine Float32 Float32 Float32 Float32 (Finite 4) (Finite 0) (Finite 0)
        (Finite 90))
   = NaN"
  "cast (phase_dtype Float32 Float32 (Finite 0) Float32 Float32) Float32
     (phase_at demo_sine Float32 Float32 Float32 Float32 NaN (Finite 0) (Finite 2)
        (Finite 90))
   = NaN"
  by (simp_all add: phase_at_def phase_dtype_def demo_denominator demo_arith)

lemma wide_phase:
  "phase_dtype Float64 Float64 (Finite 10) Float64 Float64 = Float64"
  "phase_at demo_sine Float64 Float64 Float64 Float64 (Finite 1) (Finite 10) (Finite 3)
     (Finite 90)
   = Finite (7505999378950827 / 2251799813685248)"
proof -
  show "phase_dtype Float64 Float64 (Finite 10) Float64 Float64 = Float64"
    by (simp add: phase_dtype_def demo_arith)
  show "phase_at demo_sine Float64 Float64 Float64 Float64 (Finite 1) (Finite 10) (Finite 3)
      (Finite 90)
      = Finite (7505999378950827 / 2251799813685248)"
    by (simp add: phase_at_def phase_dtype_def demo_denominator demo_arith fl64_ten_thirds)
qed

lemma demo_topo_resid:
  "\<exists>ts. topo_resid demo_sine demo_dem demo_pbase10 demo_rg demo_inc 2 1 2 = Inr ts"
proof -
  have "(2::nat) \<le> length (items1 demo_pbase10)" by (simp add: demo_pbase10_def)
  from topo_resid_same_shape [OF this demo_shapes] show ?thesis by blast
qed

lemma demo_globals_simps:
  "amplify (pbase demo_globals) = demo_pbase10" "num_date demo_globals = 2"
  "length' demo_globals = 1" "width demo_globals = 2"
  "out_file demo_globals = ''sim_topoResid.h5''"
  by (simp_all add: demo_globals_def demo_amplify)

lemma demo_cell1:
  assumes "topo_resid demo_sine demo_dem demo_pbase10 demo_rg demo_inc 2 1 2 = Inr ts"
    and "''sim_topoResid.h5'' \<notin> set fs"
  shows "cell1 demo_sine (demo_lib []) (demo_globals, \<lparr>ext = fs, trace = tr\<rparr>) =
     Inr (demo_globals\<lparr>pbase := demo_pbase10, ts_data := Some ts\<rparr>,
          \<lparr>ext = ''sim_topoResid.h5'' # fs,
            trace = tr @
              [ReadFile (geom_file demo_globals) (Some ''incidenceAngle''),
               ReadFile (geom_file demo_globals) (Some ''slantRangeDistance''),
               ReadFile (dem_err_file demo_globals) None,
               WriteFile ts ''sim_topoResid.h5'' (ts_file demo_globals),
               Print ''write simulated topographic residual time-series to file sim_topoResid.h5'',
               Print ''Done.'']\<rparr>)"
proof -
  note a = demo_globals_simps
  have nf: "\<not> isfile (demo_lib []) (out_file demo_globals) (ext \<lparr>ext = fs, trace = tr\<rparr>)"
    using assms(2) by (simp add: a demo_lib_def)
  have wr: "writefile_write (demo_lib []) ts (out_file demo_globals) (ts_file demo_globals)
              (ext \<lparr>ext = fs, trace = tr\<rparr>) = Inr (''sim_topoResid.h5'' # fs)"
    by (simp add: a demo_lib_def)
  have tr: "topo_resid demo_sine demo_dem (amplify (pbase demo_globals)) demo_rg demo_inc
              (num_date demo_globals) (length' demo_globals) (width demo_globals) = Inr ts"
    using assms(1) by (simp add: a)
  from cell1_run [OF nf demo_reads tr wr] show ?thesis by (simp add: a)
qed

lemma demo_cell0:
  "cell0 (demo_lib []) \<lparr>ext = fs, trace = tr\<rparr> =
     Inr (demo_globals,
          \<lparr>ext = fs,
            trace = tr @ [Chdir ''/notes/phaseCorrection_order'',
                          Print ''Go to directory: /notes/phaseCorrection_order'',
                          OpenTimeseries (ts_file demo_globals)]\<rparr>)"
proof -
  have "timeseries_open (demo_lib []) f x = Inr demo_ts" for f x
    by (simp add: demo_lib_def)
  moreover note demo_normalize
  moreover have "chdir (demo_lib []) d x = Inr x"
    "project_name2sensor_name (demo_lib []) f x = Inr [''Sen'']"
    "expandvars (demo_lib []) p x = ''/notes/phaseCorrection_order''"
    "expanduser (demo_lib []) p x = ''/home/u'' @ tl p" for d f p x
    by (simp_all add: demo_lib_def)
  ultimately show ?thesis
    by (simp add: cell0_def demo_globals_def bindE_def path_join_def getitem_def
        demo_ts_def Let_def)
qed

lemma demo_shape_mismatch:
  "topo_resid demo_sine (demo_dem\<lparr>nrows := 3\<rparr>) demo_pbase10 demo_rg demo_inc 2 1 2
     = Inl ValueError"
proof -
  have u: "[0..<2] = [0, 1]" by (simp add: upt_conv_Cons)
  show ?thesis
    by (simp add: topo_resid_def u bindE_def epoch_phase_def sin_array getitem_def array_op_def
        bdim_def scalar_op_def demo_dem_def demo_rg_def demo_inc_def demo_pbase10_def
        setitem_epoch_def np_zeros_def)
qed

lemma wide_amplify:
  "amplify wide_pbase = \<lparr>dtype1 = Float64, items1 = [Finite 0, Finite 10]\<rparr>"
  by (simp add: amplify_eq wide_pbase_def np_multiply_def finite_result_def signed_zero_def
      fl_numeral)

lemma wide_cell0:
  "cell0 (demo_lib [''float64'']) \<lparr>ext = fs, trace = tr\<rparr> =
     Inr (demo_globals\<lparr>pbase := wide_pbase\<rparr>,
          \<lparr>ext = fs,
            trace = tr @ [Chdir ''/notes/phaseCorrection_order'',
                          Print ''Go to directory: /notes/phaseCorrection_order'',
                          OpenTimeseries (ts_file demo_globals)]\<rparr>)"
proof -
  have "timeseries_open (demo_lib [''float64'']) f x = Inr wide_ts" for f x
    by (simp add: demo_lib_def)
  moreover note wide_normalize
  moreover have "chdir (demo_lib [''float64'']) d x = Inr x"
    "project_name2sensor_name (demo_lib [''float64'']) f x = Inr [''Sen'']"
    "expandvars (demo_lib [''float64'']) p x = ''/notes/phaseCorrection_order''"
    "expanduser (demo_lib [''float64'']) p x = ''/home/u'' @ tl p" for d f p x
    by (simp_all add: demo_lib_def)
  ultimately show ?thesis
    by (simp add: cell0_def demo_globals_def bindE_def path_join_def getitem_def
        wide_ts_def Let_def)
qed

text \<open>
  The pixel \<open>(0, 0)\<close> of the second epoch in the float64 world: \<open>1 * 10 / 3\<close> is
  computed in float64 and stored as a float32.
\<close>

lemma wide_topo_resid:
  "\<exists>ts. topo_resid demo_sine wide_dem (amplify wide_pbase) wide_rg wide_inc 2 1 2 = Inr ts \<and>
        item3 ts 1 0 0 = Finite (13981013 / 4194304)"
proof -
  have l2: "(2::nat) \<le> length (items1 (amplify wide_pbase))"
    by (simp add: wide_amplify)
  from topo_resid_same_shape [OF l2 wide_shapes, of demo_sine] obtain tw where
    tw: "topo_resid demo_sine wide_dem (amplify wide_pbase) wide_rg wide_inc 2 1 2 = Inr tw" and
    pw: "\<forall>i < 2. \<forall>y < 1. \<forall>x < 2. item3 tw i y x =
           cast (phase_dtype (dtype2 wide_dem) (dtype1 (amplify wide_pbase))
                   (items1 (amplify wide_pbase) ! i) (dtype2 wide_rg) (dtype2 wide_inc)) Float32
             (phase_at demo_sine (dtype2 wide_dem) (dtype1 (amplify wide_pbase))
                (dtype2 wide_rg) (dtype2 wide_inc) (item2 wide_dem y x)
                (items1 (amplify wide_pbase) ! i) (item2 wide_rg y x) (item2 wide_inc y x))"
    by blast
  have "item3 tw 1 0 0 =
      cast (phase_dtype (dtype2 wide_dem) (dtype1 (amplify wide_pbase))
              (items1 (amplify wide_pbase) ! 1) (dtype2 wide_rg) (dtype2 wide_inc)) Float32
        (phase_at demo_sine (dtype2 wide_dem) (dtype1 (amplify wide_pbase))
           (dtype2 wide_rg) (dtype2 wide_inc) (item2 wide_dem 0 0)
           (items1 (amplify wide_pbase) ! 1) (item2 wide_rg 0 0) (item2 wide_inc 0 0))"
    by (rule pw [rule_format]) simp_all
  then have "item3 tw 1 0 0 = Finite (13981013 / 4194304)"
    by (simp add: wide_amplify wide_dem_def wide_rg_def wide_inc_def wide_phase
        rounding_examples)
  with tw show ?thesis by blast
qed

section \<open>The value of a pixel\<close>

text \<open>
  C1 (amended). Let \<open>pb\<close> be the baseline array normalized so that the first
  epoch's value is zero (\<open>normalize_pbase raw = Inr pb\<close>), with at least \<open>n\<close>
  entries, and let the three rasters have the shape \<open>(l, w)\<close>. Then the loop returns
  a time-series, and for every epoch \<open>i\<close> and every pixel \<open>(y, x)\<close> its value is
  \<^verbatim>\<open>dem_err[y,x] * (pbase[i] * 10) / (rg_dist[y,x] * sin(inc_angle[y,x] * pi / 180))\<close>
  computed in NumPy's floating-point arithmetic, each operation rounded to the
  element type of its result, and converted to float32: the loop reads the
  normalized array after line 75 has multiplied it by 10, and it stores the value
  in a float32 array.
\<close>

theorem pixel_value_amplified:
  assumes "normalize_pbase raw = Inr pb"
    and "n \<le> length (items1 raw)"
    and "shape2 dem = (l, w)" and "shape2 rg = (l, w)" and "shape2 inc = (l, w)"
  shows "\<exists>ts. topo_resid sine dem (amplify pb) rg inc n l w = Inr ts \<and>
           (\<forall>i < n. \<forall>y < l. \<forall>x < w.
              item3 ts i y x =
                cast (phase_dtype (dtype2 dem) (dtype1 pb)
                        (np_multiply (dtype1 pb) (items1 pb ! i) (Finite 10))
                        (dtype2 rg) (dtype2 inc)) Float32
                  (phase_at sine (dtype2 dem) (dtype1 pb) (dtype2 rg) (dtype2 inc)
                     (item2 dem y x) (np_multiply (dtype1 pb) (items1 pb ! i) (Finite 10))
                     (item2 rg y x) (item2 inc y x)))"
  using amplified_same_shape [OF assms] .

text \<open>
  The theorem in the small world: the baselines \<open>[5, 7]\<close> are normalized to
  \<open>[0, 2]\<close>, and the pixel \<open>(0, 0)\<close> of the second epoch is \<open>3 * 20 / (2 * 1) = 30\<close>.
\<close>

theorem pixel_value_amplified_witness:
  "normalize_pbase (ts_pbase demo_ts) = Inr demo_pbase \<and>
   (2::nat) \<le> length (items1 (ts_pbase demo_ts)) \<and>
   shape2 demo_dem = (1, 2) \<and> shape2 demo_rg = (1, 2) \<and> shape2 demo_inc = (1, 2) \<and>
   (\<exists>ts. topo_resid demo_sine demo_dem (amplify demo_pbase) demo_rg demo_inc 2 1 2 = Inr ts \<and>
         item3 ts 1 0 0 = Finite 30)"
proof -
  have h2: "(2::nat) \<le> length (items1 (ts_pbase demo_ts))" by (simp add: demo_ts_def)
  from pixel_value_amplified [OF demo_normalize h2 demo_shapes, of demo_sine] obtain ts where
    ts: "topo_resid demo_sine demo_dem (amplify demo_pbase) demo_rg demo_inc 2 1 2 = Inr ts" and
    px: "\<forall>i < 2. \<forall>y < 1. \<forall>x < 2. item3 ts i y x =
           cast (phase_dtype (dtype2 demo_dem) (dtype1 demo_pbase)
                   (np_multiply (dtype1 demo_pbase) (items1 demo_pbase ! i) (Finite 10))
                   (dtype2 demo_rg) (dtype2 demo_inc)) Float32
             (phase_at demo_sine (dtype2 demo_dem) (dtype1 demo_pbase) (dtype2 demo_rg)
                (dtype2 demo_inc) (item2 demo_dem y x)
                (np_multiply (dtype1 demo_pbase) (items1 demo_pbase ! i) (Finite 10))
                (item2 demo_rg y x) (item2 demo_inc y x))"
    by blast
  have "item3 ts 1 0 0 =
      cast (phase_dtype (dtype2 demo_dem) (dtype1 demo_pbase)
              (np_multiply (dtype1 demo_pbase) (items1 demo_pbase ! 1) (Finite 10))
              (dtype2 demo_rg) (dtype2 demo_inc)) Float32
        (phase_at demo_sine (dtype2 demo_dem) (dtype1 demo_pbase) (dtype2 demo_rg)
           (dtype2 demo_inc) (item2 demo_dem 0 0)
           (np_multiply (dtype1 demo_pbase) (items1 demo_pbase ! 1) (Finite 10))
           (item2 demo_rg 0 0) (item2 demo_inc 0 0))"
    by (rule px [rule_format]) simp_all
  also have "np_multiply (dtype1 demo_pbase) (items1 demo_pbase ! 1) (Finite 10) = Finite 20"
    by (simp add: demo_pbase_def np_multiply_def finite_result_def fl_numeral)
  finally have "item3 ts 1 0 0 = Finite 30"
    by (simp add: demo_dem_def demo_rg_def demo_inc_def demo_pbase_def demo_phase)
  with demo_normalize h2 demo_shapes ts show ?thesis by blast
qed

text \<open>
  The statement without the factor fails there: with the normalized baseline \<open>2\<close>
  the formula gives \<open>3 * 2 / (2 * 1) = 3\<close>, and the loop writes \<open>30\<close>. And the value
  of the loop is not the value of the formula in the arithmetic of the inputs when
  these are float64 arrays: with the baselines \<open>[5, 6]\<close>, the DEM error \<open>1\<close> and the
  slant-range distance \<open>3\<close>, the formula with the factor gives the float64 number
  \<^verbatim>\<open>3.3333333333333335\<close>, and the loop writes the float32 number
  \<^verbatim>\<open>3.3333332538604736\<close>.
\<close>

theorem pixel_value_counterexample:
  "normalize_pbase (ts_pbase demo_ts) = Inr demo_pbase \<and>
   pixel_of (topo_resid demo_sine demo_dem (amplify demo_pbase) demo_rg demo_inc 2 1 2) 1 0 0
     = Inr (Finite 30) \<and>
   cast (phase_dtype Float32 Float32 (items1 demo_pbase ! 1) Float32 Float32) Float32
     (phase_at demo_sine Float32 Float32 Float32 Float32
        (item2 demo_dem 0 0) (items1 demo_pbase ! 1) (item2 demo_rg 0 0) (item2 demo_inc 0 0))
     = Finite 3 \<and>
   pixel_of (topo_resid demo_sine demo_dem (amplify demo_pbase) demo_rg demo_inc 2 1 2) 1 0 0
     \<noteq> Inr (cast (phase_dtype Float32 Float32 (items1 demo_pbase ! 1) Float32 Float32) Float32
              (phase_at demo_sine Float32 Float32 Float32 Float32
                 (item2 demo_dem 0 0) (items1 demo_pbase ! 1) (item2 demo_rg 0 0)
                 (item2 demo_inc 0 0))) \<and>
   normalize_pbase (ts_pbase wide_ts) = Inr wide_pbase \<and>
   pixel_of (topo_resid demo_sine wide_dem (amplify wide_pbase) wide_rg wide_inc 2 1 2) 1 0 0
     = Inr (Finite (13981013 / 4194304)) \<and>
   phase_at demo_sine Float64 Float64 Float64 Float64
     (item2 wide_dem 0 0) (np_multiply Float64 (items1 wide_pbase ! 1) (Finite 10))
     (item2 wide_rg 0 0) (item2 wide_inc 0 0)
     = Finite (7505999378950827 / 2251799813685248) \<and>
   pixel_of (topo_resid demo_sine wide_dem (amplify wide_pbase) wide_rg wide_inc 2 1 2) 1 0 0
     \<noteq> Inr (phase_at demo_sine Float64 Float64 Float64 Float64
              (item2 wide_dem 0 0) (np_multiply Float64 (items1 wide_pbase ! 1) (Finite 10))
              (item2 wide_rg 0 0) (item2 wide_inc 0 0))"
proof -
  have l1: "(2::nat) \<le> length (items1 (amplify demo_pbase))"
    by (simp add: demo_amplify demo_pbase10_def)
  from topo_resid_same_shape [OF l1 demo_shapes, of demo_sine] obtain ts where
    ts: "topo_resid demo_sine demo_dem (amplify demo_pbase) demo_rg demo_inc 2 1 2 = Inr ts" and
    px: "\<forall>i < 2. \<forall>y < 1. \<forall>x < 2. item3 ts i y x =
           cast (phase_dtype (dtype2 demo_dem) (dtype1 (amplify demo_pbase))
                   (items1 (amplify demo_pbase) ! i) (dtype2 demo_rg) (dtype2 demo_inc)) Float32
             (phase_at demo_sine (dtype2 demo_dem) (dtype1 (amplify demo_pbase))
                (dtype2 demo_rg) (dtype2 demo_inc) (item2 demo_dem y x)
                (items1 (amplify demo_pbase) ! i) (item2 demo_rg y x) (item2 demo_inc y x))"
    by blast
  have "item3 ts 1 0 0 =
      cast (phase_dtype (dtype2 demo_dem) (dtype1 (amplify demo_pbase))
              (items1 (amplify demo_pbase) ! 1) (dtype2 demo_rg) (dtype2 demo_inc)) Float32
        (phase_at demo_sine (dtype2 demo_dem) (dtype1 (amplify demo_pbase))
           (dtype2 demo_rg) (dtype2 demo_inc) (item2 demo_dem 0 0)
           (items1 (amplify demo_pbase) ! 1) (item2 demo_rg 0 0) (item2 demo_inc 0 0))"
    by (rule px [rule_format]) simp_all
  then have "item3 ts 1 0 0 = Finite 30"
    by (simp add: demo_amplify demo_pbase10_def demo_dem_def demo_rg_def demo_inc_def
        demo_phase)
  with ts have a: "pixel_of
      (topo_resid demo_sine demo_dem (amplify demo_pbase) demo_rg demo_inc 2 1 2) 1 0 0
      = Inr (Finite 30)"
    by (simp add: pixel_of_def)
  have b: "cast (phase_dtype Float32 Float32 (items1 demo_pbase ! 1) Float32 Float32) Float32
     (phase_at demo_sine Float32 Float32 Float32 Float32
        (item2 demo_dem 0 0) (items1 demo_pbase ! 1) (item2 demo_rg 0 0) (item2 demo_inc 0 0))
     = Finite 3"
    by (simp add: demo_pbase_def demo_dem_def demo_rg_def demo_inc_def demo_phase)
  from wide_topo_resid have c: "pixel_of
      (topo_resid demo_sine wide_dem (amplify wide_pbase) wide_rg wide_inc 2 1 2) 1 0 0
      = Inr (Finite (13981013 / 4194304))"
    by (auto simp: pixel_of_def)
  have d: "phase_at demo_sine Float64 Float64 Float64 Float64
     (item2 wide_dem 0 0) (np_multiply Float64 (items1 wide_pbase ! 1) (Finite 10))
     (item2 wide_rg 0 0) (item2 wide_inc 0 0)
     = Finite (7505999378950827 / 2251799813685248)"
    by (simp add: wide_pbase_def wide_dem_def wide_rg_def wide_inc_def np_multiply_def
        finite_result_def fl_numeral wide_phase)
  from demo_normalize a b wide_normalize c d show ?thesis by simp
qed

section \<open>The value written, from the baselines as read\<close>

text \<open>
  C2 (amended). Let the first cell complete, with \<open>tso\<close> the time-series object it
  opened, in a world where the output file does not exist; let the three reads
  return rasters of the shape \<open>(length, width)\<close> of \<open>tso\<close>, let \<open>tso\<close> have a baseline
  for each of its dates, and let the write succeed. Then the second cell completes
  and writes one array \<open>ts\<close>, the one it leaves in \<^verbatim>\<open>ts_data\<close>, and for every epoch
  \<open>i\<close> and pixel \<open>(y, x)\<close> the value written is the conversion to float32 of
  \<^verbatim>\<open>10 * (pbase_raw[i] - pbase_raw[0]) * dem_err[y,x] / (rg_dist[y,x] * sin(inc_angle[y,x] * pi / 180))\<close>
  computed in NumPy's floating-point arithmetic, where \<^verbatim>\<open>pbase_raw\<close> is the
  baseline array of \<open>tso\<close>: the difference and the product by 10 in the element type
  \<open>dp\<close> of the baselines, the product by the DEM error in the element type \<open>dn\<close>
  that the DEM error and the scaled baseline give, and the quotient in the element
  type \<open>dq\<close> of its operands.
\<close>

theorem written_value:
  assumes c0: "cell0 E w = Inr (g0, w0)"
    and nf: "\<not> isfile E (out_file g0) (ext w0)"
    and tso: "timeseries_open E (ts_file g0) (ext w0) = Inr tso"
    and inc: "readfile_read E (geom_file g0) (Some ''incidenceAngle'') (ext w0) = Inr inc_angle"
    and rg: "readfile_read E (geom_file g0) (Some ''slantRangeDistance'') (ext w0) = Inr rg_dist"
    and dem: "readfile_read E (dem_err_file g0) None (ext w0) = Inr dem_err"
    and len: "numDate tso \<le> length (items1 (ts_pbase tso))"
    and sh: "shape2 dem_err = (ts_length tso, ts_width tso)"
      "shape2 rg_dist = (ts_length tso, ts_width tso)"
      "shape2 inc_angle = (ts_length tso, ts_width tso)"
    and wr: "\<And>ts. \<exists>x. writefile_write E ts (out_file g0) (ts_file g0) (ext w0) = Inr x"
  shows "\<exists>g1 w1 ts.
           cell1 sine E (g0, w0) = Inr (g1, w1) \<and>
           written_arrays (trace w1) = written_arrays (trace w) @ [ts] \<and>
           ts_data g1 = Some ts \<and>
           (\<forall>i < numDate tso. \<forall>y < ts_length tso. \<forall>x < ts_width tso.
              (let dp = dtype1 (ts_pbase tso);
                   p = np_multiply dp (Finite 10)
                         (np_subtract dp (items1 (ts_pbase tso) ! i) (items1 (ts_pbase tso) ! 0));
                   dn = result_type (dtype2 dem_err) dp p;
                   dq = phase_dtype (dtype2 dem_err) dp p (dtype2 rg_dist) (dtype2 inc_angle)
               in item3 ts i y x =
                    cast dq Float32
                      (np_divide dq
                         (np_multiply dn (cast dp dn p) (item2 dem_err y x))
                         (denominator sine (dtype2 rg_dist) (dtype2 inc_angle)
                            (item2 rg_dist y x) (item2 inc_angle y x)))))"
proof -
  from cell0_Inr [OF c0] tso have
    nrm: "normalize_pbase (ts_pbase tso) = Inr (pbase g0)" and
    dims: "num_date g0 = numDate tso" "length' g0 = ts_length tso" "width g0 = ts_width tso" and
    tr0: "trace w0 = trace w @ [Chdir (work_dir g0), Print (''Go to directory: '' @ work_dir g0),
                                 OpenTimeseries (ts_file g0)]"
    by auto
  let ?dp = "dtype1 (ts_pbase tso)"
  note dp = normalize_pbase_Inr(4) [OF nrm]
  from amplified_same_shape [OF nrm len sh, of sine] obtain ts where
    ts: "topo_resid sine dem_err (amplify (pbase g0)) rg_dist inc_angle
           (numDate tso) (ts_length tso) (ts_width tso) = Inr ts" and
    px: "\<forall>i < numDate tso. \<forall>y < ts_length tso. \<forall>x < ts_width tso.
           item3 ts i y x =
             cast (phase_dtype (dtype2 dem_err) ?dp
                     (np_multiply ?dp (items1 (pbase g0) ! i) (Finite 10))
                     (dtype2 rg_dist) (dtype2 inc_angle)) Float32
               (phase_at sine (dtype2 dem_err) ?dp (dtype2 rg_dist) (dtype2 inc_angle)
                  (item2 dem_err y x) (np_multiply ?dp (items1 (pbase g0) ! i) (Finite 10))
                  (item2 rg_dist y x) (item2 inc_angle y x))"
    unfolding dp by blast
  from wr obtain x where
    x: "writefile_write E ts (out_file g0) (ts_file g0) (ext w0) = Inr x" by blast
  from ts have ts': "topo_resid sine dem_err (amplify (pbase g0)) rg_dist inc_angle
           (num_date g0) (length' g0) (width g0) = Inr ts"
    by (simp add: dims)
  note run = cell1_run [OF nf inc rg dem ts' x]
  have amp: "np_multiply ?dp (items1 (pbase g0) ! i) (Finite 10) =
          np_multiply ?dp (Finite 10)
            (np_subtract ?dp (items1 (ts_pbase tso) ! i) (items1 (ts_pbase tso) ! 0))"
    if "i < numDate tso" for i
  proof -
    from that len have "i < length (items1 (ts_pbase tso))" by simp
    from normalize_pbase_Inr(3) [OF nrm this] show ?thesis
      by (simp add: np_multiply_commute)
  qed
  have "\<forall>i < numDate tso. \<forall>y < ts_length tso. \<forall>x < ts_width tso.
              (let dp = dtype1 (ts_pbase tso);
                   p = np_multiply dp (Finite 10)
                         (np_subtract dp (items1 (ts_pbase tso) ! i) (items1 (ts_pbase tso) ! 0));
                   dn = result_type (dtype2 dem_err) dp p;
                   dq = phase_dtype (dtype2 dem_err) dp p (dtype2 rg_dist) (dtype2 inc_angle)
               in item3 ts i y x =
                    cast dq Float32
                      (np_divide dq
                         (np_multiply dn (cast dp dn p) (item2 dem_err y x))
                         (denominator sine (dtype2 rg_dist) (dtype2 inc_angle)
                            (item2 rg_dist y x) (item2 inc_angle y x))))"
    unfolding Let_def
  proof (intro allI impI)
    fix i y x
    assume b: "i < numDate tso" "y < ts_length tso" "x < ts_width tso"
    from px b have "item3 ts i y x =
             cast (phase_dtype (dtype2 dem_err) ?dp
                     (np_multiply ?dp (items1 (pbase g0) ! i) (Finite 10))
                     (dtype2 rg_dist) (dtype2 inc_angle)) Float32
               (phase_at sine (dtype2 dem_err) ?dp (dtype2 rg_dist) (dtype2 inc_angle)
                  (item2 dem_err y x) (np_multiply ?dp (items1 (pbase g0) ! i) (Finite 10))
                  (item2 rg_dist y x) (item2 inc_angle y x))"
      by blast
    then show "item3 ts i y x =
        cast (phase_dtype (dtype2 dem_err) ?dp
                (np_multiply ?dp (Finite 10)
                   (np_subtract ?dp (items1 (ts_pbase tso) ! i) (items1 (ts_pbase tso) ! 0)))
                (dtype2 rg_dist) (dtype2 inc_angle)) Float32
          (np_divide
             (phase_dtype (dtype2 dem_err) ?dp
                (np_multiply ?dp (Finite 10)
                   (np_subtract ?dp (items1 (ts_pbase tso) ! i) (items1 (ts_pbase tso) ! 0)))
                (dtype2 rg_dist) (dtype2 inc_angle))
             (np_multiply
                (result_type (dtype2 dem_err) ?dp
                   (np_multiply ?dp (Finite 10)
                      (np_subtract ?dp (items1 (ts_pbase tso) ! i)
                         (items1 (ts_pbase tso) ! 0))))
                (cast ?dp
                   (result_type (dtype2 dem_err) ?dp
                      (np_multiply ?dp (Finite 10)
                         (np_subtract ?dp (items1 (ts_pbase tso) ! i)
                            (items1 (ts_pbase tso) ! 0))))
                   (np_multiply ?dp (Finite 10)
                      (np_subtract ?dp (items1 (ts_pbase tso) ! i)
                         (items1 (ts_pbase tso) ! 0))))
                (item2 dem_err y x))
             (denominator sine (dtype2 rg_dist) (dtype2 inc_angle)
                (item2 rg_dist y x) (item2 inc_angle y x)))"
      unfolding amp [OF b(1)] phase_at_def
      by (simp add: np_multiply_commute)
  qed
  with run show ?thesis
    by (intro exI conjI) (assumption | simp add: tr0 written_arrays_append)+
qed

text \<open>
  The theorem in the small world, where the raw baselines are \<open>[5, 7]\<close>: the array
  written has \<open>10 * (7 - 5) * 3 / (2 * 1) = 30\<close> at the pixel \<open>(0, 0)\<close> of the second
  epoch and \<open>0\<close> at the same pixel of the first.
\<close>

theorem written_value_witness:
  "\<exists>g0 w0 g1 w1 ts.
     cell0 (demo_lib []) (demo_world []) = Inr (g0, w0) \<and>
     \<not> isfile (demo_lib []) (out_file g0) (ext w0) \<and>
     timeseries_open (demo_lib []) (ts_file g0) (ext w0) = Inr demo_ts \<and>
     cell1 demo_sine (demo_lib []) (g0, w0) = Inr (g1, w1) \<and>
     written_arrays (trace w1) = [ts] \<and> ts_data g1 = Some ts \<and>
     item3 ts 1 0 0 = Finite 30 \<and> item3 ts 0 0 0 = Finite 0"
proof -
  let ?w0 = "\<lparr>ext = [] :: string list,
              trace = [Chdir ''/notes/phaseCorrection_order'',
                       Print ''Go to directory: /notes/phaseCorrection_order'',
                       OpenTimeseries (ts_file demo_globals)]\<rparr>"
  have c0: "cell0 (demo_lib []) (demo_world []) = Inr (demo_globals, ?w0)"
    using demo_cell0 [of "[]" "[]"] by (simp add: demo_world_def)
  have nf: "\<not> isfile (demo_lib []) (out_file demo_globals) (ext ?w0)"
    by (simp add: demo_lib_def)
  have tso: "timeseries_open (demo_lib []) (ts_file demo_globals) (ext ?w0) = Inr demo_ts"
    by (simp add: demo_lib_def)
  have len: "numDate demo_ts \<le> length (items1 (ts_pbase demo_ts))"
    by (simp add: demo_ts_def)
  have sh: "shape2 demo_dem = (ts_length demo_ts, ts_width demo_ts)"
    "shape2 demo_rg = (ts_length demo_ts, ts_width demo_ts)"
    "shape2 demo_inc = (ts_length demo_ts, ts_width demo_ts)"
    using demo_shapes by (simp_all add: demo_ts_def)
  have wr: "\<exists>x. writefile_write (demo_lib []) ts (out_file demo_globals)
                  (ts_file demo_globals) (ext ?w0) = Inr x" for ts
    by (simp add: demo_lib_def)
  have p1: "np_multiply Float32 (Finite 10) (np_subtract Float32 (Finite 7) (Finite 5))
      = Finite 20"
    and p0: "np_multiply Float32 (Finite 10) (np_subtract Float32 (Finite 5) (Finite 5))
      = Finite 0"
    by (simp_all add: demo_arith)
  from written_value [OF c0 nf tso demo_reads len sh wr, of demo_sine] obtain g1 w1 ts where
    c1: "cell1 demo_sine (demo_lib []) (demo_globals, ?w0) = Inr (g1, w1)" and
    wa: "written_arrays (trace w1) = written_arrays (trace (demo_world [])) @ [ts]" and
    td: "ts_data g1 = Some ts" and
    px: "\<forall>i < numDate demo_ts. \<forall>y < ts_length demo_ts. \<forall>x < ts_width demo_ts.
              (let dp = dtype1 (ts_pbase demo_ts);
                   p = np_multiply dp (Finite 10)
                         (np_subtract dp (items1 (ts_pbase demo_ts) ! i)
                            (items1 (ts_pbase demo_ts) ! 0));
                   dn = result_type (dtype2 demo_dem) dp p;
                   dq = phase_dtype (dtype2 demo_dem) dp p (dtype2 demo_rg) (dtype2 demo_inc)
               in item3 ts i y x =
                    cast dq Float32
                      (np_divide dq
                         (np_multiply dn (cast dp dn p) (item2 demo_dem y x))
                         (denominator demo_sine (dtype2 demo_rg) (dtype2 demo_inc)
                            (item2 demo_rg y x) (item2 demo_inc y x))))"
    by blast
  have "1 < numDate demo_ts" "0 < ts_length demo_ts" "0 < ts_width demo_ts"
    "0 < numDate demo_ts"
    by (simp_all add: demo_ts_def)
  note i1 = px [rule_format, OF this(1,2,3)] and i0 = px [rule_format, OF this(4,2,3)]
  from i1 have q1: "item3 ts 1 0 0 = Finite 30"
    by (simp add: Let_def demo_ts_def demo_dem_def demo_rg_def demo_inc_def p1
        demo_denominator phase_dtype_def demo_arith)
  from i0 have q0: "item3 ts 0 0 0 = Finite 0"
    by (simp add: Let_def demo_ts_def demo_dem_def demo_rg_def demo_inc_def p0
        demo_denominator phase_dtype_def demo_arith)
  from wa have wa': "written_arrays (trace w1) = [ts]"
    by (simp add: demo_world_def)
  from c0 nf tso c1 wa' td q1 q0 show ?thesis by blast
qed

text \<open>
  The value written is not the value of the formula when the files hold float64
  data. A run of the notebook in the float64 world writes one array, whose pixel
  \<open>(0, 0)\<close> of the second epoch is the float32 number \<^verbatim>\<open>3.3333332538604736\<close>, where
  the formula \<open>10 * (6 - 5) * 1 / (3 * 1)\<close> is the float64 number
  \<^verbatim>\<open>3.3333333333333335\<close>.
\<close>

theorem written_value_counterexample:
  "pixels_written_by (notebook demo_sine (demo_lib [''float64'']) (demo_world [])) 1 0 0
     = Inr [Finite (13981013 / 4194304)] \<and>
   np_divide Float64
     (np_multiply Float64
        (np_multiply Float64 (Finite 10)
           (np_subtract Float64 (items1 (ts_pbase wide_ts) ! 1) (items1 (ts_pbase wide_ts) ! 0)))
        (item2 wide_dem 0 0))
     (denominator demo_sine Float64 Float64 (item2 wide_rg 0 0) (item2 wide_inc 0 0))
     = Finite (7505999378950827 / 2251799813685248) \<and>
   pixels_written_by (notebook demo_sine (demo_lib [''float64'']) (demo_world [])) 1 0 0
     \<noteq> Inr [np_divide Float64
              (np_multiply Float64
                 (np_multiply Float64 (Finite 10)
                    (np_subtract Float64 (items1 (ts_pbase wide_ts) ! 1)
                       (items1 (ts_pbase wide_ts) ! 0)))
                 (item2 wide_dem 0 0))
              (denominator demo_sine Float64 Float64 (item2 wide_rg 0 0)
                 (item2 wide_inc 0 0))]"
proof -
  let ?E = "demo_lib [''float64'']"
  let ?g = "demo_globals\<lparr>pbase := wide_pbase\<rparr>"
  let ?w0 = "\<lparr>ext = [] :: string list,
              trace = [Chdir ''/notes/phaseCorrection_order'',
                       Print ''Go to directory: /notes/phaseCorrection_order'',
                       OpenTimeseries (ts_file demo_globals)]\<rparr>"
  from wide_topo_resid obtain tw where
    tw: "topo_resid demo_sine wide_dem (amplify wide_pbase) wide_rg wide_inc 2 1 2 = Inr tw" and
    px: "item3 tw 1 0 0 = Finite (13981013 / 4194304)"
    by blast
  have c0: "cell0 ?E (demo_world []) = Inr (?g, ?w0)"
    using wide_cell0 [of "[]" "[]"] by (simp add: demo_world_def)
  have gs: "pbase ?g = wide_pbase" "num_date ?g = 2" "length' ?g = 1" "width ?g = 2"
    "out_file ?g = ''sim_topoResid.h5''"
    by (simp_all add: demo_globals_def)
  have nf: "\<not> isfile ?E (out_file ?g) (ext ?w0)"
    by (simp add: demo_lib_def)
  have wr: "writefile_write ?E tw (out_file ?g) (ts_file ?g) (ext ?w0)
              = Inr [''sim_topoResid.h5'']"
    by (simp add: demo_lib_def gs)
  have tr: "topo_resid demo_sine wide_dem (amplify (pbase ?g)) wide_rg wide_inc
              (num_date ?g) (length' ?g) (width ?g) = Inr tw"
    using tw by (simp add: gs)
  note c1 = cell1_run [OF nf wide_reads tr wr]
  have "events_of (notebook demo_sine ?E (demo_world [])) =
          Inr (trace ?w0 @
                 [ReadFile (geom_file ?g) (Some ''incidenceAngle''),
                  ReadFile (geom_file ?g) (Some ''slantRangeDistance''),
                  ReadFile (dem_err_file ?g) None,
                  WriteFile tw (out_file ?g) (ts_file ?g),
                  Print (''write simulated topographic residual time-series to file ''
                         @ out_file ?g),
                  Print ''Done.'',
                  Shell (''view.py '' @ out_file ?g @ '' -n 4'')])"
    by (simp add: notebook_def c0 bindE_Inr c1 cell2_eq events_of_def)
  with px have a: "pixels_written_by (notebook demo_sine ?E (demo_world [])) 1 0 0
      = Inr [Finite (13981013 / 4194304)]"
    by (simp add: pixels_written_by_def)
  have b: "np_divide Float64
     (np_multiply Float64
        (np_multiply Float64 (Finite 10)
           (np_subtract Float64 (items1 (ts_pbase wide_ts) ! 1) (items1 (ts_pbase wide_ts) ! 0)))
        (item2 wide_dem 0 0))
     (denominator demo_sine Float64 Float64 (item2 wide_rg 0 0) (item2 wide_inc 0 0))
     = Finite (7505999378950827 / 2251799813685248)"
    by (simp add: wide_ts_def wide_dem_def wide_rg_def wide_inc_def demo_denominator
        demo_arith fl64_ten_thirds)
  from a b show ?thesis by simp
qed

section \<open>The loop and the one-line broadcast\<close>

text \<open>
  C3 (amended). For inputs of compatible shapes (one baseline per date, rasters
  that broadcast to \<open>(l, w)\<close>) in which the baseline array is a float64 array only
  if the DEM error is one, the loop of lines 78 to 80 and the one-line broadcast
  expression both return an array, and the array of the loop is the array of the
  broadcast expression converted to float32: same shape, and at every index the
  element of the one converted to float32. When the broadcast expression gives a
  float32 array (all its inputs are float32 arrays), the two arrays are the same.
\<close>

theorem loop_equals_broadcast_as_float32:
  assumes "compatible_shapes dem pb rg inc n l w"
    and "dtype1 pb = Float64 \<longrightarrow> dtype2 dem = Float64"
  shows "\<exists>ts b. topo_resid sine dem pb rg inc n l w = Inr ts \<and>
                broadcast_resid sine dem pb rg inc = Inr b \<and>
                same_arr3 ts (astype3 Float32 b) \<and>
                (dtype3 b = Float32 \<longrightarrow> same_arr3 ts b)"
proof -
  from topo_resid_total [OF assms(1), of sine] obtain ts where
    ts: "topo_resid sine dem pb rg inc n l w = Inr ts" by blast
  let ?dq = "promote_types (promote_types (dtype2 dem) (dtype1 pb))
               (promote_types (dtype2 rg) (dtype2 inc))"
  from broadcast_resid_compatible [OF assms(1), of sine] obtain b where
    b: "broadcast_resid sine dem pb rg inc = Inr b" "shape3 b = (n, l, w)" "dtype3 b = ?dq"
      "\<forall>i y x. item3 b i y x =
         np_divide ?dq
           (np_multiply (promote_types (dtype2 dem) (dtype1 pb))
              (item2 dem (bix (nrows dem) y) (bix (ncols dem) x)) (items1 pb ! i))
           (denominator sine (dtype2 rg) (dtype2 inc)
              (item2 rg (bix (nrows rg) y) (bix (ncols rg) x))
              (item2 inc (bix (nrows inc) y) (bix (ncols inc) x)))"
    by blast
  note T = topo_resid_Inr [OF ts]
  from T(1) have nd: "ndates ts = n" by (simp add: shape3_def)
  have px: "item3 ts i y x = cast (dtype3 b) Float32 (item3 b i y x)" if "i < n" for i y x
    unfolding T(4) [OF that] b(3) b(4) [rule_format] pixel_phase_def phase_at_def
      phase_dtype_def result_type_promote [OF assms(2)]
    by (rule refl)
  have s1: "same_arr3 ts (astype3 Float32 b)"
    unfolding same_arr3_def using T(1,2) b(2) by (simp add: nd px astype3_def shape3_def)
  have s2: "same_arr3 ts b" if "dtype3 b = Float32"
    unfolding same_arr3_def using T(1,2) b(2) that by (simp add: nd px cast_same)
  from ts b(1) s1 s2 show ?thesis by blast
qed

text \<open>
  The theorem in the small world, whose arrays are float32 arrays: the two arrays
  are the same, with \<open>30\<close> at the pixel \<open>(0, 0)\<close> of the second epoch and \<^verbatim>\<open>inf\<close> at the
  pixel \<open>(0, 1)\<close>, whose slant-range distance is zero.
\<close>

theorem loop_equals_broadcast_as_float32_witness:
  "compatible_shapes demo_dem demo_pbase10 demo_rg demo_inc 2 1 2 \<and>
   dtype1 demo_pbase10 = Float32 \<and>
   (\<exists>ts b. topo_resid demo_sine demo_dem demo_pbase10 demo_rg demo_inc 2 1 2 = Inr ts \<and>
           broadcast_resid demo_sine demo_dem demo_pbase10 demo_rg demo_inc = Inr b \<and>
           dtype3 b = Float32 \<and> same_arr3 ts (astype3 Float32 b) \<and> same_arr3 ts b \<and>
           item3 ts 1 0 0 = Finite 30 \<and> item3 ts 1 0 1 = PosInf)"
proof -
  have h: "compatible_shapes demo_dem demo_pbase10 demo_rg demo_inc 2 1 2"
    by (simp add: compatible_shapes_def demo_dem_def demo_rg_def demo_inc_def demo_pbase10_def
        bdim_def)
  have d: "dtype1 demo_pbase10 = Float32" by (simp add: demo_pbase10_def)
  then have h2: "dtype1 demo_pbase10 = Float64 \<longrightarrow> dtype2 demo_dem = Float64" by simp
  from loop_equals_broadcast_as_float32 [OF h h2, of demo_sine] obtain ts b where
    tb: "topo_resid demo_sine demo_dem demo_pbase10 demo_rg demo_inc 2 1 2 = Inr ts"
      "broadcast_resid demo_sine demo_dem demo_pbase10 demo_rg demo_inc = Inr b"
      "same_arr3 ts (astype3 Float32 b)" "dtype3 b = Float32 \<longrightarrow> same_arr3 ts b"
    by blast
  from tb(2) have bb: "dtype3 b = Float32" "item3 b 1 0 0 = Finite 30" "item3 b 1 0 1 = PosInf"
    by (auto simp: broadcast_resid_def sin_array bindE_def array_op_def bdim_def bix_def
        demo_dem_def demo_rg_def demo_inc_def demo_pbase10_def demo_sin_deg
        demo_arith)
  with tb(4) have s: "same_arr3 ts b" by simp
  from topo_resid_Inr(1) [OF tb(1)] have "ndates ts = 2" "nrows3 ts = 1" "ncols3 ts = 2"
    by (simp_all add: shape3_def)
  with s bb(2,3) have "item3 ts 1 0 0 = Finite 30" "item3 ts 1 0 1 = PosInf"
    by (simp_all add: same_arr3_def)
  with h d tb(1,2,3) bb(1) s show ?thesis by blast
qed

text \<open>
  With the float32 rasters of the small world and the float64 baselines
  \<open>[0, 33554434]\<close> the two computations differ. The loop multiplies the float32 DEM
  error by a scalar, in float32: the baseline is converted to \<open>33554432\<close> and the
  pixel \<open>(0, 0)\<close> of the second epoch is \<open>3 * 33554432 / 2 = 50331648\<close>. The broadcast
  expression multiplies two arrays, in float64: the pixel is
  \<open>3 * 33554434 / 2 = 50331651\<close>, in a float64 array, and \<open>50331652\<close> when it is
  converted to float32.
\<close>

theorem loop_equals_broadcast_counterexample:
  "compatible_shapes demo_dem mixed_pbase demo_rg demo_inc 2 1 2 \<and>
   pixel_of (topo_resid demo_sine demo_dem mixed_pbase demo_rg demo_inc 2 1 2) 1 0 0
     = Inr (Finite 50331648) \<and>
   pixel_of (broadcast_resid demo_sine demo_dem mixed_pbase demo_rg demo_inc) 1 0 0
     = Inr (Finite 50331651) \<and>
   cast Float64 Float32 (Finite 50331651) = Finite 50331652 \<and>
   pixel_of (topo_resid demo_sine demo_dem mixed_pbase demo_rg demo_inc 2 1 2) 1 0 0
     \<noteq> pixel_of (broadcast_resid demo_sine demo_dem mixed_pbase demo_rg demo_inc) 1 0 0 \<and>
   pixel_of (topo_resid demo_sine demo_dem mixed_pbase demo_rg demo_inc 2 1 2) 1 0 0
     \<noteq> Inr (cast Float64 Float32 (Finite 50331651))"
proof -
  have h: "compatible_shapes demo_dem mixed_pbase demo_rg demo_inc 2 1 2"
    by (simp add: compatible_shapes_def demo_dem_def demo_rg_def demo_inc_def mixed_pbase_def
        bdim_def)
  have r1: "fl Float32 33554434 = Finite 33554432"
    using fl_binade [of 25 33554434 Float32]
    by (simp add: overflow_threshold_simps pow2_def round_half_even_def)
  have r2: "fl Float32 100663296 = Finite 100663296"
    using fl_binade [of 26 100663296 Float32]
    by (simp add: overflow_threshold_simps pow2_def round_half_even_def)
  have r3: "fl Float32 50331648 = Finite 50331648"
    using fl_binade [of 25 50331648 Float32]
    by (simp add: overflow_threshold_simps pow2_def round_half_even_def)
  have r4: "fl Float32 50331651 = Finite 50331652"
    using fl_binade [of 25 50331651 Float32]
    by (simp add: overflow_threshold_simps pow2_def round_half_even_def)
  have l2: "(2::nat) \<le> length (items1 mixed_pbase)" by (simp add: mixed_pbase_def)
  from topo_resid_same_shape [OF l2 demo_shapes, of demo_sine] obtain ts where
    ts: "topo_resid demo_sine demo_dem mixed_pbase demo_rg demo_inc 2 1 2 = Inr ts" and
    px: "\<forall>i < 2. \<forall>y < 1. \<forall>x < 2. item3 ts i y x =
           cast (phase_dtype (dtype2 demo_dem) (dtype1 mixed_pbase)
                   (items1 mixed_pbase ! i) (dtype2 demo_rg) (dtype2 demo_inc)) Float32
             (phase_at demo_sine (dtype2 demo_dem) (dtype1 mixed_pbase)
                (dtype2 demo_rg) (dtype2 demo_inc) (item2 demo_dem y x)
                (items1 mixed_pbase ! i) (item2 demo_rg y x) (item2 demo_inc y x))"
    by blast
  have "item3 ts 1 0 0 =
      cast (phase_dtype (dtype2 demo_dem) (dtype1 mixed_pbase)
              (items1 mixed_pbase ! 1) (dtype2 demo_rg) (dtype2 demo_inc)) Float32
        (phase_at demo_sine (dtype2 demo_dem) (dtype1 mixed_pbase)
           (dtype2 demo_rg) (dtype2 demo_inc) (item2 demo_dem 0 0)
           (items1 mixed_pbase ! 1) (item2 demo_rg 0 0) (item2 demo_inc 0 0))"
    by (rule px [rule_format]) simp_all
  then have "item3 ts 1 0 0 = Finite 50331648"
    by (simp add: mixed_pbase_def demo_dem_def demo_rg_def demo_inc_def phase_at_def
        phase_dtype_def demo_denominator np_defs cast_def result_type_def promote_types_def
        float32_limit_def r1 r2 r3)
  with ts have a: "pixel_of
      (topo_resid demo_sine demo_dem mixed_pbase demo_rg demo_inc 2 1 2) 1 0 0
      = Inr (Finite 50331648)"
    by (simp add: pixel_of_def)
  have b: "pixel_of (broadcast_resid demo_sine demo_dem mixed_pbase demo_rg demo_inc) 1 0 0
      = Inr (Finite 50331651)"
    by (simp add: pixel_of_def broadcast_resid_def sin_array bindE_def array_op_def bdim_def
        bix_def demo_dem_def demo_rg_def demo_inc_def mixed_pbase_def demo_sin_deg np_defs promote_types_def fl_numeral fl_numeral64)
  have c: "cast Float64 Float32 (Finite 50331651) = Finite 50331652"
    by (simp add: cast_def r4)
  from h a b c show ?thesis by simp
qed

section \<open>The first epoch\<close>

text \<open>
  C4 (amended). After \<^verbatim>\<open>pbase -= pbase[0]\<close> the first element of \<^verbatim>\<open>pbase\<close> is
  zero when the first baseline read is finite; and when there is at least one
  date, the baseline array has an entry for each, and the rasters have the shape
  \<open>(l, w)\<close>, the loop returns a time-series whose first epoch is zero at every pixel
  where the first baseline read and \<^verbatim>\<open>dem_err[y,x]\<close> are finite and the denominator
  \<^verbatim>\<open>rg_dist[y,x] * sin(inc_angle[y,x] * pi / 180)\<close>, as NumPy computes it, is finite
  and not zero.
\<close>

theorem first_epoch_zero:
  assumes "normalize_pbase raw = Inr pb"
  shows "(is_finite (items1 raw ! 0) \<longrightarrow> items1 pb ! 0 = Finite 0) \<and>
         (0 < n \<longrightarrow> n \<le> length (items1 raw) \<longrightarrow>
          shape2 dem = (l, w) \<longrightarrow> shape2 rg = (l, w) \<longrightarrow> shape2 inc = (l, w) \<longrightarrow>
          (\<exists>ts. topo_resid sine dem (amplify pb) rg inc n l w = Inr ts \<and>
             (\<forall>y < l. \<forall>x < w.
                is_finite (items1 raw ! 0) \<longrightarrow>
                is_finite (item2 dem y x) \<longrightarrow>
                is_finite
                  (denominator sine (dtype2 rg) (dtype2 inc) (item2 rg y x) (item2 inc y x)) \<longrightarrow>
                \<not> is_zero
                  (denominator sine (dtype2 rg) (dtype2 inc) (item2 rg y x) (item2 inc y x)) \<longrightarrow>
                is_zero (item3 ts 0 y x))))"
proof (intro conjI impI)
  from normalize_pbase_Inr(1) [OF assms] have "0 < length (items1 raw)" by simp
  from normalize_pbase_Inr(3) [OF assms this]
  have z: "items1 pb ! 0 = Finite 0" if "is_finite (items1 raw ! 0)"
    using that by (simp add: np_subtract_self)
  then show "items1 pb ! 0 = Finite 0" if "is_finite (items1 raw ! 0)" using that .
  assume n: "0 < n" "n \<le> length (items1 raw)"
    and sh: "shape2 dem = (l, w)" "shape2 rg = (l, w)" "shape2 inc = (l, w)"
  from amplified_same_shape [OF assms n(2) sh, of sine] obtain ts where
    ts: "topo_resid sine dem (amplify pb) rg inc n l w = Inr ts" and
    px: "\<forall>i < n. \<forall>y < l. \<forall>x < w.
           item3 ts i y x =
             cast (phase_dtype (dtype2 dem) (dtype1 pb)
                     (np_multiply (dtype1 pb) (items1 pb ! i) (Finite 10))
                     (dtype2 rg) (dtype2 inc)) Float32
               (phase_at sine (dtype2 dem) (dtype1 pb) (dtype2 rg) (dtype2 inc)
                  (item2 dem y x) (np_multiply (dtype1 pb) (items1 pb ! i) (Finite 10))
                  (item2 rg y x) (item2 inc y x))"
    by blast
  have "is_zero (item3 ts 0 y x)"
    if "y < l" "x < w" "is_finite (items1 raw ! 0)" "is_finite (item2 dem y x)"
      "is_finite (denominator sine (dtype2 rg) (dtype2 inc) (item2 rg y x) (item2 inc y x))"
      "\<not> is_zero (denominator sine (dtype2 rg) (dtype2 inc) (item2 rg y x) (item2 inc y x))"
    for y x
  proof -
    from px n(1) that(1,2) z [OF that(3)]
    have "item3 ts 0 y x =
        cast (phase_dtype (dtype2 dem) (dtype1 pb) (Finite 0) (dtype2 rg) (dtype2 inc)) Float32
          (phase_at sine (dtype2 dem) (dtype1 pb) (dtype2 rg) (dtype2 inc)
             (item2 dem y x) (Finite 0) (item2 rg y x) (item2 inc y x))"
      by (simp add: np_multiply_zero_ten)
    with phase_at_zero_baseline [OF that(4,5,6)] show ?thesis by simp
  qed
  with ts show "\<exists>ts. topo_resid sine dem (amplify pb) rg inc n l w = Inr ts \<and>
             (\<forall>y < l. \<forall>x < w.
                is_finite (items1 raw ! 0) \<longrightarrow>
                is_finite (item2 dem y x) \<longrightarrow>
                is_finite
                  (denominator sine (dtype2 rg) (dtype2 inc) (item2 rg y x) (item2 inc y x)) \<longrightarrow>
                \<not> is_zero
                  (denominator sine (dtype2 rg) (dtype2 inc) (item2 rg y x) (item2 inc y x)) \<longrightarrow>
                is_zero (item3 ts 0 y x))"
    by blast
qed

text \<open>
  The theorem in the small world: at the pixel \<open>(0, 0)\<close> the DEM error is \<open>3\<close>, the
  denominator is \<open>2\<close>, and the first epoch is zero.
\<close>

theorem first_epoch_zero_witness:
  "normalize_pbase (ts_pbase demo_ts) = Inr demo_pbase \<and>
   is_finite (items1 (ts_pbase demo_ts) ! 0) \<and> items1 demo_pbase ! 0 = Finite 0 \<and>
   is_finite (item2 demo_dem 0 0) \<and>
   denominator demo_sine (dtype2 demo_rg) (dtype2 demo_inc) (item2 demo_rg 0 0)
     (item2 demo_inc 0 0) = Finite 2 \<and>
   (\<exists>ts. topo_resid demo_sine demo_dem (amplify demo_pbase) demo_rg demo_inc 2 1 2 = Inr ts \<and>
         is_zero (item3 ts 0 0 0))"
proof -
  have f0: "is_finite (items1 (ts_pbase demo_ts) ! 0)" by (simp add: demo_ts_def)
  have l2: "(2::nat) \<le> length (items1 (ts_pbase demo_ts))" by (simp add: demo_ts_def)
  have fin: "is_finite (item2 demo_dem 0 0)"
    by (simp add: demo_dem_def)
  have den: "denominator demo_sine (dtype2 demo_rg) (dtype2 demo_inc) (item2 demo_rg 0 0)
      (item2 demo_inc 0 0) = Finite 2"
    by (simp add: demo_rg_def demo_inc_def demo_denominator)
  from first_epoch_zero [OF demo_normalize, of 2 demo_dem 1 2 demo_rg demo_inc demo_sine]
    demo_shapes f0 l2
  obtain ts where
    z: "items1 demo_pbase ! 0 = Finite 0" and
    ts: "topo_resid demo_sine demo_dem (amplify demo_pbase) demo_rg demo_inc 2 1 2 = Inr ts" and
    px: "\<forall>y < 1. \<forall>x < 2.
           is_finite (items1 (ts_pbase demo_ts) ! 0) \<longrightarrow>
           is_finite (item2 demo_dem y x) \<longrightarrow>
           is_finite
             (denominator demo_sine (dtype2 demo_rg) (dtype2 demo_inc) (item2 demo_rg y x)
                (item2 demo_inc y x)) \<longrightarrow>
           \<not> is_zero
             (denominator demo_sine (dtype2 demo_rg) (dtype2 demo_inc) (item2 demo_rg y x)
                (item2 demo_inc y x)) \<longrightarrow>
           is_zero (item3 ts 0 y x)"
    by auto
  have "is_zero (item3 ts 0 0 0)"
    by (rule px [rule_format, OF _ _ f0 fin]) (simp_all add: den)
  with demo_normalize f0 z fin den ts show ?thesis by blast
qed

text \<open>
  Without the two conditions the statement fails. With \<^verbatim>\<open>nan\<close> for the first
  baseline, the first element of \<^verbatim>\<open>pbase\<close> is \<open>nan - nan\<close>, which is \<^verbatim>\<open>nan\<close>. With
  \<^verbatim>\<open>nan\<close> for the DEM error of the pixel \<open>(0, 0)\<close>, whose denominator is \<open>2\<close>, the
  first epoch is \<open>nan * 0 / 2\<close>, which is \<^verbatim>\<open>nan\<close>.
\<close>

theorem first_epoch_zero_counterexample:
  "normalize_pbase \<lparr>dtype1 = Float32, items1 = [NaN, Finite 7]\<rparr>
     = Inr \<lparr>dtype1 = Float32, items1 = [NaN, NaN]\<rparr> \<and>
   items1 \<lparr>dtype1 = Float32, items1 = [NaN, NaN]\<rparr> ! 0 \<noteq> Finite 0 \<and>
   normalize_pbase (ts_pbase demo_ts) = Inr demo_pbase \<and>
   denominator demo_sine (dtype2 demo_rg) (dtype2 demo_inc) (item2 demo_rg 0 0)
     (item2 demo_inc 0 0) = Finite 2 \<and>
   item2 demo_dem_nan 0 0 = NaN \<and>
   pixel_of
     (topo_resid demo_sine demo_dem_nan (amplify demo_pbase) demo_rg demo_inc 2 1 2) 0 0 0
     = Inr NaN \<and>
   \<not> is_zero NaN"
proof -
  have a: "normalize_pbase \<lparr>dtype1 = Float32, items1 = [NaN, Finite 7]\<rparr>
     = Inr \<lparr>dtype1 = Float32, items1 = [NaN, NaN]\<rparr>"
    by (simp add: normalize_pbase_def inplace_op_def result_type_def cast_def getitem_def
        bindE_def np_subtract_def)
  have den: "denominator demo_sine (dtype2 demo_rg) (dtype2 demo_inc) (item2 demo_rg 0 0)
      (item2 demo_inc 0 0) = Finite 2"
    by (simp add: demo_rg_def demo_inc_def demo_denominator)
  have sh: "shape2 demo_dem_nan = (1, 2)" by (simp add: shape2_def demo_dem_nan_def)
  have l1: "(2::nat) \<le> length (items1 (amplify demo_pbase))"
    by (simp add: demo_amplify demo_pbase10_def)
  from topo_resid_same_shape [OF l1 sh demo_shapes(2,3), of demo_sine] obtain ts where
    ts: "topo_resid demo_sine demo_dem_nan (amplify demo_pbase) demo_rg demo_inc 2 1 2 = Inr ts"
    and px: "\<forall>i < 2. \<forall>y < 1. \<forall>x < 2. item3 ts i y x =
           cast (phase_dtype (dtype2 demo_dem_nan) (dtype1 (amplify demo_pbase))
                   (items1 (amplify demo_pbase) ! i) (dtype2 demo_rg) (dtype2 demo_inc)) Float32
             (phase_at demo_sine (dtype2 demo_dem_nan) (dtype1 (amplify demo_pbase))
                (dtype2 demo_rg) (dtype2 demo_inc) (item2 demo_dem_nan y x)
                (items1 (amplify demo_pbase) ! i) (item2 demo_rg y x) (item2 demo_inc y x))"
    by blast
  have "item3 ts 0 0 0 =
      cast (phase_dtype (dtype2 demo_dem_nan) (dtype1 (amplify demo_pbase))
              (items1 (amplify demo_pbase) ! 0) (dtype2 demo_rg) (dtype2 demo_inc)) Float32
        (phase_at demo_sine (dtype2 demo_dem_nan) (dtype1 (amplify demo_pbase))
           (dtype2 demo_rg) (dtype2 demo_inc) (item2 demo_dem_nan 0 0)
           (items1 (amplify demo_pbase) ! 0) (item2 demo_rg 0 0) (item2 demo_inc 0 0))"
    by (rule px [rule_format]) simp_all
  then have "item3 ts 0 0 0 = NaN"
    by (simp add: demo_amplify demo_pbase10_def demo_dem_nan_def demo_rg_def demo_inc_def
        demo_phase)
  with ts have b: "pixel_of
      (topo_resid demo_sine demo_dem_nan (amplify demo_pbase) demo_rg demo_inc 2 1 2) 0 0 0
      = Inr NaN"
    by (simp add: pixel_of_def)
  from a demo_normalize den b show ?thesis by (simp add: demo_dem_nan_def)
qed

section \<open>The shape and the element type of the result\<close>

text \<open>
  C5 (amended). For inputs of compatible shapes the loop of lines 78 to 80
  returns. Whenever it returns, the result has the shape \<open>(num_date, length, width)\<close>
  of the three numbers given to \<^verbatim>\<open>np.zeros\<close>, which the notebook reads from the
  reference time-series, and the element type float32, and every element is the
  elementwise arithmetic of line 80 on the baseline of its date and on the rasters
  read through NumPy's broadcasting, converted to float32. The rasters need not
  have the shape \<open>(length, width)\<close>: when there is at least one date, every axis of a
  raster has the length of the matching axis of the result, or the length 1.
\<close>

theorem result_shape:
  "(compatible_shapes dem pb rg inc n l w \<longrightarrow>
      (\<exists>ts. topo_resid sine dem pb rg inc n l w = Inr ts)) \<and>
   (topo_resid sine dem pb rg inc n l w = Inr ts \<longrightarrow>
      shape3 ts = (n, l, w) \<and> dtype3 ts = Float32 \<and>
      (\<forall>i < n. \<forall>y < l. \<forall>x < w.
         item3 ts i y x =
           cast (phase_dtype (dtype2 dem) (dtype1 pb) (items1 pb ! i) (dtype2 rg) (dtype2 inc))
             Float32
             (phase_at sine (dtype2 dem) (dtype1 pb) (dtype2 rg) (dtype2 inc)
                (item2 dem (bix (nrows dem) y) (bix (ncols dem) x))
                (items1 pb ! i)
                (item2 rg (bix (nrows rg) y) (bix (ncols rg) x))
                (item2 inc (bix (nrows inc) y) (bix (ncols inc) x)))) \<and>
      (0 < n \<longrightarrow>
         (nrows dem = l \<or> nrows dem = 1) \<and> (ncols dem = w \<or> ncols dem = 1) \<and>
         (nrows rg = l \<or> nrows rg = 1) \<and> (ncols rg = w \<or> ncols rg = 1) \<and>
         (nrows inc = l \<or> nrows inc = 1) \<and> (ncols inc = w \<or> ncols inc = 1)))"
proof (intro conjI impI)
  assume "compatible_shapes dem pb rg inc n l w"
  then show "\<exists>ts. topo_resid sine dem pb rg inc n l w = Inr ts"
    by (rule topo_resid_total)
next
  assume ts: "topo_resid sine dem pb rg inc n l w = Inr ts"
  note T = topo_resid_Inr [OF ts]
  show "shape3 ts = (n, l, w)" by (rule T(1))
  show "dtype3 ts = Float32" by (rule T(2))
  show "\<forall>i < n. \<forall>y < l. \<forall>x < w.
         item3 ts i y x =
           cast (phase_dtype (dtype2 dem) (dtype1 pb) (items1 pb ! i) (dtype2 rg) (dtype2 inc))
             Float32
             (phase_at sine (dtype2 dem) (dtype1 pb) (dtype2 rg) (dtype2 inc)
                (item2 dem (bix (nrows dem) y) (bix (ncols dem) x))
                (items1 pb ! i)
                (item2 rg (bix (nrows rg) y) (bix (ncols rg) x))
                (item2 inc (bix (nrows inc) y) (bix (ncols inc) x)))"
    using T(4) by (simp add: pixel_phase_def)
  assume "0 < n"
  note R = topo_resid_rasters [OF ts this]
  from R show "nrows dem = l \<or> nrows dem = 1" by blast
  from R show "ncols dem = w \<or> ncols dem = 1" by blast
  from R show "nrows rg = l \<or> nrows rg = 1" by blast
  from R show "ncols rg = w \<or> ncols rg = 1" by blast
  from R show "nrows inc = l \<or> nrows inc = 1" by blast
  from R show "ncols inc = w \<or> ncols inc = 1" by blast
qed

text \<open>
  The theorem in the small world: the result has the shape \<open>(2, 1, 2)\<close>, the shape
  of the rasters being \<open>(1, 2)\<close>.
\<close>

theorem result_shape_witness:
  "compatible_shapes demo_dem demo_pbase10 demo_rg demo_inc 2 1 2 \<and>
   (\<exists>ts. topo_resid demo_sine demo_dem demo_pbase10 demo_rg demo_inc 2 1 2 = Inr ts \<and>
         shape3 ts = (2, 1, 2) \<and> dtype3 ts = Float32 \<and> item3 ts 1 0 0 = Finite 30 \<and>
         nrows demo_dem = 1 \<and> ncols demo_dem = 2)"
proof -
  have c: "compatible_shapes demo_dem demo_pbase10 demo_rg demo_inc 2 1 2"
    by (simp add: compatible_shapes_def demo_dem_def demo_rg_def demo_inc_def demo_pbase10_def
        bdim_def)
  with result_shape [of demo_dem demo_pbase10 demo_rg demo_inc 2 1 2 demo_sine] obtain ts where
    ts: "topo_resid demo_sine demo_dem demo_pbase10 demo_rg demo_inc 2 1 2 = Inr ts" by blast
  from result_shape [of demo_dem demo_pbase10 demo_rg demo_inc 2 1 2 demo_sine ts] ts have
    sh: "shape3 ts = (2, 1, 2)" and dt: "dtype3 ts = Float32" and
    px: "\<forall>i < 2. \<forall>y < 1. \<forall>x < 2.
            item3 ts i y x =
              cast (phase_dtype (dtype2 demo_dem) (dtype1 demo_pbase10)
                      (items1 demo_pbase10 ! i) (dtype2 demo_rg) (dtype2 demo_inc)) Float32
                (phase_at demo_sine (dtype2 demo_dem) (dtype1 demo_pbase10) (dtype2 demo_rg)
                   (dtype2 demo_inc)
                   (item2 demo_dem (bix (nrows demo_dem) y) (bix (ncols demo_dem) x))
                   (items1 demo_pbase10 ! i)
                   (item2 demo_rg (bix (nrows demo_rg) y) (bix (ncols demo_rg) x))
                   (item2 demo_inc (bix (nrows demo_inc) y) (bix (ncols demo_inc) x)))"
    by blast+
  have "item3 ts 1 0 0 =
          cast (phase_dtype (dtype2 demo_dem) (dtype1 demo_pbase10)
                  (items1 demo_pbase10 ! 1) (dtype2 demo_rg) (dtype2 demo_inc)) Float32
            (phase_at demo_sine (dtype2 demo_dem) (dtype1 demo_pbase10) (dtype2 demo_rg)
               (dtype2 demo_inc)
               (item2 demo_dem (bix (nrows demo_dem) 0) (bix (ncols demo_dem) 0))
               (items1 demo_pbase10 ! 1)
               (item2 demo_rg (bix (nrows demo_rg) 0) (bix (ncols demo_rg) 0))
               (item2 demo_inc (bix (nrows demo_inc) 0) (bix (ncols demo_inc) 0)))"
    by (rule px [rule_format]) simp_all
  then have "item3 ts 1 0 0 = Finite 30"
    by (simp add: demo_dem_def demo_rg_def demo_inc_def demo_pbase10_def bix_def demo_phase)
  moreover have "nrows demo_dem = 1" "ncols demo_dem = 2" by (simp_all add: demo_dem_def)
  ultimately show ?thesis using c ts sh dt by blast
qed

text \<open>
  \<open>(length, width)\<close> is not always the shape of the geometry rasters: with three
  rasters of one pixel, two dates, and the length 5 and the width 7, the loop
  returns an array of the shape \<open>(2, 5, 7)\<close>, every pixel of its second epoch being
  \<open>3 * 20 / (2 * 1) = 30\<close>, while the rasters have the shape \<open>(1, 1)\<close>.
\<close>

theorem result_shape_counterexample:
  "shape2 (one_pixel (Finite 3)) = (1, 1) \<and> shape2 (one_pixel (Finite 2)) = (1, 1) \<and>
   shape2 (one_pixel (Finite 90)) = (1, 1) \<and>
   shape_of (topo_resid demo_sine (one_pixel (Finite 3)) demo_pbase10 (one_pixel (Finite 2))
               (one_pixel (Finite 90)) 2 5 7) = Inr (2, 5, 7) \<and>
   pixel_of (topo_resid demo_sine (one_pixel (Finite 3)) demo_pbase10 (one_pixel (Finite 2))
               (one_pixel (Finite 90)) 2 5 7) 1 4 6 = Inr (Finite 30) \<and>
   (5, 7) \<noteq> shape2 (one_pixel (Finite 2))"
proof -
  have l2: "(2::nat) \<le> length (items1 demo_pbase10)" by (simp add: demo_pbase10_def)
  have r: "Option.bind (bdim (nrows (one_pixel (Finite 2))) (nrows (one_pixel (Finite 90))))
             (bdim (nrows (one_pixel (Finite 3)))) = Some 1"
    and c: "Option.bind (bdim (ncols (one_pixel (Finite 2))) (ncols (one_pixel (Finite 90))))
             (bdim (ncols (one_pixel (Finite 3)))) = Some 1"
    by (simp_all add: one_pixel_def bdim_def)
  from topo_resid_broadcast [OF l2 r c, where l = 5 and w = 7 and sine = demo_sine]
  obtain ts where
    ts: "topo_resid demo_sine (one_pixel (Finite 3)) demo_pbase10 (one_pixel (Finite 2))
           (one_pixel (Finite 90)) 2 5 7 = Inr ts"
    by auto
  note T = topo_resid_Inr [OF ts]
  have "item3 ts 1 4 6 =
      pixel_phase demo_sine (one_pixel (Finite 3)) (dtype1 demo_pbase10)
        (items1 demo_pbase10 ! 1) (one_pixel (Finite 2)) (one_pixel (Finite 90)) 4 6"
    by (rule T(4)) simp
  then have "item3 ts 1 4 6 = Finite 30"
    by (simp add: pixel_phase_def one_pixel_def demo_pbase10_def demo_phase)
  with ts T(1) show ?thesis
    by (simp add: shape_of_def pixel_of_def shape2_def one_pixel_def)
qed

section \<open>The guard on the output file\<close>

text \<open>
  C6. If the output file exists when the second cell runs, the cell returns with
  the notebook's variables unchanged (\<^verbatim>\<open>pbase\<close> is not rescaled, no array is
  computed), with the world outside unchanged (the existing file is left as it
  is), and with one event only, the line \<^verbatim>\<open>Done.\<close>: no dataset is read, nothing is
  written. If the file does not exist and the cell completes, it has read the
  three datasets, rescaled \<^verbatim>\<open>pbase\<close>, computed the array and written it.
\<close>

theorem existing_output_skips:
  "(isfile E (out_file g) (ext w) \<longrightarrow>
      cell1 sine E (g, w) = Inr (g, w\<lparr>trace := trace w @ [Print ''Done.'']\<rparr>)) \<and>
   (\<not> isfile E (out_file g) (ext w) \<longrightarrow> cell1 sine E (g, w) = Inr (g1, w1) \<longrightarrow>
      (\<exists>ts. pbase g1 = amplify (pbase g) \<and> ts_data g1 = Some ts \<and>
            writefile_write E ts (out_file g) (ts_file g) (ext w) = Inr (ext w1) \<and>
            trace w1 = trace w @
              [ReadFile (geom_file g) (Some ''incidenceAngle''),
               ReadFile (geom_file g) (Some ''slantRangeDistance''),
               ReadFile (dem_err_file g) None,
               WriteFile ts (out_file g) (ts_file g),
               Print (''write simulated topographic residual time-series to file ''
                      @ out_file g),
               Print ''Done.'']))"
proof (intro conjI impI)
  assume "isfile E (out_file g) (ext w)"
  then show "cell1 sine E (g, w) = Inr (g, w\<lparr>trace := trace w @ [Print ''Done.'']\<rparr>)"
    by (rule cell1_skip)
next
  assume "\<not> isfile E (out_file g) (ext w)" and "cell1 sine E (g, w) = Inr (g1, w1)"
  from cell1_Inr [OF this(2,1)] show
    "\<exists>ts. pbase g1 = amplify (pbase g) \<and> ts_data g1 = Some ts \<and>
            writefile_write E ts (out_file g) (ts_file g) (ext w) = Inr (ext w1) \<and>
            trace w1 = trace w @
              [ReadFile (geom_file g) (Some ''incidenceAngle''),
               ReadFile (geom_file g) (Some ''slantRangeDistance''),
               ReadFile (dem_err_file g) None,
               WriteFile ts (out_file g) (ts_file g),
               Print (''write simulated topographic residual time-series to file ''
                      @ out_file g),
               Print ''Done.'']"
    by auto
qed

text \<open>
  Both cases in the small world: with the output file present the cell only
  prints; without it the cell reads the three datasets and writes the file.
\<close>

theorem existing_output_skips_witness:
  "isfile (demo_lib []) (out_file demo_globals) (ext (demo_world [''sim_topoResid.h5''])) \<and>
   cell1 demo_sine (demo_lib []) (demo_globals, demo_world [''sim_topoResid.h5'']) =
     Inr (demo_globals, \<lparr>ext = [''sim_topoResid.h5''], trace = [Print ''Done.'']\<rparr>) \<and>
   \<not> isfile (demo_lib []) (out_file demo_globals) (ext (demo_world [])) \<and>
   (\<exists>g1 w1 ts. cell1 demo_sine (demo_lib []) (demo_globals, demo_world []) = Inr (g1, w1) \<and>
      pbase g1 = demo_pbase10 \<and> ts_data g1 = Some ts \<and> ext w1 = [''sim_topoResid.h5''] \<and>
      files_read (trace w1) =
        [(geom_file demo_globals, Some ''incidenceAngle''),
         (geom_file demo_globals, Some ''slantRangeDistance''),
         (dem_err_file demo_globals, None)] \<and>
      written_files (trace w1) = [''sim_topoResid.h5''])"
proof -
  have y: "isfile (demo_lib []) (out_file demo_globals) (ext (demo_world [''sim_topoResid.h5'']))"
    by (simp add: demo_lib_def demo_globals_def demo_world_def)
  have n: "\<not> isfile (demo_lib []) (out_file demo_globals) (ext (demo_world []))"
    by (simp add: demo_lib_def demo_globals_def demo_world_def)
  from existing_output_skips
    [of "demo_lib []" demo_globals "demo_world [''sim_topoResid.h5'']" demo_sine] y
  have skip: "cell1 demo_sine (demo_lib []) (demo_globals, demo_world [''sim_topoResid.h5'']) =
     Inr (demo_globals, \<lparr>ext = [''sim_topoResid.h5''], trace = [Print ''Done.'']\<rparr>)"
    by (simp add: demo_world_def)
  from demo_topo_resid obtain ts0 where
    ts0: "topo_resid demo_sine demo_dem demo_pbase10 demo_rg demo_inc 2 1 2 = Inr ts0" by blast
  have "''sim_topoResid.h5'' \<notin> set ([] :: string list)" by simp
  note run = demo_cell1 [OF ts0 this, of "[]", folded demo_world_def]
  from existing_output_skips [of "demo_lib []" demo_globals "demo_world []" demo_sine
      "demo_globals\<lparr>pbase := demo_pbase10, ts_data := Some ts0\<rparr>"] n run
  obtain ts where
    "pbase (demo_globals\<lparr>pbase := demo_pbase10, ts_data := Some ts0\<rparr>) = amplify (pbase demo_globals)"
    "ts_data (demo_globals\<lparr>pbase := demo_pbase10, ts_data := Some ts0\<rparr>) = Some ts"
    by blast
  with run n y skip show ?thesis
    by (simp add: demo_globals_def)
qed

section \<open>Zero denominators\<close>

text \<open>
  C7. The division of line 80 is not guarded and the loop is total all the same:
  for rasters of the shape \<open>(l, w)\<close> and a baseline array with an entry for each
  date, the loop returns a time-series, whatever the values of the rasters are,
  and at every pixel where the denominator
  \<^verbatim>\<open>rg_dist[y,x] * sin(inc_angle[y,x] * pi / 180)\<close>, as NumPy computes it, is zero
  the value of every epoch is not finite (an infinity or \<^verbatim>\<open>nan\<close>).
\<close>

theorem zero_denominator_not_finite:
  assumes "n \<le> length (items1 pb)"
    and "shape2 dem = (l, w)" and "shape2 rg = (l, w)" and "shape2 inc = (l, w)"
  shows "\<exists>ts. topo_resid sine dem pb rg inc n l w = Inr ts \<and>
           (\<forall>i < n. \<forall>y < l. \<forall>x < w.
              is_zero
                (denominator sine (dtype2 rg) (dtype2 inc) (item2 rg y x) (item2 inc y x)) \<longrightarrow>
              \<not> is_finite (item3 ts i y x))"
proof -
  from topo_resid_same_shape [OF assms, of sine] obtain ts where
    ts: "topo_resid sine dem pb rg inc n l w = Inr ts" and
    px: "\<forall>i < n. \<forall>y < l. \<forall>x < w.
           item3 ts i y x =
             cast (phase_dtype (dtype2 dem) (dtype1 pb) (items1 pb ! i)
                     (dtype2 rg) (dtype2 inc)) Float32
               (phase_at sine (dtype2 dem) (dtype1 pb) (dtype2 rg) (dtype2 inc)
                  (item2 dem y x) (items1 pb ! i) (item2 rg y x) (item2 inc y x))"
    by blast
  from px have "\<forall>i < n. \<forall>y < l. \<forall>x < w.
      is_zero
        (denominator sine (dtype2 rg) (dtype2 inc) (item2 rg y x) (item2 inc y x)) \<longrightarrow>
      \<not> is_finite (item3 ts i y x)"
    by (simp add: phase_at_def np_divide_by_zero cast_not_finite)
  with ts show ?thesis by blast
qed

text \<open>
  The theorem in the small world, whose pixel \<open>(0, 1)\<close> has a slant-range
  distance of zero: no hypothesis excludes it, the loop returns, and both epochs
  are not finite there.
\<close>

theorem zero_denominator_not_finite_witness:
  "(2::nat) \<le> length (items1 demo_pbase10) \<and>
   shape2 demo_dem = (1, 2) \<and> shape2 demo_rg = (1, 2) \<and> shape2 demo_inc = (1, 2) \<and>
   denominator demo_sine (dtype2 demo_rg) (dtype2 demo_inc) (item2 demo_rg 0 1)
     (item2 demo_inc 0 1) = Finite 0 \<and>
   (\<exists>ts. topo_resid demo_sine demo_dem demo_pbase10 demo_rg demo_inc 2 1 2 = Inr ts \<and>
         \<not> is_finite (item3 ts 0 0 1) \<and> \<not> is_finite (item3 ts 1 0 1))"
proof -
  have h: "(2::nat) \<le> length (items1 demo_pbase10)" by (simp add: demo_pbase10_def)
  have z: "denominator demo_sine (dtype2 demo_rg) (dtype2 demo_inc) (item2 demo_rg 0 1)
      (item2 demo_inc 0 1) = Finite 0"
    by (simp add: demo_rg_def demo_inc_def demo_denominator)
  then have z': "is_zero (denominator demo_sine (dtype2 demo_rg) (dtype2 demo_inc)
      (item2 demo_rg 0 1) (item2 demo_inc 0 1))"
    by simp
  from zero_denominator_not_finite [OF h demo_shapes, of demo_sine] obtain ts where
    ts: "topo_resid demo_sine demo_dem demo_pbase10 demo_rg demo_inc 2 1 2 = Inr ts" and
    px: "\<forall>i < 2. \<forall>y < 1. \<forall>x < 2.
           is_zero
             (denominator demo_sine (dtype2 demo_rg) (dtype2 demo_inc) (item2 demo_rg y x)
                (item2 demo_inc y x)) \<longrightarrow>
           \<not> is_finite (item3 ts i y x)"
    by blast
  have "\<not> is_finite (item3 ts 0 0 1)"
    by (rule px [rule_format, OF _ _ _ z']) simp_all
  moreover have "\<not> is_finite (item3 ts 1 0 1)"
    by (rule px [rule_format, OF _ _ _ z']) simp_all
  ultimately show ?thesis using h demo_shapes z ts by blast
qed

section \<open>Exceptions\<close>

text \<open>
  C8. The notebook catches nothing. An exception of the first cell or of the
  second is the result of the run; in the first cell, a failure of \<^verbatim>\<open>os.chdir\<close>,
  of the sensor-name lookup or of opening the time-series is the result of the
  cell; in the second cell, when the output file does not exist, a failure of any
  of the three reads, of the array computation (a shape mismatch in NumPy's
  broadcasting) or of the write is the result of the cell. No call is made again
  and nothing stands in for a failed call.
\<close>

theorem failures_propagate:
  "(cell0 E w = Inl e \<longrightarrow> notebook sine E w = Inl e) \<and>
   (cell0 E w = Inr s0 \<longrightarrow> cell1 sine E s0 = Inl e \<longrightarrow> notebook sine E w = Inl e) \<and>
   (chdir E (expandvars E ''$PNOTE/phaseCorrection_order'' (ext w)) (ext w) = Inl e \<longrightarrow>
      cell0 E w = Inl e) \<and>
   (chdir E (expandvars E ''$PNOTE/phaseCorrection_order'' (ext w)) (ext w) = Inr x \<longrightarrow>
    project_name2sensor_name E
      (path_join (expanduser E ''~/insarlab/PYSAR_EXAMPLE/AlcedoSenDT128/PYSAR'' x)
         ''timeseries.h5'') x = Inl e \<longrightarrow>
      cell0 E w = Inl e) \<and>
   (chdir E (expandvars E ''$PNOTE/phaseCorrection_order'' (ext w)) (ext w) = Inr x \<longrightarrow>
    project_name2sensor_name E
      (path_join (expanduser E ''~/insarlab/PYSAR_EXAMPLE/AlcedoSenDT128/PYSAR'' x)
         ''timeseries.h5'') x = Inr (sn # names) \<longrightarrow>
    timeseries_open E
      (path_join (expanduser E ''~/insarlab/PYSAR_EXAMPLE/AlcedoSenDT128/PYSAR'' x)
         ''timeseries.h5'') x = Inl e \<longrightarrow>
      cell0 E w = Inl e) \<and>
   (\<not> isfile E (out_file g) (ext v) \<longrightarrow>
      (readfile_read E (geom_file g) (Some ''incidenceAngle'') (ext v) = Inl e \<longrightarrow>
         cell1 sine E (g, v) = Inl e) \<and>
      (readfile_read E (geom_file g) (Some ''incidenceAngle'') (ext v) = Inr inc_angle \<longrightarrow>
         (readfile_read E (geom_file g) (Some ''slantRangeDistance'') (ext v) = Inl e \<longrightarrow>
            cell1 sine E (g, v) = Inl e) \<and>
         (readfile_read E (geom_file g) (Some ''slantRangeDistance'') (ext v) = Inr rg_dist \<longrightarrow>
            (readfile_read E (dem_err_file g) None (ext v) = Inl e \<longrightarrow>
               cell1 sine E (g, v) = Inl e) \<and>
            (readfile_read E (dem_err_file g) None (ext v) = Inr dem_err \<longrightarrow>
               (topo_resid sine dem_err (amplify (pbase g)) rg_dist inc_angle
                  (num_date g) (length' g) (width g) = Inl e \<longrightarrow>
                  cell1 sine E (g, v) = Inl e) \<and>
               (topo_resid sine dem_err (amplify (pbase g)) rg_dist inc_angle
                  (num_date g) (length' g) (width g) = Inr ts \<longrightarrow>
                writefile_write E ts (out_file g) (ts_file g) (ext v) = Inl e \<longrightarrow>
                  cell1 sine E (g, v) = Inl e)))))"
  by (simp add: notebook_def cell0_def cell1_def bindE_def Let_def getitem_def)

text \<open>
  Each case in the small world, with a library in which the named call raises;
  under \<open>''shape''\<close> the DEM error has three rows where the time-series has one.
\<close>

theorem failures_propagate_witness:
  "notebook demo_sine (demo_lib [''chdir'']) (demo_world []) = Inl (Raised ''FileNotFoundError'') \<and>
   cell0 (demo_lib [''sensor'']) (demo_world []) = Inl (Raised ''TypeError'') \<and>
   cell0 (demo_lib [''open'']) (demo_world []) = Inl (Raised ''OSError'') \<and>
   cell1 demo_sine (demo_lib [''incidenceAngle'']) (demo_globals, demo_world [])
     = Inl (Raised ''FileNotFoundError'') \<and>
   cell1 demo_sine (demo_lib [''slantRangeDistance'']) (demo_globals, demo_world [])
     = Inl (Raised ''FileNotFoundError'') \<and>
   cell1 demo_sine (demo_lib [''demErr'']) (demo_globals, demo_world [])
     = Inl (Raised ''FileNotFoundError'') \<and>
   cell1 demo_sine (demo_lib [''shape'']) (demo_globals, demo_world []) = Inl ValueError \<and>
   cell1 demo_sine (demo_lib [''write'']) (demo_globals, demo_world []) = Inl (Raised ''OSError'')"
proof -
  have a: "cell0 (demo_lib [''chdir'']) (demo_world []) = Inl (Raised ''FileNotFoundError'')"
    using failures_propagate [where sine = demo_sine and E = "demo_lib [''chdir'']" and w = "demo_world []"
        and e = "Raised ''FileNotFoundError''"]
    by (simp add: demo_lib_def)
  have a': "notebook demo_sine (demo_lib [''chdir'']) (demo_world []) = Inl (Raised ''FileNotFoundError'')"
    using failures_propagate [where sine = demo_sine and E = "demo_lib [''chdir'']" and w = "demo_world []"
        and e = "Raised ''FileNotFoundError''"] a
    by blast
  have b: "cell0 (demo_lib [''sensor'']) (demo_world []) = Inl (Raised ''TypeError'')"
    using failures_propagate [where sine = demo_sine and E = "demo_lib [''sensor'']" and w = "demo_world []"
        and e = "Raised ''TypeError''" and x = "[]"]
    by (simp add: demo_lib_def demo_world_def)
  have c: "cell0 (demo_lib [''open'']) (demo_world []) = Inl (Raised ''OSError'')"
    using failures_propagate [where sine = demo_sine and E = "demo_lib [''open'']" and w = "demo_world []"
        and e = "Raised ''OSError''" and x = "[]" and sn = "''Sen''" and names = "[]"]
    by (simp add: demo_lib_def demo_world_def)
  have d: "cell1 demo_sine (demo_lib [''incidenceAngle'']) (demo_globals, demo_world [])
             = Inl (Raised ''FileNotFoundError'')"
    using failures_propagate [where sine = demo_sine and E = "demo_lib [''incidenceAngle'']" and g = demo_globals
        and v = "demo_world []" and e = "Raised ''FileNotFoundError''"]
    by (simp add: demo_lib_def demo_world_def demo_globals_simps)
  have e: "cell1 demo_sine (demo_lib [''slantRangeDistance'']) (demo_globals, demo_world [])
             = Inl (Raised ''FileNotFoundError'')"
    using failures_propagate [where sine = demo_sine and E = "demo_lib [''slantRangeDistance'']" and g = demo_globals
        and v = "demo_world []" and e = "Raised ''FileNotFoundError''" and inc_angle = demo_inc]
    by (simp add: demo_lib_def demo_world_def demo_globals_simps)
  have f: "cell1 demo_sine (demo_lib [''demErr'']) (demo_globals, demo_world [])
             = Inl (Raised ''FileNotFoundError'')"
    using failures_propagate [where sine = demo_sine and E = "demo_lib [''demErr'']" and g = demo_globals
        and v = "demo_world []" and e = "Raised ''FileNotFoundError''" and inc_angle = demo_inc
        and rg_dist = demo_rg]
    by (simp add: demo_lib_def demo_world_def demo_globals_simps)
  have g: "cell1 demo_sine (demo_lib [''shape'']) (demo_globals, demo_world []) = Inl ValueError"
    using failures_propagate [where sine = demo_sine and E = "demo_lib [''shape'']" and g = demo_globals
        and v = "demo_world []" and e = ValueError and inc_angle = demo_inc
        and rg_dist = demo_rg and dem_err = "demo_dem\<lparr>nrows := 3\<rparr>"]
      demo_shape_mismatch
    by (simp add: demo_lib_def demo_world_def demo_globals_simps)
  from demo_topo_resid obtain ts0 where
    ts0: "topo_resid demo_sine demo_dem demo_pbase10 demo_rg demo_inc 2 1 2 = Inr ts0" by blast
  have h: "cell1 demo_sine (demo_lib [''write'']) (demo_globals, demo_world []) = Inl (Raised ''OSError'')"
    using failures_propagate [where sine = demo_sine and E = "demo_lib [''write'']" and g = demo_globals
        and v = "demo_world []" and e = "Raised ''OSError''" and inc_angle = demo_inc
        and rg_dist = demo_rg and dem_err = demo_dem and ts = ts0] ts0
    by (simp add: demo_lib_def demo_world_def demo_globals_simps)
  from a' b c d e f g h show ?thesis by blast
qed

section \<open>The result depends on the inputs only\<close>

text \<open>
  C9. Take two runs of the second cell that complete, in any two libraries and
  worlds and with any variables, in which the output file does not exist. If the
  three reads return the same arrays and the two runs have the same \<^verbatim>\<open>pbase\<close>,
  \<^verbatim>\<open>num_date\<close>, \<^verbatim>\<open>length\<close> and \<^verbatim>\<open>width\<close>, then both compute and write the same
  array, NumPy's sine being one function.
\<close>

theorem same_inputs_same_output:
  assumes "cell1 sine E (g, w) = Inr (g1, w1)" and "cell1 sine E' (g', w') = Inr (g1', w1')"
    and "\<not> isfile E (out_file g) (ext w)" and "\<not> isfile E' (out_file g') (ext w')"
    and "readfile_read E (geom_file g) (Some ''incidenceAngle'') (ext w) =
         readfile_read E' (geom_file g') (Some ''incidenceAngle'') (ext w')"
    and "readfile_read E (geom_file g) (Some ''slantRangeDistance'') (ext w) =
         readfile_read E' (geom_file g') (Some ''slantRangeDistance'') (ext w')"
    and "readfile_read E (dem_err_file g) None (ext w) =
         readfile_read E' (dem_err_file g') None (ext w')"
    and "pbase g = pbase g'"
    and "num_date g = num_date g'" and "length' g = length' g'" and "width g = width g'"
  shows "\<exists>ts. ts_data g1 = Some ts \<and> ts_data g1' = Some ts \<and>
              written_arrays (trace w1) = written_arrays (trace w) @ [ts] \<and>
              written_arrays (trace w1') = written_arrays (trace w') @ [ts]"
proof -
  from cell1_Inr [OF assms(1,3)] obtain inc rg dem ts x where
    r: "readfile_read E (geom_file g) (Some ''incidenceAngle'') (ext w) = Inr inc"
      "readfile_read E (geom_file g) (Some ''slantRangeDistance'') (ext w) = Inr rg"
      "readfile_read E (dem_err_file g) None (ext w) = Inr dem" and
    ts: "topo_resid sine dem (amplify (pbase g)) rg inc (num_date g) (length' g) (width g) = Inr ts"
    and g1: "g1 = g\<lparr>pbase := amplify (pbase g), ts_data := Some ts\<rparr>" and
    w1: "w1 = \<lparr>ext = x,
                 trace = trace w @
                   [ReadFile (geom_file g) (Some ''incidenceAngle''),
                    ReadFile (geom_file g) (Some ''slantRangeDistance''),
                    ReadFile (dem_err_file g) None,
                    WriteFile ts (out_file g) (ts_file g),
                    Print (''write simulated topographic residual time-series to file ''
                           @ out_file g),
                    Print ''Done.'']\<rparr>"
    by blast
  from cell1_Inr [OF assms(2,4)] obtain inc' rg' dem' ts' x' where
    r': "readfile_read E' (geom_file g') (Some ''incidenceAngle'') (ext w') = Inr inc'"
      "readfile_read E' (geom_file g') (Some ''slantRangeDistance'') (ext w') = Inr rg'"
      "readfile_read E' (dem_err_file g') None (ext w') = Inr dem'" and
    ts': "topo_resid sine dem' (amplify (pbase g')) rg' inc' (num_date g') (length' g') (width g')
            = Inr ts'"
    and g1': "g1' = g'\<lparr>pbase := amplify (pbase g'), ts_data := Some ts'\<rparr>" and
    w1': "w1' = \<lparr>ext = x',
                 trace = trace w' @
                   [ReadFile (geom_file g') (Some ''incidenceAngle''),
                    ReadFile (geom_file g') (Some ''slantRangeDistance''),
                    ReadFile (dem_err_file g') None,
                    WriteFile ts' (out_file g') (ts_file g'),
                    Print (''write simulated topographic residual time-series to file ''
                           @ out_file g'),
                    Print ''Done.'']\<rparr>"
    by blast
  from r r' assms(5-7) have "inc' = inc" "rg' = rg" "dem' = dem" by simp_all
  with ts ts' assms(8-11) have "ts' = ts" by simp
  then show ?thesis
    by (simp add: g1 g1' w1 w1' written_arrays_append)
qed

text \<open>
  Two runs in the small world that differ in the library, in the paths, in the
  files that exist and in what was printed before: the same array is written.
\<close>

theorem same_inputs_same_output_witness:
  "\<exists>g1 w1 g1' w1' ts.
     cell1 demo_sine (demo_lib []) (demo_globals, demo_world []) = Inr (g1, w1) \<and>
     cell1 demo_sine (demo_lib [''chdir''])
       (demo_globals\<lparr>work_dir := ''/tmp'', geom_file := ''geometryRadar.h5''\<rparr>,
        \<lparr>ext = [''timeseries.h5''], trace = [Print ''again'']\<rparr>) = Inr (g1', w1') \<and>
     ts_data g1 = Some ts \<and> ts_data g1' = Some ts \<and>
     written_arrays (trace w1) = [ts] \<and> written_arrays (trace w1') = [ts]"
proof -
  let ?E' = "demo_lib [''chdir'']"
  let ?g' = "demo_globals\<lparr>work_dir := ''/tmp'', geom_file := ''geometryRadar.h5''\<rparr>"
  let ?w' = "\<lparr>ext = [''timeseries.h5''], trace = [Print ''again'']\<rparr>"
  from demo_topo_resid obtain ts0 where
    ts0: "topo_resid demo_sine demo_dem demo_pbase10 demo_rg demo_inc 2 1 2 = Inr ts0" by blast
  have "''sim_topoResid.h5'' \<notin> set ([] :: string list)" by simp
  note c = demo_cell1 [OF ts0 this, of "[]", folded demo_world_def]
  have rd: "readfile_read ?E' f (Some ''incidenceAngle'') x = Inr demo_inc"
    "readfile_read ?E' f (Some ''slantRangeDistance'') x = Inr demo_rg"
    "readfile_read ?E' f None x = Inr demo_dem" for f x
    by (simp_all add: demo_lib_def)
  have gs: "pbase ?g' = pbase demo_globals" "num_date ?g' = num_date demo_globals"
    "length' ?g' = length' demo_globals" "width ?g' = width demo_globals"
    "out_file ?g' = out_file demo_globals"
    by simp_all
  have nf: "\<not> isfile (demo_lib []) (out_file demo_globals) (ext (demo_world []))"
    by (simp add: demo_lib_def demo_world_def demo_globals_simps)
  have nf': "\<not> isfile ?E' (out_file ?g') (ext ?w')"
    by (simp add: demo_lib_def demo_globals_simps)
  have wr: "writefile_write ?E' ts0 (out_file ?g') (ts_file ?g') (ext ?w')
              = Inr [''sim_topoResid.h5'', ''timeseries.h5'']"
    by (simp add: demo_lib_def demo_globals_simps)
  have tr: "topo_resid demo_sine demo_dem (amplify (pbase ?g')) demo_rg demo_inc
              (num_date ?g') (length' ?g') (width ?g') = Inr ts0"
    using ts0 by (simp add: demo_globals_simps)
  note c' = cell1_run [OF nf' rd tr wr]
  from same_inputs_same_output [OF c c' nf nf'] obtain ts where
    "ts_data (demo_globals\<lparr>pbase := demo_pbase10, ts_data := Some ts0\<rparr>) = Some ts"
    "ts_data (?g'\<lparr>pbase := amplify (pbase ?g'), ts_data := Some ts0\<rparr>) = Some ts"
    by (auto simp: demo_reads rd)
  with c c' show ?thesis
    by (intro exI [of _ ts0] exI conjI) (assumption | simp add: demo_world_def)+
qed

section \<open>One output file, one shell command\<close>

text \<open>
  C10 (amended). A run of the notebook that completes writes the file
  \<^verbatim>\<open>sim_topoResid.h5\<close> once when that file did not exist when the second cell
  ran, and writes no file when it did; it then issues one shell command, its last
  event, \<^verbatim>\<open>view.py sim_topoResid.h5 -n 4\<close>: the plotting utility with the output
  file as positional argument and the flag \<^verbatim>\<open>-n 4\<close>.
\<close>

theorem one_output_file_unless_present:
  assumes "notebook sine E w = Inr (g, w')" and "cell0 E w = Inr (g0, w0)"
  shows "\<exists>evs. trace w' = trace w @ evs \<and>
           written_files evs =
             (if isfile E ''sim_topoResid.h5'' (ext w0) then [] else [''sim_topoResid.h5'']) \<and>
           shell_commands evs = [''view.py sim_topoResid.h5 -n 4''] \<and>
           last evs = Shell ''view.py sim_topoResid.h5 -n 4''"
proof -
  from notebook_Inr [OF assms(1)] assms(2) obtain g1 w1 where
    c1: "cell1 sine E (g0, w0) = Inr (g1, w1)" and c2: "cell2 E (g1, w1) = Inr (g, w')"
    by auto
  from cell0_Inr [OF assms(2)] have
    out: "out_file g0 = ''sim_topoResid.h5''" and
    tr0: "trace w0 = trace w @ [Chdir (work_dir g0), Print (''Go to directory: '' @ work_dir g0),
                                 OpenTimeseries (ts_file g0)]"
    by auto
  from c2 have tr2: "trace w' = trace w1 @ [Shell (''view.py '' @ out_file g1 @ '' -n 4'')]"
    by (auto simp: cell2_eq)
  show ?thesis
  proof (cases "isfile E ''sim_topoResid.h5'' (ext w0)")
    case True
    with cell1_skip [of E g0 w0 sine] c1 out have "g1 = g0" "trace w1 = trace w0 @ [Print ''Done.'']"
      by auto
    with tr2 tr0 out True show ?thesis by simp
  next
    case False
    with out have "\<not> isfile E (out_file g0) (ext w0)" by simp
    from cell1_Inr [OF c1 this] obtain ts where
      "out_file g1 = out_file g0"
      "trace w1 = trace w0 @
         [ReadFile (geom_file g0) (Some ''incidenceAngle''),
          ReadFile (geom_file g0) (Some ''slantRangeDistance''),
          ReadFile (dem_err_file g0) None,
          WriteFile ts (out_file g0) (ts_file g0),
          Print (''write simulated topographic residual time-series to file '' @ out_file g0),
          Print ''Done.'']"
      by auto
    with tr2 tr0 out False show ?thesis by simp
  qed
qed

text \<open>
  The theorem in the small world, with the output file present and without it.
\<close>

theorem one_output_file_unless_present_witness:
  "\<exists>evs evs'.
     events_of (notebook demo_sine (demo_lib []) (demo_world [''sim_topoResid.h5''])) = Inr evs \<and>
     written_files evs = [] \<and> shell_commands evs = [''view.py sim_topoResid.h5 -n 4''] \<and>
     events_of (notebook demo_sine (demo_lib []) (demo_world [])) = Inr evs' \<and>
     written_files evs' = [''sim_topoResid.h5''] \<and>
     shell_commands evs' = [''view.py sim_topoResid.h5 -n 4''] \<and>
     last evs' = Shell ''view.py sim_topoResid.h5 -n 4''"
proof -
  let ?E = "demo_lib []"
  have sys: "system ?E cmd x = x" for cmd x
    by (simp add: demo_lib_def)
  \<comment> \<open>the output file is there\<close>
  have c1: "cell1 demo_sine ?E (demo_globals, \<lparr>ext = [''sim_topoResid.h5''], trace = tr\<rparr>) =
              Inr (demo_globals,
                   \<lparr>ext = [''sim_topoResid.h5''], trace = tr @ [Print ''Done.'']\<rparr>)" for tr
    by (simp add: cell1_def demo_lib_def demo_globals_def)
  obtain g w' where n: "notebook demo_sine ?E (demo_world [''sim_topoResid.h5'']) = Inr (g, w')"
    by (simp add: notebook_def demo_world_def demo_cell0 bindE_Inr c1 cell2_eq)
  note c0 = demo_cell0 [of "[''sim_topoResid.h5'']" "[]", folded demo_world_def]
  from one_output_file_unless_present [OF n c0] obtain evs where
    evs: "trace w' = trace (demo_world [''sim_topoResid.h5'']) @ evs"
      "written_files evs = []" "shell_commands evs = [''view.py sim_topoResid.h5 -n 4'']"
    by (auto simp: demo_lib_def)
  from n evs(1) have e: "events_of (notebook demo_sine ?E (demo_world [''sim_topoResid.h5''])) = Inr evs"
    by (simp add: events_of_def demo_world_def)
  \<comment> \<open>the output file is not there\<close>
  from demo_topo_resid obtain ts0 where
    ts0: "topo_resid demo_sine demo_dem demo_pbase10 demo_rg demo_inc 2 1 2 = Inr ts0" by blast
  have "''sim_topoResid.h5'' \<notin> set ([] :: string list)" by simp
  note r1 = demo_cell1 [OF ts0 this]
  obtain g' w'' where n': "notebook demo_sine ?E (demo_world []) = Inr (g', w'')"
    by (simp add: notebook_def demo_world_def demo_cell0 bindE_Inr r1 cell2_eq)
  note c0' = demo_cell0 [of "[]" "[]", folded demo_world_def]
  from one_output_file_unless_present [OF n' c0'] obtain evs' where
    evs': "trace w'' = trace (demo_world []) @ evs'"
      "written_files evs' = [''sim_topoResid.h5'']"
      "shell_commands evs' = [''view.py sim_topoResid.h5 -n 4'']"
      "last evs' = Shell ''view.py sim_topoResid.h5 -n 4''"
    by (auto simp: demo_lib_def)
  from n' evs'(1) have e': "events_of (notebook demo_sine ?E (demo_world [])) = Inr evs'"
    by (simp add: events_of_def demo_world_def)
  from e evs(2,3) e' evs'(2-4) show ?thesis by blast
qed

text \<open>
  A run that writes no file: the output file is there, and the events of the run
  are a change of directory, the opening of the time-series, two printed lines
  and the shell command.
\<close>

theorem one_output_file_counterexample:
  "events_of (notebook demo_sine (demo_lib []) (demo_world [''sim_topoResid.h5''])) =
     Inr [Chdir ''/notes/phaseCorrection_order'',
          Print ''Go to directory: /notes/phaseCorrection_order'',
          OpenTimeseries ''/home/u/insarlab/PYSAR_EXAMPLE/AlcedoSenDT128/PYSAR/timeseries.h5'',
          Print ''Done.'',
          Shell ''view.py sim_topoResid.h5 -n 4''] \<and>
   files_written_by (notebook demo_sine (demo_lib []) (demo_world [''sim_topoResid.h5''])) = Inr [] \<and>
   files_written_by (notebook demo_sine (demo_lib []) (demo_world [''sim_topoResid.h5'']))
     \<noteq> Inr [''sim_topoResid.h5'']"
proof -
  have c1: "cell1 demo_sine (demo_lib []) (demo_globals, \<lparr>ext = [''sim_topoResid.h5''], trace = tr\<rparr>) =
              Inr (demo_globals,
                   \<lparr>ext = [''sim_topoResid.h5''], trace = tr @ [Print ''Done.'']\<rparr>)" for tr
    by (simp add: cell1_def demo_lib_def demo_globals_def)
  have sys: "system (demo_lib []) cmd x = x" for cmd x
    by (simp add: demo_lib_def)
  have "notebook demo_sine (demo_lib []) (demo_world [''sim_topoResid.h5'']) =
          Inr (demo_globals,
               \<lparr>ext = [''sim_topoResid.h5''],
                 trace = [Chdir ''/notes/phaseCorrection_order'',
                          Print ''Go to directory: /notes/phaseCorrection_order'',
                          OpenTimeseries (ts_file demo_globals),
                          Print ''Done.'',
                          Shell (''view.py '' @ out_file demo_globals @ '' -n 4'')]\<rparr>)"
    by (simp add: notebook_def demo_world_def demo_cell0 bindE_Inr c1 cell2_eq sys)
  then show ?thesis
    by (simp add: events_of_def files_written_by_def demo_globals_def)
qed

end
